theory Spec2Isabelle
  imports Main
begin

section \<open>Strings, numbers and errors\<close>

text \<open>
  A JavaScript string is a sequence of UTF-16 code units; \<open>length\<close>, \<open>===\<close>, \<open>split\<close>,
  \<open>trim\<close> and the regular expression engine all work on code units. A string is
  therefore a list of code units, each a natural number. \<open>js\<close> turns an ASCII literal
  of the source into its code units; a template literal is a concatenation.
\<close>

type_synonym jsstring = "nat list"

definition js :: "string \<Rightarrow> jsstring" where
  "js s = map of_char s"

text \<open>
  The source raises \<open>Error(message)\<close>. Each constructor below stands for one
  \<open>throw\<close> site (two for \<open>MalformedCidr\<close>, told apart by \<open>cidr_check\<close>) and carries the
  values the message interpolates. The names are those of the specification's error
  taxonomy.
\<close>

datatype constraint_key = MaxNodes | DiskSize | NodeCount

datatype cidr_check = Format | OctetRange

datatype component = Secrets | Identity

datatype error =
    InvalidEnvironment jsstring
  | InvalidRegion jsstring
  | InvalidMachineType jsstring
  | OutOfRange constraint_key int
  | MinExceedsMax int int
  | MalformedCidr cidr_check jsstring
  | NotPrivateRange jsstring
  | MisalignedBlock jsstring
  | EmptySecretList
  | BlankSecretId
  | SecretNotFound jsstring "jsstring list"
  | IncompleteIdentityConfig
  | BlankProjectId
  | InvalidServiceAccountIdLength
  | BlankNamespace
  | BlankServiceAccountName
  | NotConfigured component

text \<open>A statement that may throw, followed by the rest of the block.\<close>

definition and_then :: "error + 'a \<Rightarrow> ('a \<Rightarrow> error + 'b) \<Rightarrow> error + 'b" where
  "and_then r k = (case r of Inl e \<Rightarrow> Inl e | Inr v \<Rightarrow> k v)"

text \<open>
  Reading an optional property \<open>x?: T\<close> gives \<open>undefined\<close>, here \<open>None\<close>, when the key is
  absent or holds \<open>undefined\<close>, and \<open>Some v\<close> when it holds the value \<open>v\<close>; \<open>a ?? d\<close> is
  \<open>nullish a d\<close>.
\<close>

definition nullish :: "'a option \<Rightarrow> 'a \<Rightarrow> 'a" where
  "nullish a d = (case a of None \<Rightarrow> d | Some v \<Rightarrow> v)"

text \<open>
  A property declared \<open>x: string\<close> holds a string whenever its object was written
  against the declared types, but an object spread (section Profiles) can leave
  \<open>undefined\<close> at such a key. Where that can happen the value is an option, \<open>None\<close> being
  \<open>undefined\<close>, and a template literal \<open>`${x}`\<close> turns it into a string: \<open>undefined\<close>
  reads \<open>undefined\<close>.
\<close>

definition interpolate :: "jsstring option \<Rightarrow> jsstring" where
  "interpolate x = (case x of None \<Rightarrow> js ''undefined'' | Some v \<Rightarrow> v)"

section \<open>Policy constraints (config/constraints.ts)\<close>

definition ALLOWED_ENVIRONMENTS :: "jsstring list" where
  "ALLOWED_ENVIRONMENTS = [js ''dev'', js ''staging'', js ''prod'']"

definition ALLOWED_REGIONS :: "jsstring list" where
  "ALLOWED_REGIONS =
     [js ''europe-west1'', js ''europe-west3'', js ''europe-west4'',
      js ''us-central1'', js ''us-east1'']"

definition ALLOWED_MACHINE_TYPES :: "jsstring list" where
  "ALLOWED_MACHINE_TYPES =
     [js ''e2-micro'', js ''e2-small'', js ''e2-medium'', js ''e2-standard-2'',
      js ''e2-standard-4'', js ''n2-standard-2'', js ''n2-standard-4'',
      js ''n2-standard-8'', js ''n2-highmem-2'', js ''n2-highmem-4'']"

record limits =
  min_limit :: int
  max_limit :: int

fun CONSTRAINTS :: "constraint_key \<Rightarrow> limits" where
  "CONSTRAINTS MaxNodes = \<lparr>min_limit = 1, max_limit = 50\<rparr>"
| "CONSTRAINTS DiskSize = \<lparr>min_limit = 30, max_limit = 200\<rparr>"
| "CONSTRAINTS NodeCount = \<lparr>min_limit = 1, max_limit = 20\<rparr>"

text \<open>\<open>xs.includes(v)\<close> on an array of strings.\<close>

definition includes_arr :: "jsstring list \<Rightarrow> jsstring \<Rightarrow> bool" where
  "includes_arr xs v = (v \<in> set xs)"

definition validateEnvironment :: "jsstring \<Rightarrow> error + unit" where
  "validateEnvironment e =
     (if \<not> includes_arr ALLOWED_ENVIRONMENTS e then Inl (InvalidEnvironment e) else Inr ())"

definition validateRegion :: "jsstring \<Rightarrow> error + unit" where
  "validateRegion r =
     (if \<not> includes_arr ALLOWED_REGIONS r then Inl (InvalidRegion r) else Inr ())"

definition validateMachineType :: "jsstring \<Rightarrow> error + unit" where
  "validateMachineType m =
     (if \<not> includes_arr ALLOWED_MACHINE_TYPES m then Inl (InvalidMachineType m) else Inr ())"

definition validateMaxNodes :: "int \<Rightarrow> error + unit" where
  "validateMaxNodes n =
     (if n < min_limit (CONSTRAINTS MaxNodes) \<or> n > max_limit (CONSTRAINTS MaxNodes)
      then Inl (OutOfRange MaxNodes n) else Inr ())"

definition validateDiskSize :: "int \<Rightarrow> error + unit" where
  "validateDiskSize n =
     (if n < min_limit (CONSTRAINTS DiskSize) \<or> n > max_limit (CONSTRAINTS DiskSize)
      then Inl (OutOfRange DiskSize n) else Inr ())"

definition validateNodeCount :: "int \<Rightarrow> error + unit" where
  "validateNodeCount n =
     (if n < min_limit (CONSTRAINTS NodeCount) \<or> n > max_limit (CONSTRAINTS NodeCount)
      then Inl (OutOfRange NodeCount n) else Inr ())"

section \<open>Master CIDR validation\<close>

text \<open>
  The regular expression \<^verbatim>\<open>/^(\d{1,3}\.){3}\d{1,3}\/28$/\<close> uses four constructs: a literal
  character, the class \<^verbatim>\<open>\d\<close> (the ASCII digits, as the expression has no unicode
  flag), concatenation and bounded repetition. \<open>rests r s\<close> lists what is left of \<open>s\<close>
  after each way of matching \<open>r\<close> at its start, longest repetition first; \<open>test\<close> between
  the anchors \<^verbatim>\<open>^\<close> and \<^verbatim>\<open>$\<close> asks for a match that leaves nothing.
\<close>

datatype regex = Chr nat | Digit | Seq regex regex | Rep regex nat nat

definition is_digit :: "nat \<Rightarrow> bool" where
  "is_digit c = (of_char CHR ''0'' \<le> c \<and> c \<le> of_char CHR ''9'')"

fun rep_rests :: "(jsstring \<Rightarrow> jsstring list) \<Rightarrow> nat \<Rightarrow> nat \<Rightarrow> jsstring \<Rightarrow> jsstring list" where
  "rep_rests f lo 0 s = (if lo = 0 then [s] else [])"
| "rep_rests f lo (Suc hi) s =
     concat (map (rep_rests f (lo - 1) hi) (f s)) @ (if lo = 0 then [s] else [])"

primrec rests :: "regex \<Rightarrow> jsstring \<Rightarrow> jsstring list" where
  "rests (Chr c) s = (case s of [] \<Rightarrow> [] | x # xs \<Rightarrow> if x = c then [xs] else [])"
| "rests Digit s = (case s of [] \<Rightarrow> [] | x # xs \<Rightarrow> if is_digit x then [xs] else [])"
| "rests (Seq a b) s = concat (map (rests b) (rests a s))"
| "rests (Rep a lo hi) s = rep_rests (rests a) lo hi s"

definition regex_test :: "regex \<Rightarrow> jsstring \<Rightarrow> bool" where
  "regex_test r s = ([] \<in> set (rests r s))"

definition cidrRegex :: regex where
  "cidrRegex =
     Seq (Rep (Seq (Rep Digit 1 3) (Chr (of_char CHR ''.''))) 3 3)
       (Seq (Rep Digit 1 3)
         (Seq (Chr (of_char CHR ''/'')) (Seq (Chr (of_char CHR ''2'')) (Chr (of_char CHR ''8'')))))"

text \<open>
  \<open>s.split(sep)\<close> for a separator of one code unit: the pieces between the separators,
  always at least one piece (\<open>split_not_Nil\<close> below), so that \<open>[0]\<close> of the result is
  its head.
\<close>

fun split :: "nat \<Rightarrow> jsstring \<Rightarrow> jsstring list" where
  "split sep [] = [[]]"
| "split sep (x # xs) =
     (if x = sep then [] # split sep xs
      else (case split sep xs of [] \<Rightarrow> [[x]] | p # ps \<Rightarrow> (x # p) # ps))"

text \<open>
  A JavaScript number that this function can meet is an integer or the absent value:
  \<open>None\<close> stands for \<open>NaN\<close> and for \<open>undefined\<close> (an array read past the end), which behave
  alike here: every \<open><\<close>, \<open>>\<close>, \<open>>=\<close>, \<open><=\<close> and \<open>===\<close> with them is false and every \<open>!==\<close>
  is true. \<open>Number(s)\<close> is the decimal value of a string of ASCII digits (\<open>0\<close> for the
  empty string); on any other string it is \<open>None\<close> here, which
  leaves out the further numeric syntax of JavaScript (signs, exponents, hexadecimal,
  surrounding white space). The regular expression lets only digit groups reach it.
\<close>

definition digit_value :: "nat \<Rightarrow> int" where
  "digit_value c = int c - int (of_char CHR ''0'')"

definition decimal_value :: "jsstring \<Rightarrow> int" where
  "decimal_value s = foldl (\<lambda>n c. 10 * n + digit_value c) 0 s"

definition Number_js :: "jsstring \<Rightarrow> int option" where
  "Number_js s = (if list_all is_digit s then Some (decimal_value s) else None)"

definition at_index :: "'a option list \<Rightarrow> nat \<Rightarrow> 'a option" where
  "at_index xs i = (if i < length xs then xs ! i else None)"

definition num_lt :: "int option \<Rightarrow> int \<Rightarrow> bool" where
  "num_lt a k = (case a of None \<Rightarrow> False | Some n \<Rightarrow> n < k)"

definition num_gt :: "int option \<Rightarrow> int \<Rightarrow> bool" where
  "num_gt a k = (case a of None \<Rightarrow> False | Some n \<Rightarrow> n > k)"

definition num_ge :: "int option \<Rightarrow> int \<Rightarrow> bool" where
  "num_ge a k = (case a of None \<Rightarrow> False | Some n \<Rightarrow> n \<ge> k)"

definition num_le :: "int option \<Rightarrow> int \<Rightarrow> bool" where
  "num_le a k = (case a of None \<Rightarrow> False | Some n \<Rightarrow> n \<le> k)"

definition num_eq :: "int option \<Rightarrow> int \<Rightarrow> bool" where
  "num_eq a k = (case a of None \<Rightarrow> False | Some n \<Rightarrow> n = k)"

text \<open>
  \<open>a % k !== 0\<close>: the remainder of JavaScript takes the sign of the dividend, and is zero
  exactly when \<open>k\<close> divides \<open>a\<close>.
\<close>

definition rem_not_zero :: "int option \<Rightarrow> int \<Rightarrow> bool" where
  "rem_not_zero a k = (case a of None \<Rightarrow> True | Some n \<Rightarrow> n mod k \<noteq> 0)"

definition validateMasterCidr :: "jsstring \<Rightarrow> error + unit" where
  "validateMasterCidr cidr =
     (if \<not> regex_test cidrRegex cidr then Inl (MalformedCidr Format cidr)
      else
        let ip = hd (split (of_char CHR ''/'') cidr);
            octets = map Number_js (split (of_char CHR ''.'') ip)
        in
          if list_ex (\<lambda>o'. num_lt o' 0 \<or> num_gt o' 255) octets
          then Inl (MalformedCidr OctetRange ip)
          else
            let isPrivate =
                  (num_eq (at_index octets 0) 10 \<or>
                   (num_eq (at_index octets 0) 172 \<and> num_ge (at_index octets 1) 16
                      \<and> num_le (at_index octets 1) 31) \<or>
                   (num_eq (at_index octets 0) 192 \<and> num_eq (at_index octets 1) 168))
            in
              if \<not> isPrivate then Inl (NotPrivateRange ip)
              else if rem_not_zero (at_index octets 3) 16 then Inl (MisalignedBlock ip)
              else Inr ())"

section \<open>Configuration objects (config/network.ts, config/cluster.ts)\<close>

text \<open>
  Every args interface and every configuration class starts with the same four required
  strings; \<open>podRangeName\<close> and \<open>serviceRangeName\<close> are fields of both configuration
  classes. Fields declared by several classes are declared once, in a parent record,
  so that one selector reads them from each of them. The optional properties of an
  args interface carry the initials of the interface.

  The two constructors copy \<open>projectId\<close> and \<open>prefix\<close> and never look at them, so the
  type \<open>'s\<close> of these two fields is a parameter of the records: it is \<open>jsstring\<close> for
  an object written against the declared types, and \<open>jsstring option\<close> for an object
  built by a spread, which can hold \<open>undefined\<close> there. The constructors test \<open>env\<close> and
  \<open>region\<close> before anything else reads them; these are strings (see \<open>spread_tested\<close>
  for the spread).
\<close>

record 's base_fields =
  projectId :: 's
  region :: jsstring
  env :: jsstring
  prefix :: 's

record 's NetworkConfigArgs = "'s base_fields" +
  na_cidr :: "jsstring option"
  na_podCidr :: "jsstring option"
  na_serviceCidr :: "jsstring option"
  na_podRangeName :: "jsstring option"
  na_serviceRangeName :: "jsstring option"

record 's config_fields = "'s base_fields" +
  podRangeName :: jsstring
  serviceRangeName :: jsstring

record 's NetworkConfig = "'s config_fields" +
  cidr :: jsstring
  podCidr :: jsstring
  serviceCidr :: jsstring

definition NetworkConfig_new :: "'s NetworkConfigArgs \<Rightarrow> error + 's NetworkConfig" where
  "NetworkConfig_new args =
     and_then (validateEnvironment (env args)) (\<lambda>_.
     and_then (validateRegion (region args)) (\<lambda>_.
       Inr \<lparr>projectId = projectId args, region = region args, env = env args,
            prefix = prefix args,
            podRangeName = nullish (na_podRangeName args) (js ''pod-ranges''),
            serviceRangeName = nullish (na_serviceRangeName args) (js ''service-ranges''),
            cidr = nullish (na_cidr args) (js ''10.0.0.0/16''),
            podCidr = nullish (na_podCidr args) (js ''10.11.0.0/21''),
            serviceCidr = nullish (na_serviceCidr args) (js ''10.12.0.0/21'')\<rparr>))"

text \<open>
  The getters are template literals over the fields. They are stated for the
  configurations that the profiles build, in which \<open>prefix\<close> and \<open>projectId\<close> may hold
  \<open>undefined\<close>.
\<close>

definition vpcName :: "jsstring option NetworkConfig \<Rightarrow> jsstring" where
  "vpcName c = interpolate (prefix c) @ js ''-'' @ env c @ js ''-vpc''"

definition subnetName :: "jsstring option NetworkConfig \<Rightarrow> jsstring" where
  "subnetName c = interpolate (prefix c) @ js ''-'' @ env c @ js ''-subnet''"

text \<open>
  The numeric fields hold integers: the specification states every bound over the
  integers.
\<close>

record 's ClusterConfigArgs = "'s base_fields" +
  ca_zone :: "jsstring option"
  ca_machineType :: "jsstring option"
  ca_nodeCount :: "int option"
  ca_minNodes :: "int option"
  ca_maxNodes :: "int option"
  ca_diskSize :: "int option"
  ca_spotInstances :: "bool option"
  ca_masterCidr :: "jsstring option"
  ca_podRangeName :: "jsstring option"
  ca_serviceRangeName :: "jsstring option"

record 's ClusterConfig = "'s config_fields" +
  zone :: jsstring
  machineType :: jsstring
  nodeCount :: int
  minNodes :: int
  maxNodes :: int
  diskSize :: int
  spotInstances :: bool
  masterCidr :: jsstring

text \<open>
  The constructor assigns the fields between its checks; an object under construction
  is not observable when a later check throws, so the model builds the object at the
  end. The order of the checks is the order of the statements.
\<close>

definition ClusterConfig_new :: "'s ClusterConfigArgs \<Rightarrow> error + 's ClusterConfig" where
  "ClusterConfig_new args =
     and_then (validateEnvironment (env args)) (\<lambda>_.
     and_then (validateRegion (region args)) (\<lambda>_.
     let machineType' = nullish (ca_machineType args) (js ''e2-medium'') in
     and_then (validateMachineType machineType') (\<lambda>_.
     let maxNodes' = nullish (ca_maxNodes args) 3 in
     and_then (validateMaxNodes maxNodes') (\<lambda>_.
     let diskSize' = nullish (ca_diskSize args) 50 in
     and_then (validateDiskSize diskSize') (\<lambda>_.
     let nodeCount' = nullish (ca_nodeCount args) 1 in
     and_then (validateNodeCount nodeCount') (\<lambda>_.
     let minNodes' = nullish (ca_minNodes args) 1 in
     if minNodes' > maxNodes' then Inl (MinExceedsMax minNodes' maxNodes')
     else
       let zone' = nullish (ca_zone args) (region args @ js ''-a'');
           spotInstances' = nullish (ca_spotInstances args) True;
           masterCidr' = nullish (ca_masterCidr args) (js ''172.16.0.0/28'')
       in
       and_then (validateMasterCidr masterCidr') (\<lambda>_.
         Inr \<lparr>projectId = projectId args, region = region args, env = env args,
              prefix = prefix args,
              podRangeName = nullish (ca_podRangeName args) (js ''pod-ranges''),
              serviceRangeName = nullish (ca_serviceRangeName args) (js ''service-ranges''),
              zone = zone', machineType = machineType', nodeCount = nodeCount',
              minNodes = minNodes', maxNodes = maxNodes', diskSize = diskSize',
              spotInstances = spotInstances', masterCidr = masterCidr'\<rparr>)))))))"

definition clusterName :: "jsstring option ClusterConfig \<Rightarrow> jsstring" where
  "clusterName c = interpolate (prefix c) @ js ''-'' @ env c @ js ''-cluster''"

definition workloadPool :: "jsstring option ClusterConfig \<Rightarrow> jsstring" where
  "workloadPool c = interpolate (projectId c) @ js ''.svc.id.goog''"

definition effectiveZone :: "'s ClusterConfig \<Rightarrow> jsstring" where
  "effectiveZone c = zone c"

section \<open>Profiles (profiles/base.ts, dev.ts, staging.ts, prod.ts)\<close>

text \<open>
  \<open>Partial<T>\<close> makes every property of \<open>T\<close> optional, and an optional property may be
  given the value \<open>undefined\<close>. A key of an overrides object is therefore absent, or
  holds \<open>undefined\<close>, or holds a value.
\<close>

datatype 'a property = Absent | Undefined | Value 'a

record PartialNetworkConfigArgs =
  pn_projectId :: "jsstring property"
  pn_region :: "jsstring property"
  pn_env :: "jsstring property"
  pn_prefix :: "jsstring property"
  pn_cidr :: "jsstring property"
  pn_podCidr :: "jsstring property"
  pn_serviceCidr :: "jsstring property"
  pn_podRangeName :: "jsstring property"
  pn_serviceRangeName :: "jsstring property"

record PartialClusterConfigArgs =
  pc_projectId :: "jsstring property"
  pc_region :: "jsstring property"
  pc_env :: "jsstring property"
  pc_prefix :: "jsstring property"
  pc_zone :: "jsstring property"
  pc_machineType :: "jsstring property"
  pc_nodeCount :: "int property"
  pc_minNodes :: "int property"
  pc_maxNodes :: "int property"
  pc_diskSize :: "int property"
  pc_spotInstances :: "bool property"
  pc_masterCidr :: "jsstring property"
  pc_podRangeName :: "jsstring property"
  pc_serviceRangeName :: "jsstring property"

text \<open>The object \<open>{}\<close>, which is also what spreading an omitted \<open>overrides\<close> adds: nothing.\<close>

definition no_network_overrides :: PartialNetworkConfigArgs where
  "no_network_overrides =
     \<lparr>pn_projectId = Absent, pn_region = Absent, pn_env = Absent, pn_prefix = Absent,
      pn_cidr = Absent, pn_podCidr = Absent, pn_serviceCidr = Absent,
      pn_podRangeName = Absent, pn_serviceRangeName = Absent\<rparr>"

definition no_cluster_overrides :: PartialClusterConfigArgs where
  "no_cluster_overrides =
     \<lparr>pc_projectId = Absent, pc_region = Absent, pc_env = Absent, pc_prefix = Absent,
      pc_zone = Absent, pc_machineType = Absent, pc_nodeCount = Absent,
      pc_minNodes = Absent, pc_maxNodes = Absent, pc_diskSize = Absent,
      pc_spotInstances = Absent, pc_masterCidr = Absent, pc_podRangeName = Absent,
      pc_serviceRangeName = Absent\<rparr>"

text \<open>
  In \<open>{k: d, ...overrides}\<close> the spread copies every key that \<open>overrides\<close> holds, a key
  that holds \<open>undefined\<close> included, over what the literal gave to that key; a key that
  \<open>overrides\<close> lacks keeps what the literal gave it. Reading a key of the result gives
  \<open>undefined\<close> (\<open>None\<close>) when the key is absent and when it holds \<open>undefined\<close>.
  \<open>spread_required\<close> is for a key that the literal lists, \<open>spread_optional\<close> for one
  that it may not list, and \<open>spread_property\<close> for a literal that is itself a
  \<open>Partial<T>\<close>.
\<close>

definition spread_required :: "'a \<Rightarrow> 'a property \<Rightarrow> 'a option" where
  "spread_required d ov = (case ov of Absent \<Rightarrow> Some d | Undefined \<Rightarrow> None | Value v \<Rightarrow> Some v)"

definition spread_optional :: "'a option \<Rightarrow> 'a property \<Rightarrow> 'a option" where
  "spread_optional d ov = (case ov of Absent \<Rightarrow> d | Undefined \<Rightarrow> None | Value v \<Rightarrow> Some v)"

definition spread_property :: "'a property \<Rightarrow> 'a property \<Rightarrow> 'a property" where
  "spread_property d ov = (case ov of Absent \<Rightarrow> d | Undefined \<Rightarrow> Undefined | Value v \<Rightarrow> Value v)"

text \<open>
  \<open>env\<close> and \<open>region\<close> of the merged object go to \<open>validateEnvironment\<close> and
  \<open>validateRegion\<close>, the first two statements of both constructors, before anything
  else reads them. These test the value with \<open>includes\<close> and interpolate it into the
  message of the error they throw. \<open>undefined\<close> is in neither list and reads \<open>undefined\<close>
  in the message: the constructor throws the error that it throws for the string
  \<open>undefined\<close>, which is in neither list either, and builds no object. At these two
  keys the merged object is therefore given the string that \<open>undefined\<close> reads as.
\<close>

definition spread_tested :: "jsstring \<Rightarrow> jsstring property \<Rightarrow> jsstring" where
  "spread_tested d ov = interpolate (spread_required d ov)"

text \<open>\<open>{...literal, ...overrides}\<close> for the two args interfaces, and for two overrides.\<close>

definition spread_network ::
    "jsstring NetworkConfigArgs \<Rightarrow> PartialNetworkConfigArgs \<Rightarrow> jsstring option NetworkConfigArgs" where
  "spread_network lit ov =
     \<lparr>projectId = spread_required (projectId lit) (pn_projectId ov),
      region = spread_tested (region lit) (pn_region ov),
      env = spread_tested (env lit) (pn_env ov),
      prefix = spread_required (prefix lit) (pn_prefix ov),
      na_cidr = spread_optional (na_cidr lit) (pn_cidr ov),
      na_podCidr = spread_optional (na_podCidr lit) (pn_podCidr ov),
      na_serviceCidr = spread_optional (na_serviceCidr lit) (pn_serviceCidr ov),
      na_podRangeName = spread_optional (na_podRangeName lit) (pn_podRangeName ov),
      na_serviceRangeName = spread_optional (na_serviceRangeName lit) (pn_serviceRangeName ov)\<rparr>"

definition spread_cluster ::
    "jsstring ClusterConfigArgs \<Rightarrow> PartialClusterConfigArgs \<Rightarrow> jsstring option ClusterConfigArgs" where
  "spread_cluster lit ov =
     \<lparr>projectId = spread_required (projectId lit) (pc_projectId ov),
      region = spread_tested (region lit) (pc_region ov),
      env = spread_tested (env lit) (pc_env ov),
      prefix = spread_required (prefix lit) (pc_prefix ov),
      ca_zone = spread_optional (ca_zone lit) (pc_zone ov),
      ca_machineType = spread_optional (ca_machineType lit) (pc_machineType ov),
      ca_nodeCount = spread_optional (ca_nodeCount lit) (pc_nodeCount ov),
      ca_minNodes = spread_optional (ca_minNodes lit) (pc_minNodes ov),
      ca_maxNodes = spread_optional (ca_maxNodes lit) (pc_maxNodes ov),
      ca_diskSize = spread_optional (ca_diskSize lit) (pc_diskSize ov),
      ca_spotInstances = spread_optional (ca_spotInstances lit) (pc_spotInstances ov),
      ca_masterCidr = spread_optional (ca_masterCidr lit) (pc_masterCidr ov),
      ca_podRangeName = spread_optional (ca_podRangeName lit) (pc_podRangeName ov),
      ca_serviceRangeName = spread_optional (ca_serviceRangeName lit) (pc_serviceRangeName ov)\<rparr>"

definition spread_overrides ::
    "PartialClusterConfigArgs \<Rightarrow> PartialClusterConfigArgs \<Rightarrow> PartialClusterConfigArgs" where
  "spread_overrides lit ov =
     \<lparr>pc_projectId = spread_property (pc_projectId lit) (pc_projectId ov),
      pc_region = spread_property (pc_region lit) (pc_region ov),
      pc_env = spread_property (pc_env lit) (pc_env ov),
      pc_prefix = spread_property (pc_prefix lit) (pc_prefix ov),
      pc_zone = spread_property (pc_zone lit) (pc_zone ov),
      pc_machineType = spread_property (pc_machineType lit) (pc_machineType ov),
      pc_nodeCount = spread_property (pc_nodeCount lit) (pc_nodeCount ov),
      pc_minNodes = spread_property (pc_minNodes lit) (pc_minNodes ov),
      pc_maxNodes = spread_property (pc_maxNodes lit) (pc_maxNodes ov),
      pc_diskSize = spread_property (pc_diskSize lit) (pc_diskSize ov),
      pc_spotInstances = spread_property (pc_spotInstances lit) (pc_spotInstances ov),
      pc_masterCidr = spread_property (pc_masterCidr lit) (pc_masterCidr ov),
      pc_podRangeName = spread_property (pc_podRangeName lit) (pc_podRangeName ov),
      pc_serviceRangeName = spread_property (pc_serviceRangeName lit) (pc_serviceRangeName ov)\<rparr>"

text \<open>
  The three profile classes extend \<open>PlatformProfile\<close> and differ in \<open>getClusterConfig\<close>
  only; an object is its four fields, which are strings, and its class.
\<close>

datatype profile_class = DevProfile | StagingProfile | ProdProfile

record PlatformProfile = "jsstring base_fields" +
  profile_class :: profile_class

definition new_profile ::
    "profile_class \<Rightarrow> jsstring \<Rightarrow> jsstring \<Rightarrow> jsstring \<Rightarrow> jsstring \<Rightarrow> PlatformProfile" where
  "new_profile k projectId' region' env' prefix' =
     \<lparr>projectId = projectId', region = region', env = env', prefix = prefix',
      profile_class = k\<rparr>"

definition getNetworkConfig ::
    "PlatformProfile \<Rightarrow> PartialNetworkConfigArgs \<Rightarrow> error + jsstring option NetworkConfig" where
  "getNetworkConfig p overrides =
     NetworkConfig_new
       (spread_network
          \<lparr>projectId = projectId p, region = region p, env = env p, prefix = prefix p,
           na_cidr = None, na_podCidr = None, na_serviceCidr = None,
           na_podRangeName = None, na_serviceRangeName = None\<rparr>
          overrides)"

definition DevProfile_getClusterConfig ::
    "PlatformProfile \<Rightarrow> PartialClusterConfigArgs \<Rightarrow> error + jsstring option ClusterConfig" where
  "DevProfile_getClusterConfig p overrides =
     ClusterConfig_new
       (spread_cluster
          \<lparr>projectId = projectId p, region = region p, env = env p, prefix = prefix p,
           ca_zone = None, ca_machineType = Some (js ''e2-medium''),
           ca_nodeCount = Some 1, ca_minNodes = Some 1, ca_maxNodes = Some 3,
           ca_diskSize = Some 50, ca_spotInstances = Some True,
           ca_masterCidr = None, ca_podRangeName = None, ca_serviceRangeName = None\<rparr>
          overrides)"

definition StagingProfile_getClusterConfig ::
    "PlatformProfile \<Rightarrow> PartialClusterConfigArgs \<Rightarrow> error + jsstring option ClusterConfig" where
  "StagingProfile_getClusterConfig p overrides =
     ClusterConfig_new
       (spread_cluster
          \<lparr>projectId = projectId p, region = region p, env = env p, prefix = prefix p,
           ca_zone = None, ca_machineType = Some (js ''n2-standard-2''),
           ca_nodeCount = Some 2, ca_minNodes = Some 2, ca_maxNodes = Some 5,
           ca_diskSize = Some 75, ca_spotInstances = Some True,
           ca_masterCidr = None, ca_podRangeName = None, ca_serviceRangeName = None\<rparr>
          overrides)"

definition ProdProfile_getClusterConfig ::
    "PlatformProfile \<Rightarrow> PartialClusterConfigArgs \<Rightarrow> error + jsstring option ClusterConfig" where
  "ProdProfile_getClusterConfig p overrides =
     ClusterConfig_new
       (spread_cluster
          \<lparr>projectId = projectId p, region = region p, env = env p, prefix = prefix p,
           ca_zone = None, ca_machineType = Some (js ''n2-standard-4''),
           ca_nodeCount = Some 3, ca_minNodes = Some 3, ca_maxNodes = Some 10,
           ca_diskSize = Some 100, ca_spotInstances = Some False,
           ca_masterCidr = None, ca_podRangeName = None, ca_serviceRangeName = None\<rparr>
          overrides)"

text \<open>The call \<open>profile.getClusterConfig(overrides)\<close> dispatches on the class of the object.\<close>

definition getClusterConfig ::
    "PlatformProfile \<Rightarrow> PartialClusterConfigArgs \<Rightarrow> error + jsstring option ClusterConfig" where
  "getClusterConfig p overrides =
     (case profile_class p of
        DevProfile \<Rightarrow> DevProfile_getClusterConfig p overrides
      | StagingProfile \<Rightarrow> StagingProfile_getClusterConfig p overrides
      | ProdProfile \<Rightarrow> ProdProfile_getClusterConfig p overrides)"

section \<open>Components (components/security.ts, networking.ts, gke.ts)\<close>

text \<open>
  Declaring a resource hands a descriptor to the provisioning engine, which is outside
  this repository; a declaration is modelled as the descriptor it builds and never
  fails by itself. A \<open>Map\<close> and a \<open>Record<string, string>\<close> keep their keys in insertion
  order, and setting a key that exists replaces its value in place.
\<close>

fun map_set :: "('k \<times> 'v) list \<Rightarrow> 'k \<Rightarrow> 'v \<Rightarrow> ('k \<times> 'v) list" where
  "map_set [] k v = [(k, v)]"
| "map_set ((k', v') # m) k v =
     (if k' = k then (k, v) # m else (k', v') # map_set m k v)"

definition spread_record :: "('k \<times> 'v) list \<Rightarrow> ('k \<times> 'v) list \<Rightarrow> ('k \<times> 'v) list" where
  "spread_record lit extra = foldl (\<lambda>m (k, v). map_set m k v) lit extra"

text \<open>
  \<open>s.trim()\<close> removes the white space and line terminators of ECMAScript from both
  ends of \<open>s\<close>.
\<close>

definition is_white_space :: "nat \<Rightarrow> bool" where
  "is_white_space c =
     (c \<in> {9, 10, 11, 12, 13, 32, 160, 5760, 8232, 8233, 8239, 8287, 12288, 65279}
      \<or> (8192 \<le> c \<and> c \<le> 8202))"

definition trim :: "jsstring \<Rightarrow> jsstring" where
  "trim s = rev (dropWhile is_white_space (rev (dropWhile is_white_space s)))"

record Secret =
  secret_resource :: jsstring
  secret_secretId :: jsstring

record StandardSecrets =
  secretIds :: "jsstring list"
  secrets :: "(jsstring \<times> Secret) list"

text \<open>The loop of the constructor of \<open>StandardSecrets\<close> over \<open>secretIds\<close>.\<close>

fun declare_secrets ::
    "jsstring \<Rightarrow> jsstring list \<Rightarrow> (jsstring \<times> Secret) list \<Rightarrow> error + (jsstring \<times> Secret) list" where
  "declare_secrets name [] m = Inr m"
| "declare_secrets name (secretId # rest) m =
     (if secretId = [] \<or> trim secretId = [] then Inl BlankSecretId
      else declare_secrets name rest
             (map_set m secretId
                \<lparr>secret_resource = name @ js ''-'' @ secretId, secret_secretId = secretId\<rparr>))"

text \<open>\<open>StandardSecretsArgs\<close> has the one property \<open>secretIds\<close>, passed here as it is.\<close>

definition StandardSecrets_new :: "jsstring \<Rightarrow> jsstring list \<Rightarrow> error + StandardSecrets" where
  "StandardSecrets_new name secretIds' =
     (if length secretIds' = 0 then Inl EmptySecretList
      else and_then (declare_secrets name secretIds' []) (\<lambda>m.
             Inr \<lparr>secretIds = secretIds', secrets = m\<rparr>))"

definition getSecret :: "StandardSecrets \<Rightarrow> jsstring \<Rightarrow> error + Secret" where
  "getSecret s secretId =
     (case map_of (secrets s) secretId of
        None \<Rightarrow> Inl (SecretNotFound secretId (map fst (secrets s)))
      | Some secret \<Rightarrow> Inr secret)"

record WorkloadIdentityConfig =
  saId :: jsstring
  k8sNamespace :: jsstring
  k8sSaName :: jsstring
  roles :: "jsstring list option"

text \<open>\<open>StandardIdentityArgs\<close> has the properties of \<open>WorkloadIdentityConfig\<close> and \<open>projectId\<close>.\<close>

record StandardIdentityArgs = WorkloadIdentityConfig +
  identity_projectId :: jsstring

record ServiceAccount =
  account_resource :: jsstring
  accountId :: jsstring
  displayName :: jsstring

text \<open>The logical name \<open>`${name}-role-${i}`\<close> of a role binding is kept as \<open>name\<close> and \<open>i\<close>.\<close>

record IAMMember =
  member_resource :: "jsstring \<times> nat"
  member_project :: jsstring
  member_role :: jsstring

record IAMBinding =
  binding_resource :: jsstring
  binding_role :: jsstring
  binding_members :: "jsstring list"

record StandardIdentity =
  gsa :: ServiceAccount
  roleBindings :: "IAMMember list"
  workloadIdentityBinding :: IAMBinding

definition StandardIdentity_new :: "jsstring \<Rightarrow> StandardIdentityArgs \<Rightarrow> error + StandardIdentity" where
  "StandardIdentity_new name args =
     (let roles' = nullish (roles args) [] in
      if identity_projectId args = [] then Inl BlankProjectId
      else if saId args = [] \<or> length (saId args) < 6 \<or> length (saId args) > 30
      then Inl InvalidServiceAccountIdLength
      else if k8sNamespace args = [] then Inl BlankNamespace
      else if k8sSaName args = [] then Inl BlankServiceAccountName
      else
        Inr \<lparr>gsa = \<lparr>account_resource = name @ js ''-sa'', accountId = saId args,
                     displayName = js ''Workload Identity SA for '' @ saId args\<rparr>,
             roleBindings =
               map (\<lambda>(i, role). \<lparr>member_resource = (name, i),
                                  member_project = identity_projectId args,
                                  member_role = role\<rparr>)
                 (enumerate 0 roles'),
             workloadIdentityBinding =
               \<lparr>binding_resource = name @ js ''-wi-binding'',
                binding_role = js ''roles/iam.workloadIdentityUser'',
                binding_members =
                  [js ''serviceAccount:'' @ identity_projectId args @ js ''.svc.id.goog[''
                     @ k8sNamespace args @ js ''/'' @ k8sSaName args @ js '']'']\<rparr>\<rparr>)"

text \<open>
  An output of a declared resource, such as \<open>this.network.id\<close> or \<open>this.router.name\<close>,
  is resolved by the engine on deployment. It is kept as a reference, by its logical
  name, to the resource that owns it.
\<close>

datatype output_ref = OutputId jsstring | OutputName jsstring

text \<open>\<open>StandardVPC\<close> (components/networking.ts) declares four resources from the configuration.\<close>

record Network =
  net_resource :: jsstring
  net_name :: jsstring
  net_autoCreateSubnetworks :: bool
  net_description :: jsstring

record SecondaryIpRange =
  rangeName :: jsstring
  ipCidrRange :: jsstring

record Subnetwork =
  sub_resource :: jsstring
  sub_name :: jsstring
  sub_region :: jsstring
  sub_network :: output_ref
  sub_ipCidrRange :: jsstring
  sub_privateIpGoogleAccess :: bool
  sub_secondaryIpRanges :: "SecondaryIpRange list"

record Router =
  router_resource :: jsstring
  router_name :: jsstring
  router_region :: jsstring
  router_network :: output_ref

record RouterNat =
  nat_resource :: jsstring
  nat_name :: jsstring
  nat_router :: output_ref
  nat_region :: jsstring
  nat_natIpAllocateOption :: jsstring
  nat_sourceSubnetworkIpRangesToNat :: jsstring

record StandardVPC =
  network :: Network
  subnet :: Subnetwork
  router :: Router
  nat' :: RouterNat

text \<open>\<open>StandardVPCArgs\<close> has the one property \<open>config\<close>, passed here as it is.\<close>

definition StandardVPC_new :: "jsstring \<Rightarrow> jsstring option NetworkConfig \<Rightarrow> StandardVPC" where
  "StandardVPC_new name config' =
     (let network' =
            \<lparr>net_resource = name @ js ''-vpc'',
             net_name = vpcName config',
             net_autoCreateSubnetworks = False,
             net_description =
               js ''Standard VPC for '' @ interpolate (prefix config') @ js ''-'' @ env config'\<rparr>;
          subnet' =
            \<lparr>sub_resource = name @ js ''-subnet'',
             sub_name = subnetName config',
             sub_region = region config',
             sub_network = OutputId (net_resource network'),
             sub_ipCidrRange = cidr config',
             sub_privateIpGoogleAccess = True,
             sub_secondaryIpRanges =
               [\<lparr>rangeName = podRangeName config', ipCidrRange = podCidr config'\<rparr>,
                \<lparr>rangeName = serviceRangeName config', ipCidrRange = serviceCidr config'\<rparr>]\<rparr>;
          router' =
            \<lparr>router_resource = name @ js ''-router'',
             router_name = vpcName config' @ js ''-router'',
             router_region = region config',
             router_network = OutputId (net_resource network')\<rparr>;
          nat'' =
            \<lparr>nat_resource = name @ js ''-nat'',
             nat_name = vpcName config' @ js ''-nat'',
             nat_router = OutputName (router_resource router'),
             nat_region = region config',
             nat_natIpAllocateOption = js ''AUTO_ONLY'',
             nat_sourceSubnetworkIpRangesToNat = js ''ALL_SUBNETWORKS_ALL_IP_RANGES''\<rparr>
      in \<lparr>network = network', subnet = subnet', router = router', nat' = nat''\<rparr>)"

text \<open>\<open>StandardCluster\<close> (components/gke.ts) declares the cluster and its node pool.\<close>

record StandardClusterArgs =
  config :: "jsstring option ClusterConfig"
  networkId :: output_ref
  subnetId :: output_ref
  labels :: "(jsstring \<times> jsstring) list option"

record Cluster =
  gke_resource :: jsstring
  gke_name :: jsstring
  gke_location :: jsstring
  gke_network :: output_ref
  gke_subnetwork :: output_ref
  gke_removeDefaultNodePool :: bool
  gke_initialNodeCount :: int
  gke_deletionProtection :: bool
  gke_resourceLabels :: "(jsstring \<times> jsstring) list"
  gke_clusterSecondaryRangeName :: jsstring
  gke_servicesSecondaryRangeName :: jsstring
  gke_enablePrivateNodes :: bool
  gke_enablePrivateEndpoint :: bool
  gke_masterIpv4CidrBlock :: jsstring
  gke_workloadPool :: jsstring

record NodePool =
  pool_resource :: jsstring
  pool_name :: jsstring
  pool_location :: jsstring
  pool_cluster :: output_ref
  pool_initialNodeCount :: int
  pool_minNodeCount :: int
  pool_maxNodeCount :: int
  pool_locationPolicy :: jsstring
  pool_machineType :: jsstring
  pool_diskSizeGb :: int
  pool_diskType :: jsstring
  pool_spot :: bool
  pool_labels :: "(jsstring \<times> jsstring) list"
  pool_tags :: "jsstring list"
  pool_oauthScopes :: "jsstring list"

record StandardCluster =
  gke_cluster :: Cluster
  nodePool :: NodePool

definition StandardCluster_new :: "jsstring \<Rightarrow> StandardClusterArgs \<Rightarrow> StandardCluster" where
  "StandardCluster_new name args =
     (let config' = config args;
          resourceLabels =
            spread_record
              [(js ''environment'', env config'), (js ''managed-by'', js ''pulumi'')]
              (nullish (labels args) []);
          cluster' =
            \<lparr>gke_resource = name @ js ''-cluster'',
             gke_name = clusterName config',
             gke_location = effectiveZone config',
             gke_network = networkId args,
             gke_subnetwork = subnetId args,
             gke_removeDefaultNodePool = True,
             gke_initialNodeCount = 1,
             gke_deletionProtection = (env config' = js ''prod''),
             gke_resourceLabels = resourceLabels,
             gke_clusterSecondaryRangeName = podRangeName config',
             gke_servicesSecondaryRangeName = serviceRangeName config',
             gke_enablePrivateNodes = True,
             gke_enablePrivateEndpoint = False,
             gke_masterIpv4CidrBlock = masterCidr config',
             gke_workloadPool = workloadPool config'\<rparr>
      in
      \<lparr>gke_cluster = cluster',
       nodePool =
         \<lparr>pool_resource = name @ js ''-pool'',
          pool_name = clusterName config' @ js ''-pool'',
          pool_location = effectiveZone config',
          pool_cluster = OutputName (gke_resource cluster'),
          pool_initialNodeCount = nodeCount config',
          pool_minNodeCount = minNodes config',
          pool_maxNodeCount = maxNodes config',
          pool_locationPolicy = js ''ANY'',
          pool_machineType = machineType config',
          pool_diskSizeGb = diskSize config',
          pool_diskType = js ''pd-standard'',
          pool_spot = spotInstances config',
          pool_labels = resourceLabels,
          pool_tags = [js ''gke-node'', clusterName config' @ js ''-gke''],
          pool_oauthScopes = [js ''https://www.googleapis.com/auth/cloud-platform'']\<rparr>\<rparr>)"

section \<open>The composite (composites/platform.ts)\<close>

record StandardPlatformArgs = "jsstring base_fields" +
  arg_secretIds :: "jsstring list option"
  arg_workloadIdentity :: "WorkloadIdentityConfig option"
  arg_clusterOverrides :: "PartialClusterConfigArgs option"
  arg_labels :: "(jsstring \<times> jsstring) list option"

text \<open>The private fields \<open>_secrets\<close> and \<open>_identity\<close> are \<open>None\<close> while undefined.\<close>

record StandardPlatform = "jsstring base_fields" +
  vpc :: StandardVPC
  cluster :: StandardCluster
  private_secrets :: "StandardSecrets option"
  private_identity :: "StandardIdentity option"

text \<open>
  The constructor of the composite is written in five numbered steps; steps 1, 4 and
  5 and the overrides object of step 3 are definitions of their own here.
  Step 1: the profile for the environment.
\<close>

definition selectProfile :: "jsstring \<Rightarrow> jsstring \<Rightarrow> jsstring \<Rightarrow> jsstring \<Rightarrow> PlatformProfile" where
  "selectProfile projectId' region' env' prefix' =
     (if env' = js ''prod'' then new_profile ProdProfile projectId' region' env' prefix'
      else if env' = js ''staging'' then new_profile StagingProfile projectId' region' env' prefix'
      else new_profile DevProfile projectId' region' env' prefix')"

text \<open>Step 3: the overrides object passed to \<open>getClusterConfig\<close>.\<close>

definition platform_overrides ::
    "jsstring option NetworkConfig \<Rightarrow> PartialClusterConfigArgs \<Rightarrow> PartialClusterConfigArgs" where
  "platform_overrides networkConfig clusterOverrides =
     spread_overrides
       (no_cluster_overrides
          \<lparr>pc_podRangeName := Value (podRangeName networkConfig),
           pc_serviceRangeName := Value (serviceRangeName networkConfig)\<rparr>)
       clusterOverrides"

text \<open>Step 4: the secrets, created only for a list that is given and not empty.\<close>

definition create_secrets :: "jsstring \<Rightarrow> jsstring list option \<Rightarrow> error + StandardSecrets option" where
  "create_secrets name secretIds' =
     (case secretIds' of
        None \<Rightarrow> Inr None
      | Some ids \<Rightarrow>
          if length ids > 0
          then and_then (StandardSecrets_new (name @ js ''-secrets'') ids) (\<lambda>s. Inr (Some s))
          else Inr None)"

text \<open>Step 5: the workload identity, created only when its configuration is given.\<close>

definition create_identity ::
    "jsstring \<Rightarrow> jsstring \<Rightarrow> WorkloadIdentityConfig option \<Rightarrow> error + StandardIdentity option" where
  "create_identity name projectId' workloadIdentity =
     (case workloadIdentity of
        None \<Rightarrow> Inr None
      | Some wi \<Rightarrow>
          let roles' = nullish (roles wi) [] in
          if saId wi = [] \<or> k8sNamespace wi = [] \<or> k8sSaName wi = []
          then Inl IncompleteIdentityConfig
          else and_then
                 (StandardIdentity_new (name @ js ''-identity'')
                    \<lparr>saId = saId wi, k8sNamespace = k8sNamespace wi,
                     k8sSaName = k8sSaName wi, roles = Some roles',
                     identity_projectId = projectId'\<rparr>)
                 (\<lambda>i. Inr (Some i)))"

text \<open>The constructor: steps 1 to 5 in their order, then the object.\<close>

definition StandardPlatform_new :: "jsstring \<Rightarrow> StandardPlatformArgs \<Rightarrow> error + StandardPlatform" where
  "StandardPlatform_new name args =
     (let clusterOverrides = nullish (arg_clusterOverrides args) no_cluster_overrides;
          labels' = nullish (arg_labels args) [];
          profile = selectProfile (projectId args) (region args) (env args) (prefix args)
      in
      and_then (getNetworkConfig profile no_network_overrides) (\<lambda>networkConfig.
      let vpc' = StandardVPC_new (name @ js ''-networking'') networkConfig in
      and_then (getClusterConfig profile (platform_overrides networkConfig clusterOverrides))
        (\<lambda>clusterConfig.
      let cluster' =
            StandardCluster_new (name @ js ''-compute'')
              \<lparr>config = clusterConfig,
               networkId = OutputId (net_resource (network vpc')),
               subnetId = OutputId (sub_resource (subnet vpc')),
               labels = Some labels'\<rparr>
      in
      and_then (create_secrets name (arg_secretIds args)) (\<lambda>secrets'.
      and_then (create_identity name (projectId args) (arg_workloadIdentity args)) (\<lambda>identity'.
        Inr \<lparr>projectId = projectId args, region = region args, env = env args,
             prefix = prefix args, vpc = vpc', cluster = cluster',
             private_secrets = secrets', private_identity = identity'\<rparr>)))))"

definition hasSecrets :: "StandardPlatform \<Rightarrow> bool" where
  "hasSecrets p = (private_secrets p \<noteq> None)"

definition hasIdentity :: "StandardPlatform \<Rightarrow> bool" where
  "hasIdentity p = (private_identity p \<noteq> None)"

definition secrets_of :: "StandardPlatform \<Rightarrow> error + StandardSecrets" where
  "secrets_of p =
     (case private_secrets p of None \<Rightarrow> Inl (NotConfigured Secrets) | Some s \<Rightarrow> Inr s)"

definition identity_of :: "StandardPlatform \<Rightarrow> error + StandardIdentity" where
  "identity_of p =
     (case private_identity p of None \<Rightarrow> Inl (NotConfigured Identity) | Some i \<Rightarrow> Inr i)"

section \<open>Notions of the specification\<close>

text \<open>
  The definitions of this section follow the words of the specification, not the
  code; the theorems below compare the code with them.
\<close>

text \<open>An octet group is one to three decimal digits.\<close>

definition octet_group :: "jsstring \<Rightarrow> bool" where
  "octet_group g = (g \<noteq> [] \<and> length g \<le> 3 \<and> (\<forall>c\<in>set g. is_digit c))"

definition dotted_quad :: "jsstring \<Rightarrow> jsstring \<Rightarrow> jsstring \<Rightarrow> jsstring \<Rightarrow> jsstring" where
  "dotted_quad a b c d = a @ js ''.'' @ b @ js ''.'' @ c @ js ''.'' @ d"

text \<open>Check 1: four dot-separated octet groups followed by a literal \<open>/28\<close>.\<close>

definition cidr_format :: "jsstring \<Rightarrow> jsstring \<Rightarrow> jsstring \<Rightarrow> jsstring \<Rightarrow> jsstring \<Rightarrow> bool" where
  "cidr_format s a b c d \<longleftrightarrow>
     octet_group a \<and> octet_group b \<and> octet_group c \<and> octet_group d \<and>
     s = dotted_quad a b c d @ js ''/28''"

text \<open>Check 2: an octet is between 0 and 255.\<close>

definition octet_in_range :: "jsstring \<Rightarrow> bool" where
  "octet_in_range g \<longleftrightarrow> 0 \<le> decimal_value g \<and> decimal_value g \<le> 255"

text \<open>Check 3: the private ranges of RFC 1918.\<close>

definition rfc1918_private :: "int \<Rightarrow> int \<Rightarrow> bool" where
  "rfc1918_private o0 o1 \<longleftrightarrow>
     o0 = 10 \<or> (o0 = 172 \<and> 16 \<le> o1 \<and> o1 \<le> 31) \<or> (o0 = 192 \<and> o1 = 168)"

text \<open>
  The outcome of a sequence of steps of which each failure short-circuits the
  remaining ones: the error of the first step that fails.
\<close>

fun first_error :: "(error + unit) list \<Rightarrow> error option" where
  "first_error [] = None"
| "first_error (Inl e # rest) = Some e"
| "first_error (Inr u # rest) = first_error rest"

text \<open>The fields of a cluster configuration once the defaults have been applied.\<close>

definition resolved_cluster :: "'s ClusterConfigArgs \<Rightarrow> 's ClusterConfig" where
  "resolved_cluster a =
     \<lparr>projectId = projectId a, region = region a, env = env a, prefix = prefix a,
      podRangeName = (case ca_podRangeName a of None \<Rightarrow> js ''pod-ranges'' | Some v \<Rightarrow> v),
      serviceRangeName =
        (case ca_serviceRangeName a of None \<Rightarrow> js ''service-ranges'' | Some v \<Rightarrow> v),
      zone = (case ca_zone a of None \<Rightarrow> region a @ js ''-a'' | Some v \<Rightarrow> v),
      machineType = (case ca_machineType a of None \<Rightarrow> js ''e2-medium'' | Some v \<Rightarrow> v),
      nodeCount = (case ca_nodeCount a of None \<Rightarrow> 1 | Some v \<Rightarrow> v),
      minNodes = (case ca_minNodes a of None \<Rightarrow> 1 | Some v \<Rightarrow> v),
      maxNodes = (case ca_maxNodes a of None \<Rightarrow> 3 | Some v \<Rightarrow> v),
      diskSize = (case ca_diskSize a of None \<Rightarrow> 50 | Some v \<Rightarrow> v),
      spotInstances = (case ca_spotInstances a of None \<Rightarrow> True | Some v \<Rightarrow> v),
      masterCidr = (case ca_masterCidr a of None \<Rightarrow> js ''172.16.0.0/28'' | Some v \<Rightarrow> v)\<rparr>"

text \<open>
  The ordered steps of the construction of a cluster configuration (steps 1 to 7
  and 9; steps 8 and 10 resolve defaults and cannot fail), and of a network
  configuration.
\<close>

definition cluster_steps :: "'s ClusterConfigArgs \<Rightarrow> (error + unit) list" where
  "cluster_steps a =
     (let c = resolved_cluster a in
      [validateEnvironment (env a),
       validateRegion (region a),
       validateMachineType (machineType c),
       validateMaxNodes (maxNodes c),
       validateDiskSize (diskSize c),
       validateNodeCount (nodeCount c),
       (if minNodes c > maxNodes c then Inl (MinExceedsMax (minNodes c) (maxNodes c))
        else Inr ()),
       validateMasterCidr (masterCidr c)])"

definition network_steps :: "'s NetworkConfigArgs \<Rightarrow> (error + unit) list" where
  "network_steps a = [validateEnvironment (env a), validateRegion (region a)]"

text \<open>Steps 1 to 6 pass: what precedes the comparison of \<open>minNodes\<close> with \<open>maxNodes\<close>.\<close>

definition passes_steps_1_to_6 :: "'s ClusterConfigArgs \<Rightarrow> bool" where
  "passes_steps_1_to_6 a \<longleftrightarrow>
     env a \<in> set ALLOWED_ENVIRONMENTS \<and> region a \<in> set ALLOWED_REGIONS \<and>
     machineType (resolved_cluster a) \<in> set ALLOWED_MACHINE_TYPES \<and>
     1 \<le> maxNodes (resolved_cluster a) \<and> maxNodes (resolved_cluster a) \<le> 50 \<and>
     30 \<le> diskSize (resolved_cluster a) \<and> diskSize (resolved_cluster a) \<le> 200 \<and>
     1 \<le> nodeCount (resolved_cluster a) \<and> nodeCount (resolved_cluster a) \<le> 20"

text \<open>Every field other than \<open>minNodes\<close> is valid.\<close>

definition otherwise_valid :: "'s ClusterConfigArgs \<Rightarrow> bool" where
  "otherwise_valid a \<longleftrightarrow>
     passes_steps_1_to_6 a \<and> validateMasterCidr (masterCidr (resolved_cluster a)) = Inr ()"

definition resolved_network :: "'s NetworkConfigArgs \<Rightarrow> 's NetworkConfig" where
  "resolved_network a =
     \<lparr>projectId = projectId a, region = region a, env = env a, prefix = prefix a,
      podRangeName = (case na_podRangeName a of None \<Rightarrow> js ''pod-ranges'' | Some v \<Rightarrow> v),
      serviceRangeName =
        (case na_serviceRangeName a of None \<Rightarrow> js ''service-ranges'' | Some v \<Rightarrow> v),
      cidr = (case na_cidr a of None \<Rightarrow> js ''10.0.0.0/16'' | Some v \<Rightarrow> v),
      podCidr = (case na_podCidr a of None \<Rightarrow> js ''10.11.0.0/21'' | Some v \<Rightarrow> v),
      serviceCidr = (case na_serviceCidr a of None \<Rightarrow> js ''10.12.0.0/21'' | Some v \<Rightarrow> v)\<rparr>"

text \<open>The table of variant defaults: CostOptimized, Balanced, HighAvailability.\<close>

record variant_row =
  row_machineType :: jsstring
  row_initialNodeCount :: int
  row_minNodes :: int
  row_maxNodes :: int
  row_useSpotInstances :: bool
  row_diskSizeGb :: int

fun variant_defaults :: "profile_class \<Rightarrow> variant_row" where
  "variant_defaults DevProfile =
     \<lparr>row_machineType = js ''e2-medium'', row_initialNodeCount = 1, row_minNodes = 1,
      row_maxNodes = 3, row_useSpotInstances = True, row_diskSizeGb = 50\<rparr>"
| "variant_defaults StagingProfile =
     \<lparr>row_machineType = js ''n2-standard-2'', row_initialNodeCount = 2, row_minNodes = 2,
      row_maxNodes = 5, row_useSpotInstances = True, row_diskSizeGb = 75\<rparr>"
| "variant_defaults ProdProfile =
     \<lparr>row_machineType = js ''n2-standard-4'', row_initialNodeCount = 3, row_minNodes = 3,
      row_maxNodes = 10, row_useSpotInstances = False, row_diskSizeGb = 100\<rparr>"

text \<open>
  The variant defaults merged with overrides, an override winning field by field: a
  key that the overrides hold gives what they hold there, \<open>undefined\<close> included, and
  every other key gives the default of the variant, if the variant has one. At \<open>env\<close>
  and \<open>region\<close>, which are strings in the merged object (see \<open>spread_tested\<close>),
  \<open>undefined\<close> is the string that it reads as.
\<close>

definition override_wins :: "'a option \<Rightarrow> 'a property \<Rightarrow> 'a option" where
  "override_wins d ov = (case ov of Absent \<Rightarrow> d | Undefined \<Rightarrow> None | Value v \<Rightarrow> Some v)"

definition merged_cluster_args ::
    "PlatformProfile \<Rightarrow> PartialClusterConfigArgs \<Rightarrow> jsstring option ClusterConfigArgs" where
  "merged_cluster_args p ov =
     (let row = variant_defaults (profile_class p) in
      \<lparr>projectId = override_wins (Some (projectId p)) (pc_projectId ov),
       region = interpolate (override_wins (Some (region p)) (pc_region ov)),
       env = interpolate (override_wins (Some (env p)) (pc_env ov)),
       prefix = override_wins (Some (prefix p)) (pc_prefix ov),
       ca_zone = override_wins None (pc_zone ov),
       ca_machineType = override_wins (Some (row_machineType row)) (pc_machineType ov),
       ca_nodeCount = override_wins (Some (row_initialNodeCount row)) (pc_nodeCount ov),
       ca_minNodes = override_wins (Some (row_minNodes row)) (pc_minNodes ov),
       ca_maxNodes = override_wins (Some (row_maxNodes row)) (pc_maxNodes ov),
       ca_diskSize = override_wins (Some (row_diskSizeGb row)) (pc_diskSize ov),
       ca_spotInstances =
         override_wins (Some (row_useSpotInstances row)) (pc_spotInstances ov),
       ca_masterCidr = override_wins None (pc_masterCidr ov),
       ca_podRangeName = override_wins None (pc_podRangeName ov),
       ca_serviceRangeName = override_wins None (pc_serviceRangeName ov)\<rparr>)"

text \<open>An overrides object holds a value that one of the validators rejects.\<close>

definition rejected :: "('a \<Rightarrow> error + unit) \<Rightarrow> 'a property \<Rightarrow> bool" where
  "rejected validate ov = (case ov of Value v \<Rightarrow> validate v \<noteq> Inr () | _ \<Rightarrow> False)"

definition invalid_override :: "PartialClusterConfigArgs \<Rightarrow> bool" where
  "invalid_override ov \<longleftrightarrow>
     rejected validateEnvironment (pc_env ov) \<or>
     rejected validateRegion (pc_region ov) \<or>
     rejected validateMachineType (pc_machineType ov) \<or>
     rejected validateMaxNodes (pc_maxNodes ov) \<or>
     rejected validateDiskSize (pc_diskSize ov) \<or>
     rejected validateNodeCount (pc_nodeCount ov) \<or>
     rejected validateMasterCidr (pc_masterCidr ov)"

text \<open>
  The steps of the construction that precede the \<open>k\<close>-th one of \<open>cluster_steps\<close>
  (counted from 0) all pass.
\<close>

definition earlier_steps_pass :: "nat \<Rightarrow> 's ClusterConfigArgs \<Rightarrow> bool" where
  "earlier_steps_pass k a \<longleftrightarrow> first_error (take k (cluster_steps a)) = None"

text \<open>
  The node pool that a composite declares, as the values of the table of variant
  defaults.
\<close>

definition pool_row :: "NodePool \<Rightarrow> variant_row" where
  "pool_row n =
     \<lparr>row_machineType = pool_machineType n, row_initialNodeCount = pool_initialNodeCount n,
      row_minNodes = pool_minNodeCount n, row_maxNodes = pool_maxNodeCount n,
      row_useSpotInstances = pool_spot n, row_diskSizeGb = pool_diskSizeGb n\<rparr>"

text \<open>
  A secret id is well formed when it is neither empty nor made of white space only.
\<close>

definition well_formed_id :: "jsstring \<Rightarrow> bool" where
  "well_formed_id s \<longleftrightarrow> (\<exists>c\<in>set s. \<not> is_white_space c)"

section \<open>Basic facts\<close>

lemma js_eq_iff: "js a = js b \<longleftrightarrow> a = b"
  unfolding js_def by (simp add: inj_map_eq_map inj_on_def)

lemma and_then_simps:
  "and_then (Inl e) k = Inl e" "and_then (Inr v) k = k v"
  by (simp_all add: and_then_def)

lemma nullish_case: "nullish x d = (case x of None \<Rightarrow> d | Some v \<Rightarrow> v)"
  by (simp add: nullish_def)

lemma validateEnvironment_iff:
  "validateEnvironment e =
     (if e \<in> set ALLOWED_ENVIRONMENTS then Inr () else Inl (InvalidEnvironment e))"
  by (simp add: validateEnvironment_def includes_arr_def)

lemma validateRegion_iff:
  "validateRegion r = (if r \<in> set ALLOWED_REGIONS then Inr () else Inl (InvalidRegion r))"
  by (simp add: validateRegion_def includes_arr_def)

lemma validateMachineType_iff:
  "validateMachineType m =
     (if m \<in> set ALLOWED_MACHINE_TYPES then Inr () else Inl (InvalidMachineType m))"
  by (simp add: validateMachineType_def includes_arr_def)

lemma validateMaxNodes_iff:
  "validateMaxNodes n = (if 1 \<le> n \<and> n \<le> 50 then Inr () else Inl (OutOfRange MaxNodes n))"
  by (auto simp add: validateMaxNodes_def)

lemma validateDiskSize_iff:
  "validateDiskSize n = (if 30 \<le> n \<and> n \<le> 200 then Inr () else Inl (OutOfRange DiskSize n))"
  by (auto simp add: validateDiskSize_def)

lemma validateNodeCount_iff:
  "validateNodeCount n = (if 1 \<le> n \<and> n \<le> 20 then Inr () else Inl (OutOfRange NodeCount n))"
  by (auto simp add: validateNodeCount_def)

section \<open>The numeric bounds\<close>

text \<open>
  Claim C5. For every integer \<open>n\<close>, the \<open>maxNodes\<close> validator succeeds if and only if
  \<open>1 \<le> n \<le> 50\<close>, the disk size validator if and only if \<open>30 \<le> n \<le> 200\<close>, and the
  node count validator if and only if \<open>1 \<le> n \<le> 20\<close>; outside its range each fails with
  \<open>OutOfRange\<close>, for its own bound and the rejected value.
\<close>

theorem bound_validators:
  "(validateMaxNodes n = Inr ()) = (1 \<le> n \<and> n \<le> 50) \<and>
   (validateMaxNodes n = Inl (OutOfRange MaxNodes n)) = (n < 1 \<or> 50 < n) \<and>
   (validateDiskSize n = Inr ()) = (30 \<le> n \<and> n \<le> 200) \<and>
   (validateDiskSize n = Inl (OutOfRange DiskSize n)) = (n < 30 \<or> 200 < n) \<and>
   (validateNodeCount n = Inr ()) = (1 \<le> n \<and> n \<le> 20) \<and>
   (validateNodeCount n = Inl (OutOfRange NodeCount n)) = (n < 1 \<or> 20 < n)"
  unfolding validateMaxNodes_def validateDiskSize_def validateNodeCount_def
  by (simp add: not_le not_less)

theorem bound_validators_witness:
  "validateMaxNodes 50 = Inr () \<and> validateMaxNodes 51 = Inl (OutOfRange MaxNodes 51) \<and>
   validateDiskSize 30 = Inr () \<and> validateDiskSize 29 = Inl (OutOfRange DiskSize 29) \<and>
   validateNodeCount 20 = Inr () \<and> validateNodeCount 0 = Inl (OutOfRange NodeCount 0)"
  using bound_validators [of 50] bound_validators [of 51] bound_validators [of 30]
    bound_validators [of 29] bound_validators [of 20] bound_validators [of 0]
  by simp

section \<open>The master CIDR validator\<close>

subsection \<open>What the regular expression accepts\<close>

lemma octet_group_cases:
  "octet_group g \<longleftrightarrow>
     (\<exists>x. g = [x] \<and> is_digit x) \<or>
     (\<exists>x y. g = [x, y] \<and> is_digit x \<and> is_digit y) \<or>
     (\<exists>x y z. g = [x, y, z] \<and> is_digit x \<and> is_digit y \<and> is_digit z)"
proof (cases g)
  case Nil
  then show ?thesis by (simp add: octet_group_def)
next
  case (Cons x g1)
  note g = this
  show ?thesis
  proof (cases g1)
    case Nil
    with g show ?thesis by (simp add: octet_group_def)
  next
    case (Cons y g2)
    note g1 = this
    show ?thesis
    proof (cases g2)
      case Nil
      with g g1 show ?thesis by (simp add: octet_group_def)
    next
      case (Cons z g3)
      with g g1 show ?thesis by (cases g3) (auto simp add: octet_group_def)
    qed
  qed
qed

lemma rests_Digit: "t \<in> set (rests Digit s) \<longleftrightarrow> (\<exists>x. is_digit x \<and> s = x # t)"
  by (cases s) auto

lemma rests_Chr: "t \<in> set (rests (Chr c) s) \<longleftrightarrow> s = c # t"
  by (cases s) auto

lemma rests_Seq:
  "t \<in> set (rests (Seq a b) s) \<longleftrightarrow> (\<exists>u. u \<in> set (rests a s) \<and> t \<in> set (rests b u))"
  by auto

lemma rep_rests_1_3:
  "t \<in> set (rep_rests f 1 3 s) \<longleftrightarrow>
     (\<exists>u \<in> set (f s). t = u \<or> (\<exists>v \<in> set (f u). t = v \<or> t \<in> set (f v)))"
  by (auto simp add: numeral_3_eq_3)

lemma rep_rests_3_3:
  "t \<in> set (rep_rests f 3 3 s) \<longleftrightarrow>
     (\<exists>u v. u \<in> set (f s) \<and> v \<in> set (f u) \<and> t \<in> set (f v))"
  by (auto simp add: numeral_3_eq_3)

lemma rests_octet:
  "t \<in> set (rests (Rep Digit 1 3) s) \<longleftrightarrow> (\<exists>g. octet_group g \<and> s = g @ t)"
proof
  assume "t \<in> set (rests (Rep Digit 1 3) s)"
  then obtain u where u: "u \<in> set (rests Digit s)"
    and more: "t = u \<or> (\<exists>v\<in>set (rests Digit u). t = v \<or> t \<in> set (rests Digit v))"
    unfolding rests.simps(4) rep_rests_1_3 by blast
  from u obtain x where x: "is_digit x" "s = x # u"
    unfolding rests_Digit by blast
  from more consider "t = u" | v where "v \<in> set (rests Digit u)" "t = v"
    | v where "v \<in> set (rests Digit u)" "t \<in> set (rests Digit v)"
    by blast
  then show "\<exists>g. octet_group g \<and> s = g @ t"
  proof cases
    case 1
    with x have "octet_group [x] \<and> s = [x] @ t" by (simp add: octet_group_def)
    then show ?thesis by blast
  next
    case 2
    then obtain y where "is_digit y" "u = y # t" unfolding rests_Digit by blast
    with x have "octet_group [x, y] \<and> s = [x, y] @ t" by (simp add: octet_group_def)
    then show ?thesis by blast
  next
    case 3
    then obtain y z where "is_digit y" "u = y # v" "is_digit z" "v = z # t"
      unfolding rests_Digit by blast
    with x have "octet_group [x, y, z] \<and> s = [x, y, z] @ t" by (simp add: octet_group_def)
    then show ?thesis by blast
  qed
next
  assume "\<exists>g. octet_group g \<and> s = g @ t"
  then obtain g where g: "octet_group g" and s: "s = g @ t" by blast
  from g consider x where "g = [x]" "is_digit x"
    | x y where "g = [x, y]" "is_digit x" "is_digit y"
    | x y z where "g = [x, y, z]" "is_digit x" "is_digit y" "is_digit z"
    unfolding octet_group_cases by blast
  then show "t \<in> set (rests (Rep Digit 1 3) s)"
  proof cases
    case 1
    with s show ?thesis unfolding rests.simps(4) rep_rests_1_3 by (simp add: rests_Digit)
  next
    case 2
    with s show ?thesis unfolding rests.simps(4) rep_rests_1_3 by (simp add: rests_Digit)
  next
    case 3
    with s show ?thesis unfolding rests.simps(4) rep_rests_1_3 by (simp add: rests_Digit)
  qed
qed

lemma rests_group_sep:
  "t \<in> set (rests (Seq (Rep Digit 1 3) (Chr c)) s) \<longleftrightarrow> (\<exists>g. octet_group g \<and> s = g @ c # t)"
  unfolding rests_Seq rests_octet rests_Chr by blast

lemma rests_three_groups:
  "t \<in> set (rests (Rep (Seq (Rep Digit 1 3) (Chr c)) 3 3) s) \<longleftrightarrow>
     (\<exists>a b d. octet_group a \<and> octet_group b \<and> octet_group d \<and>
        s = a @ c # b @ c # d @ c # t)"
  unfolding rests.simps(4) rep_rests_3_3 rests_group_sep by (simp, blast)

lemma rests_tail:
  "t \<in> set (rests (Seq (Chr x) (Seq (Chr y) (Chr z))) s) \<longleftrightarrow> s = x # y # z # t"
  unfolding rests_Seq rests_Chr by blast

lemma dotted_quad_units:
  "dotted_quad a b c d = a @ of_char CHR ''.'' # b @ of_char CHR ''.'' # c @ of_char CHR ''.'' # d"
  unfolding dotted_quad_def js_def by simp

lemma cidr_format_units:
  "cidr_format s a b c d \<longleftrightarrow>
     octet_group a \<and> octet_group b \<and> octet_group c \<and> octet_group d \<and>
     s = a @ of_char CHR ''.'' # b @ of_char CHR ''.'' # c @ of_char CHR ''.'' # d @
           [of_char CHR ''/'', of_char CHR ''2'', of_char CHR ''8'']"
  unfolding cidr_format_def dotted_quad_def js_def by simp

lemma cidrRegex_test_iff:
  "regex_test cidrRegex s \<longleftrightarrow> (\<exists>a b c d. cidr_format s a b c d)"
proof -
  have "regex_test cidrRegex s \<longleftrightarrow>
     (\<exists>u v. u \<in> set (rests (Rep (Seq (Rep Digit 1 3) (Chr (of_char CHR ''.''))) 3 3) s) \<and>
          v \<in> set (rests (Rep Digit 1 3) u) \<and>
          [] \<in> set (rests (Seq (Chr (of_char CHR ''/''))
                            (Seq (Chr (of_char CHR ''2'')) (Chr (of_char CHR ''8'')))) v))"
    unfolding regex_test_def cidrRegex_def rests_Seq [of _ _ "Seq _ _"] by blast
  also have "\<dots> \<longleftrightarrow> (\<exists>a b c d. cidr_format s a b c d)"
    unfolding rests_three_groups rests_octet rests_tail cidr_format_units
    by blast
  finally show ?thesis .
qed

subsection \<open>Splitting and reading the octets\<close>

lemma split_not_Nil: "split sep s \<noteq> []"
  by (induction s) (auto split: list.splits)

lemma split_no_sep: "sep \<notin> set p \<Longrightarrow> split sep p = [p]"
  by (induction p) auto

lemma split_piece: "sep \<notin> set p \<Longrightarrow> split sep (p @ sep # r) = p # split sep r"
  by (induction p) auto

lemma octet_group_no_sep: "octet_group g \<Longrightarrow> \<not> is_digit c \<Longrightarrow> c \<notin> set g"
  unfolding octet_group_def by blast

lemma not_digit_seps:
  "\<not> is_digit (of_char CHR ''.'')" "\<not> is_digit (of_char CHR ''/'')"
  by (simp_all add: is_digit_def)

lemma Number_js_group: "octet_group g \<Longrightarrow> Number_js g = Some (decimal_value g)"
  unfolding octet_group_def Number_js_def by (simp add: list_all_iff)

lemma decimal_value_nonneg: "list_all is_digit g \<Longrightarrow> 0 \<le> decimal_value g"
proof -
  have "list_all is_digit g \<Longrightarrow> 0 \<le> n \<Longrightarrow> 0 \<le> foldl (\<lambda>n c. 10 * n + digit_value c) n g" for n
    by (induction g arbitrary: n) (auto simp add: is_digit_def digit_value_def)
  then show "list_all is_digit g \<Longrightarrow> 0 \<le> decimal_value g"
    unfolding decimal_value_def by simp
qed

lemma octet_group_nonneg: "octet_group g \<Longrightarrow> 0 \<le> decimal_value g"
  by (rule decimal_value_nonneg) (simp add: octet_group_def list_all_iff)

lemma split_slash_format:
  assumes "cidr_format s a b c d"
  shows "hd (split (of_char CHR ''/'') s) = dotted_quad a b c d"
proof -
  let ?sl = "of_char CHR ''/'' :: nat"
  let ?ip = "dotted_quad a b c d"
  from assms have groups: "octet_group a" "octet_group b" "octet_group c" "octet_group d"
    and s: "s = ?ip @ ?sl # js ''28''"
    unfolding cidr_format_def js_def by simp_all
  have "?sl \<notin> set ?ip"
    using groups [THEN octet_group_no_sep, OF not_digit_seps(2)]
    unfolding dotted_quad_def js_def by simp
  then show ?thesis unfolding s by (simp add: split_piece)
qed

lemma split_dot_quad:
  assumes "octet_group a" "octet_group b" "octet_group c" "octet_group d"
  shows "split (of_char CHR ''.'') (dotted_quad a b c d) = [a, b, c, d]"
proof -
  let ?dot = "of_char CHR ''.'' :: nat"
  have no: "?dot \<notin> set a" "?dot \<notin> set b" "?dot \<notin> set c" "?dot \<notin> set d"
    using assms [THEN octet_group_no_sep, OF not_digit_seps(1)] by simp_all
  show ?thesis
    unfolding dotted_quad_units
    by (simp only: split_piece [OF no(1)] split_piece [OF no(2)] split_piece [OF no(3)]
        split_no_sep [OF no(4)])
qed

lemma validateMasterCidr_format:
  assumes f: "cidr_format s a b c d"
  shows "validateMasterCidr s =
     (if \<not> (octet_in_range a \<and> octet_in_range b \<and> octet_in_range c \<and> octet_in_range d)
      then Inl (MalformedCidr OctetRange (dotted_quad a b c d))
      else if \<not> rfc1918_private (decimal_value a) (decimal_value b)
      then Inl (NotPrivateRange (dotted_quad a b c d))
      else if decimal_value d mod 16 \<noteq> 0
      then Inl (MisalignedBlock (dotted_quad a b c d))
      else Inr ())"
proof -
  from f have groups: "octet_group a" "octet_group b" "octet_group c" "octet_group d"
    unfolding cidr_format_def by simp_all
  have t: "regex_test cidrRegex s"
    unfolding cidrRegex_test_iff using f by blast
  note ip = split_slash_format [OF f]
  have octets: "map Number_js (split (of_char CHR ''.'') (dotted_quad a b c d)) =
      [Some (decimal_value a), Some (decimal_value b), Some (decimal_value c),
       Some (decimal_value d)]"
    unfolding split_dot_quad [OF groups] by (simp add: Number_js_group groups)
  show ?thesis
    unfolding validateMasterCidr_def Let_def ip octets
    using groups [THEN octet_group_nonneg]
    by (simp add: t at_index_def num_lt_def num_gt_def num_eq_def num_ge_def num_le_def
        rem_not_zero_def octet_in_range_def rfc1918_private_def)
qed

lemma validateMasterCidr_no_format:
  "\<not> (\<exists>a b c d. cidr_format s a b c d) \<Longrightarrow>
     validateMasterCidr s = Inl (MalformedCidr Format s)"
  unfolding validateMasterCidr_def cidrRegex_test_iff [symmetric] by simp

lemma validateMasterCidr_default: "validateMasterCidr (js ''172.16.0.0/28'') = Inr ()"
  by code_simp

subsection \<open>The four checks\<close>

text \<open>
  Claim C2. For every input string, \<open>validateMasterCidr\<close> runs four checks in a fixed
  order, and the first check that fails determines the error: (1) a string that is
  not four dot-separated groups of one to three digits followed by \<open>/28\<close> fails with
  \<open>MalformedCidr\<close>; for a string of that format, (2) an octet above 255 fails with
  \<open>MalformedCidr\<close>, else (3) an address outside the RFC 1918 ranges fails with
  \<open>NotPrivateRange\<close>, else (4) a last octet that is not a multiple of 16 fails with
  \<open>MisalignedBlock\<close>, else the validator succeeds. The seven concrete cases of the
  specification come out as it says.
\<close>

theorem validateMasterCidr_checks:
  "(\<not> (\<exists>a b c d. cidr_format s a b c d) \<longrightarrow>
      validateMasterCidr s = Inl (MalformedCidr Format s)) \<and>
   (\<forall>a b c d. cidr_format s a b c d \<longrightarrow>
      validateMasterCidr s =
        (if \<not> (octet_in_range a \<and> octet_in_range b \<and> octet_in_range c \<and> octet_in_range d)
         then Inl (MalformedCidr OctetRange (dotted_quad a b c d))
         else if \<not> rfc1918_private (decimal_value a) (decimal_value b)
         then Inl (NotPrivateRange (dotted_quad a b c d))
         else if decimal_value d mod 16 \<noteq> 0
         then Inl (MisalignedBlock (dotted_quad a b c d))
         else Inr ())) \<and>
   validateMasterCidr (js ''172.16.0.0/28'') = Inr () \<and>
   validateMasterCidr (js ''172.16.0.16/28'') = Inr () \<and>
   validateMasterCidr (js ''192.168.1.48/28'') = Inr () \<and>
   validateMasterCidr (js ''172.16.0.0/24'') = Inl (MalformedCidr Format (js ''172.16.0.0/24'')) \<and>
   validateMasterCidr (js ''8.8.8.0/28'') = Inl (NotPrivateRange (js ''8.8.8.0'')) \<and>
   validateMasterCidr (js ''172.15.0.0/28'') = Inl (NotPrivateRange (js ''172.15.0.0'')) \<and>
   validateMasterCidr (js ''172.16.0.1/28'') = Inl (MisalignedBlock (js ''172.16.0.1''))"
proof (intro conjI allI impI)
  show "validateMasterCidr s = Inl (MalformedCidr Format s)"
    if "\<not> (\<exists>a b c d. cidr_format s a b c d)"
    using that by (rule validateMasterCidr_no_format)
  show "validateMasterCidr s =
        (if \<not> (octet_in_range a \<and> octet_in_range b \<and> octet_in_range c \<and> octet_in_range d)
         then Inl (MalformedCidr OctetRange (dotted_quad a b c d))
         else if \<not> rfc1918_private (decimal_value a) (decimal_value b)
         then Inl (NotPrivateRange (dotted_quad a b c d))
         else if decimal_value d mod 16 \<noteq> 0
         then Inl (MisalignedBlock (dotted_quad a b c d))
         else Inr ())"
    if "cidr_format s a b c d" for a b c d
    using that by (rule validateMasterCidr_format)
  show "validateMasterCidr (js ''172.16.0.0/28'') = Inr ()" by code_simp
  show "validateMasterCidr (js ''172.16.0.16/28'') = Inr ()" by code_simp
  show "validateMasterCidr (js ''192.168.1.48/28'') = Inr ()" by code_simp
  show "validateMasterCidr (js ''172.16.0.0/24'') = Inl (MalformedCidr Format (js ''172.16.0.0/24''))"
    by code_simp
  show "validateMasterCidr (js ''8.8.8.0/28'') = Inl (NotPrivateRange (js ''8.8.8.0''))"
    by code_simp
  show "validateMasterCidr (js ''172.15.0.0/28'') = Inl (NotPrivateRange (js ''172.15.0.0''))"
    by code_simp
  show "validateMasterCidr (js ''172.16.0.1/28'') = Inl (MisalignedBlock (js ''172.16.0.1''))"
    by code_simp
qed

theorem validateMasterCidr_checks_witness:
  "cidr_format (js ''10.0.999.32/28'') (js ''10'') (js ''0'') (js ''999'') (js ''32'') \<and>
   validateMasterCidr (js ''10.0.999.32/28'') = Inl (MalformedCidr OctetRange (js ''10.0.999.32'')) \<and>
   \<not> (\<exists>a b c d. cidr_format (js ''10.0.0.0/2'') a b c d) \<and>
   validateMasterCidr (js ''10.0.0.0/2'') = Inl (MalformedCidr Format (js ''10.0.0.0/2''))"
proof -
  have f: "cidr_format (js ''10.0.999.32/28'') (js ''10'') (js ''0'') (js ''999'') (js ''32'')"
    by (simp add: cidr_format_def dotted_quad_def octet_group_def js_def is_digit_def)
  have "\<not> regex_test cidrRegex (js ''10.0.0.0/2'')" by code_simp
  then have n: "\<not> (\<exists>a b c d. cidr_format (js ''10.0.0.0/2'') a b c d)"
    unfolding cidrRegex_test_iff .
  have v: "\<not> octet_in_range (js ''999'')"
    by (simp add: octet_in_range_def decimal_value_def digit_value_def js_def)
  have q: "dotted_quad (js ''10'') (js ''0'') (js ''999'') (js ''32'') = js ''10.0.999.32''"
    by (simp add: dotted_quad_def js_def)
  from validateMasterCidr_checks [of "js ''10.0.999.32/28''", THEN conjunct2, THEN conjunct1,
      rule_format, OF f]
    validateMasterCidr_checks [of "js ''10.0.0.0/2''", THEN conjunct1, rule_format, OF n]
    f n v q
  show ?thesis by simp
qed

section \<open>The order of validation\<close>

lemma ClusterConfig_new_steps:
  "ClusterConfig_new a =
     (case first_error (cluster_steps a) of
        Some e \<Rightarrow> Inl e
      | None \<Rightarrow> Inr (resolved_cluster a))"
  unfolding ClusterConfig_new_def cluster_steps_def Let_def
  by (cases "validateEnvironment (env a)"; cases "validateRegion (region a)";
      cases "validateMachineType (machineType (resolved_cluster a))";
      cases "validateMaxNodes (maxNodes (resolved_cluster a))";
      cases "validateDiskSize (diskSize (resolved_cluster a))";
      cases "validateNodeCount (nodeCount (resolved_cluster a))";
      cases "validateMasterCidr (masterCidr (resolved_cluster a))")
     (simp_all add: and_then_simps resolved_cluster_def nullish_case)

lemma NetworkConfig_new_steps:
  "NetworkConfig_new n =
     (case first_error (network_steps n) of
        Some e \<Rightarrow> Inl e
      | None \<Rightarrow> Inr (resolved_network n))"
  unfolding NetworkConfig_new_def network_steps_def
  by (cases "validateEnvironment (env n)"; cases "validateRegion (region n)")
     (simp_all add: and_then_simps resolved_network_def nullish_case)

text \<open>
  Claim C3. The construction of a \<open>ClusterConfig\<close> validates in the order
  environment, region, machine type (default \<open>e2-medium\<close>), \<open>maxNodes\<close> (default 3),
  \<open>diskSize\<close> (default 50), \<open>nodeCount\<close> (default 1), \<open>minNodes\<close> against \<open>maxNodes\<close>,
  [the zone defaults to the region followed by \<open>-a\<close>], master CIDR (default
  \<open>172.16.0.0/28\<close>), and raises the error of the first step that fails, whatever the
  later fields are: an invalid environment reports \<open>InvalidEnvironment\<close> also when the
  region is invalid, and an invalid machine type (environment and region being valid)
  reports \<open>InvalidMachineType\<close> also when the master CIDR is invalid. The construction of
  a \<open>NetworkConfig\<close> validates the environment before the region.
\<close>

theorem validation_order:
  "ClusterConfig_new a =
     (case first_error (cluster_steps a) of
        Some e \<Rightarrow> Inl e
      | None \<Rightarrow> Inr (resolved_cluster a)) \<and>
   NetworkConfig_new n =
     (case first_error (network_steps n) of
        Some e \<Rightarrow> Inl e
      | None \<Rightarrow> Inr (resolved_network n)) \<and>
   (env a \<notin> set ALLOWED_ENVIRONMENTS \<longrightarrow>
      ClusterConfig_new a = Inl (InvalidEnvironment (env a))) \<and>
   (env a \<in> set ALLOWED_ENVIRONMENTS \<and> region a \<notin> set ALLOWED_REGIONS \<longrightarrow>
      ClusterConfig_new a = Inl (InvalidRegion (region a))) \<and>
   (env a \<in> set ALLOWED_ENVIRONMENTS \<and> region a \<in> set ALLOWED_REGIONS \<and>
    nullish (ca_machineType a) (js ''e2-medium'') \<notin> set ALLOWED_MACHINE_TYPES \<longrightarrow>
      ClusterConfig_new a =
        Inl (InvalidMachineType (nullish (ca_machineType a) (js ''e2-medium'')))) \<and>
   (first_error (cluster_steps a) = None \<longrightarrow>
      ClusterConfig_new a = Inr (resolved_cluster a) \<and>
      zone (resolved_cluster a) = nullish (ca_zone a) (region a @ js ''-a'')) \<and>
   (env n \<notin> set ALLOWED_ENVIRONMENTS \<longrightarrow>
      NetworkConfig_new n = Inl (InvalidEnvironment (env n))) \<and>
   (env n \<in> set ALLOWED_ENVIRONMENTS \<and> region n \<notin> set ALLOWED_REGIONS \<longrightarrow>
      NetworkConfig_new n = Inl (InvalidRegion (region n)))"
proof (intro conjI impI)
  show "ClusterConfig_new a =
     (case first_error (cluster_steps a) of
        Some e \<Rightarrow> Inl e
      | None \<Rightarrow> Inr (resolved_cluster a))"
    by (rule ClusterConfig_new_steps)
  show "NetworkConfig_new n =
     (case first_error (network_steps n) of
        Some e \<Rightarrow> Inl e
      | None \<Rightarrow> Inr (resolved_network n))"
    by (rule NetworkConfig_new_steps)
  show "ClusterConfig_new a = Inl (InvalidEnvironment (env a))"
    if "env a \<notin> set ALLOWED_ENVIRONMENTS"
    using that unfolding ClusterConfig_new_steps cluster_steps_def Let_def
    by (simp add: validateEnvironment_iff)
  show "ClusterConfig_new a = Inl (InvalidRegion (region a))"
    if "env a \<in> set ALLOWED_ENVIRONMENTS \<and> region a \<notin> set ALLOWED_REGIONS"
    using that unfolding ClusterConfig_new_steps cluster_steps_def Let_def
    by (simp add: validateEnvironment_iff validateRegion_iff)
  show "ClusterConfig_new a =
        Inl (InvalidMachineType (nullish (ca_machineType a) (js ''e2-medium'')))"
    if "env a \<in> set ALLOWED_ENVIRONMENTS \<and> region a \<in> set ALLOWED_REGIONS \<and>
        nullish (ca_machineType a) (js ''e2-medium'') \<notin> set ALLOWED_MACHINE_TYPES"
    using that unfolding ClusterConfig_new_steps cluster_steps_def Let_def
    by (simp add: validateEnvironment_iff validateRegion_iff validateMachineType_iff
        resolved_cluster_def nullish_case)
  show "ClusterConfig_new a = Inr (resolved_cluster a)"
    if "first_error (cluster_steps a) = None"
    using that unfolding ClusterConfig_new_steps by simp
  show "zone (resolved_cluster a) = nullish (ca_zone a) (region a @ js ''-a'')"
    by (simp add: resolved_cluster_def nullish_case)
  show "NetworkConfig_new n = Inl (InvalidEnvironment (env n))"
    if "env n \<notin> set ALLOWED_ENVIRONMENTS"
    using that unfolding NetworkConfig_new_steps network_steps_def
    by (simp add: validateEnvironment_iff)
  show "NetworkConfig_new n = Inl (InvalidRegion (region n))"
    if "env n \<in> set ALLOWED_ENVIRONMENTS \<and> region n \<notin> set ALLOWED_REGIONS"
    using that unfolding NetworkConfig_new_steps network_steps_def
    by (simp add: validateEnvironment_iff validateRegion_iff)
qed

theorem validation_order_witness:
  "ClusterConfig_new
     \<lparr>projectId = js ''p'', region = js ''mars-1'', env = js ''qa'', prefix = js ''x'',
      ca_zone = None, ca_machineType = None, ca_nodeCount = None, ca_minNodes = None,
      ca_maxNodes = None, ca_diskSize = None, ca_spotInstances = None,
      ca_masterCidr = None, ca_podRangeName = None, ca_serviceRangeName = None\<rparr>
     = Inl (InvalidEnvironment (js ''qa'')) \<and>
   ClusterConfig_new
     \<lparr>projectId = js ''p'', region = js ''mars-1'', env = js ''dev'', prefix = js ''x'',
      ca_zone = None, ca_machineType = Some (js ''huge''), ca_nodeCount = None,
      ca_minNodes = None, ca_maxNodes = None, ca_diskSize = None, ca_spotInstances = None,
      ca_masterCidr = None, ca_podRangeName = None, ca_serviceRangeName = None\<rparr>
     = Inl (InvalidRegion (js ''mars-1'')) \<and>
   ClusterConfig_new
     \<lparr>projectId = js ''p'', region = js ''us-east1'', env = js ''dev'', prefix = js ''x'',
      ca_zone = None, ca_machineType = Some (js ''huge''), ca_nodeCount = None,
      ca_minNodes = None, ca_maxNodes = None, ca_diskSize = None, ca_spotInstances = None,
      ca_masterCidr = Some (js ''8.8.8.8/8''), ca_podRangeName = None,
      ca_serviceRangeName = None\<rparr>
     = Inl (InvalidMachineType (js ''huge'')) \<and>
   zone (resolved_cluster
     \<lparr>projectId = js ''p'', region = js ''us-east1'', env = js ''dev'', prefix = js ''x'',
      ca_zone = None, ca_machineType = None, ca_nodeCount = None, ca_minNodes = None,
      ca_maxNodes = None, ca_diskSize = None, ca_spotInstances = None,
      ca_masterCidr = None, ca_podRangeName = None, ca_serviceRangeName = None\<rparr>)
     = js ''us-east1-a'' \<and>
   NetworkConfig_new
     \<lparr>projectId = js ''p'', region = js ''mars-1'', env = js ''qa'', prefix = js ''x'',
      na_cidr = None, na_podCidr = None, na_serviceCidr = None, na_podRangeName = None,
      na_serviceRangeName = None\<rparr>
     = Inl (InvalidEnvironment (js ''qa'')) \<and>
   NetworkConfig_new
     \<lparr>projectId = js ''p'', region = js ''mars-1'', env = js ''prod'', prefix = js ''x'',
      na_cidr = None, na_podCidr = None, na_serviceCidr = None, na_podRangeName = None,
      na_serviceRangeName = None\<rparr>
     = Inl (InvalidRegion (js ''mars-1''))"
proof -
  let ?a1 = "\<lparr>projectId = js ''p'', region = js ''mars-1'', env = js ''qa'', prefix = js ''x'',
      ca_zone = None, ca_machineType = None, ca_nodeCount = None, ca_minNodes = None,
      ca_maxNodes = None, ca_diskSize = None, ca_spotInstances = None,
      ca_masterCidr = None, ca_podRangeName = None, ca_serviceRangeName = None\<rparr>"
  let ?a2 = "\<lparr>projectId = js ''p'', region = js ''mars-1'', env = js ''dev'', prefix = js ''x'',
      ca_zone = None, ca_machineType = Some (js ''huge''), ca_nodeCount = None,
      ca_minNodes = None, ca_maxNodes = None, ca_diskSize = None, ca_spotInstances = None,
      ca_masterCidr = None, ca_podRangeName = None, ca_serviceRangeName = None\<rparr>"
  let ?a3 = "\<lparr>projectId = js ''p'', region = js ''us-east1'', env = js ''dev'', prefix = js ''x'',
      ca_zone = None, ca_machineType = Some (js ''huge''), ca_nodeCount = None,
      ca_minNodes = None, ca_maxNodes = None, ca_diskSize = None, ca_spotInstances = None,
      ca_masterCidr = Some (js ''8.8.8.8/8''), ca_podRangeName = None,
      ca_serviceRangeName = None\<rparr>"
  let ?a4 = "\<lparr>projectId = js ''p'', region = js ''us-east1'', env = js ''dev'', prefix = js ''x'',
      ca_zone = None, ca_machineType = None, ca_nodeCount = None, ca_minNodes = None,
      ca_maxNodes = None, ca_diskSize = None, ca_spotInstances = None,
      ca_masterCidr = None, ca_podRangeName = None, ca_serviceRangeName = None\<rparr>"
  let ?n1 = "\<lparr>projectId = js ''p'', region = js ''mars-1'', env = js ''qa'', prefix = js ''x'',
      na_cidr = None, na_podCidr = None, na_serviceCidr = None, na_podRangeName = None,
      na_serviceRangeName = None\<rparr>"
  let ?n2 = "\<lparr>projectId = js ''p'', region = js ''mars-1'', env = js ''prod'', prefix = js ''x'',
      na_cidr = None, na_podCidr = None, na_serviceCidr = None, na_podRangeName = None,
      na_serviceRangeName = None\<rparr>"
  have ok: "first_error (cluster_steps ?a4) = None"
    by (simp add: cluster_steps_def resolved_cluster_def validateEnvironment_iff
        validateRegion_iff validateMachineType_iff validateMaxNodes_iff validateDiskSize_iff
        validateNodeCount_iff validateMasterCidr_default ALLOWED_ENVIRONMENTS_def
        ALLOWED_REGIONS_def ALLOWED_MACHINE_TYPES_def js_eq_iff)
  have c1: "ClusterConfig_new ?a1 = Inl (InvalidEnvironment (js ''qa''))"
    using validation_order [of ?a1 ?n1, THEN conjunct2, THEN conjunct2, THEN conjunct1]
    by (simp add: ALLOWED_ENVIRONMENTS_def js_eq_iff)
  have c2: "ClusterConfig_new ?a2 = Inl (InvalidRegion (js ''mars-1''))"
    using validation_order [of ?a2 ?n1, THEN conjunct2, THEN conjunct2, THEN conjunct2,
        THEN conjunct1]
    by (simp add: ALLOWED_ENVIRONMENTS_def ALLOWED_REGIONS_def js_eq_iff)
  have c3: "ClusterConfig_new ?a3 = Inl (InvalidMachineType (js ''huge''))"
    using validation_order [of ?a3 ?n1, THEN conjunct2, THEN conjunct2, THEN conjunct2,
        THEN conjunct2, THEN conjunct1]
    by (simp add: ALLOWED_ENVIRONMENTS_def ALLOWED_REGIONS_def ALLOWED_MACHINE_TYPES_def
        js_eq_iff nullish_case)
  have c4: "zone (resolved_cluster ?a4) = js ''us-east1-a''"
    using validation_order [of ?a4 ?n1, THEN conjunct2, THEN conjunct2, THEN conjunct2,
        THEN conjunct2, THEN conjunct2, THEN conjunct1] ok
    by (simp add: nullish_case js_def)
  have c5: "NetworkConfig_new ?n1 = Inl (InvalidEnvironment (js ''qa''))"
    using validation_order [of ?a1 ?n1, THEN conjunct2, THEN conjunct2, THEN conjunct2,
        THEN conjunct2, THEN conjunct2, THEN conjunct2, THEN conjunct1]
    by (simp add: ALLOWED_ENVIRONMENTS_def js_eq_iff)
  have c6: "NetworkConfig_new ?n2 = Inl (InvalidRegion (js ''mars-1''))"
    using validation_order [of ?a1 ?n2, THEN conjunct2, THEN conjunct2, THEN conjunct2,
        THEN conjunct2, THEN conjunct2, THEN conjunct2, THEN conjunct2]
    by (simp add: ALLOWED_ENVIRONMENTS_def ALLOWED_REGIONS_def js_eq_iff)
  from c1 c2 c3 c4 c5 c6 show ?thesis by blast
qed

section \<open>The node counts\<close>

lemma first_six_steps:
  "passes_steps_1_to_6 a \<Longrightarrow>
     first_error (cluster_steps a) =
       first_error
         [if minNodes (resolved_cluster a) > maxNodes (resolved_cluster a)
          then Inl (MinExceedsMax (minNodes (resolved_cluster a)) (maxNodes (resolved_cluster a)))
          else Inr (),
          validateMasterCidr (masterCidr (resolved_cluster a))]"
  unfolding passes_steps_1_to_6_def cluster_steps_def Let_def
  by (simp add: validateEnvironment_iff validateRegion_iff validateMachineType_iff
      validateMaxNodes_iff validateDiskSize_iff validateNodeCount_iff)

lemma min_exceeds_max_fails:
  assumes "minNodes (resolved_cluster a) > maxNodes (resolved_cluster a)"
  shows "\<exists>e. ClusterConfig_new a = Inl e"
proof -
  have "first_error (cluster_steps a) \<noteq> None"
    unfolding cluster_steps_def Let_def using assms
    by (cases "validateEnvironment (env a)"; cases "validateRegion (region a)";
        cases "validateMachineType (machineType (resolved_cluster a))";
        cases "validateMaxNodes (maxNodes (resolved_cluster a))";
        cases "validateDiskSize (diskSize (resolved_cluster a))";
        cases "validateNodeCount (nodeCount (resolved_cluster a))") simp_all
  then show ?thesis unfolding ClusterConfig_new_steps by (auto split: option.splits)
qed

lemma validateMasterCidr_not_MinExceedsMax: "validateMasterCidr s \<noteq> Inl (MinExceedsMax x y)"
  unfolding validateMasterCidr_def Let_def by simp

lemma MinExceedsMax_only_at_step_7:
  assumes "ClusterConfig_new a = Inl (MinExceedsMax x y)"
  shows "passes_steps_1_to_6 a \<and>
         minNodes (resolved_cluster a) > maxNodes (resolved_cluster a) \<and>
         x = minNodes (resolved_cluster a) \<and> y = maxNodes (resolved_cluster a)"
proof -
  from assms have "first_error (cluster_steps a) = Some (MinExceedsMax x y)"
    unfolding ClusterConfig_new_steps by (simp split: option.splits)
  then show ?thesis
    unfolding cluster_steps_def Let_def passes_steps_1_to_6_def
    using validateMasterCidr_not_MinExceedsMax [of "masterCidr (resolved_cluster a)" x y]
    by (cases "validateMasterCidr (masterCidr (resolved_cluster a))")
       (auto simp add: validateEnvironment_iff validateRegion_iff validateMachineType_iff
          validateMaxNodes_iff validateDiskSize_iff validateNodeCount_iff split: if_splits)
qed

text \<open>
  Claim C4, as amended. The resolved \<open>minNodes\<close> (default 1) is compared with the
  resolved \<open>maxNodes\<close> (default 3), not with the raw input, and no input whose resolved
  \<open>minNodes\<close> exceeds its resolved \<open>maxNodes\<close> is constructed. The construction fails
  with \<open>MinExceedsMax\<close>, carrying the two resolved values, exactly when the six steps
  before the comparison pass (environment, region and machine type allowed;
  \<open>maxNodes\<close>, \<open>diskSize\<close> and \<open>nodeCount\<close> within their bounds) and the resolved
  \<open>minNodes\<close> exceeds the resolved \<open>maxNodes\<close>; when one of the six steps fails, its error
  is reported instead. When the two values are equal and every other field,
  \<open>maxNodes\<close> included, is valid, the construction succeeds.
\<close>

theorem min_max_check:
  "minNodes (resolved_cluster a) = nullish (ca_minNodes a) 1 \<and>
   maxNodes (resolved_cluster a) = nullish (ca_maxNodes a) 3 \<and>
   (nullish (ca_minNodes a) 1 > nullish (ca_maxNodes a) 3 \<longrightarrow>
      (\<exists>e. ClusterConfig_new a = Inl e)) \<and>
   (\<forall>x y. (ClusterConfig_new a = Inl (MinExceedsMax x y)) =
      (passes_steps_1_to_6 a \<and> nullish (ca_minNodes a) 1 > nullish (ca_maxNodes a) 3 \<and>
       x = nullish (ca_minNodes a) 1 \<and> y = nullish (ca_maxNodes a) 3)) \<and>
   (otherwise_valid a \<and> nullish (ca_minNodes a) 1 = nullish (ca_maxNodes a) 3 \<longrightarrow>
      ClusterConfig_new a = Inr (resolved_cluster a) \<and>
      minNodes (resolved_cluster a) = maxNodes (resolved_cluster a))"
proof -
  have mn: "minNodes (resolved_cluster a) = nullish (ca_minNodes a) 1"
    and mx: "maxNodes (resolved_cluster a) = nullish (ca_maxNodes a) 3"
    by (simp_all add: resolved_cluster_def nullish_case)
  have fails: "\<exists>e. ClusterConfig_new a = Inl e"
    if "nullish (ca_minNodes a) 1 > nullish (ca_maxNodes a) 3"
    using that min_exceeds_max_fails [of a] unfolding mn mx by simp
  have exceeds: "ClusterConfig_new a =
        Inl (MinExceedsMax (nullish (ca_minNodes a) 1) (nullish (ca_maxNodes a) 3))"
    if "passes_steps_1_to_6 a \<and> nullish (ca_minNodes a) 1 > nullish (ca_maxNodes a) 3"
    using that unfolding ClusterConfig_new_steps
    by (simp add: first_six_steps mn mx)
  have only: "(ClusterConfig_new a = Inl (MinExceedsMax x y)) =
      (passes_steps_1_to_6 a \<and> nullish (ca_minNodes a) 1 > nullish (ca_maxNodes a) 3 \<and>
       x = nullish (ca_minNodes a) 1 \<and> y = nullish (ca_maxNodes a) 3)" for x y
    using MinExceedsMax_only_at_step_7 [of a x y] exceeds unfolding mn mx by blast
  have equal: "ClusterConfig_new a = Inr (resolved_cluster a) \<and>
      minNodes (resolved_cluster a) = maxNodes (resolved_cluster a)"
    if "otherwise_valid a \<and> nullish (ca_minNodes a) 1 = nullish (ca_maxNodes a) 3"
    using that unfolding ClusterConfig_new_steps otherwise_valid_def
    by (simp add: first_six_steps mn mx)
  from mn mx fails only equal show ?thesis by blast
qed

theorem min_max_counterexample:
  "ClusterConfig_new
     \<lparr>projectId = js ''test-project'', region = js ''us-central1'', env = js ''prod'',
      prefix = js ''myapp'', ca_zone = None, ca_machineType = None, ca_nodeCount = None,
      ca_minNodes = Some 100, ca_maxNodes = Some 60, ca_diskSize = None,
      ca_spotInstances = None, ca_masterCidr = None, ca_podRangeName = None,
      ca_serviceRangeName = None\<rparr>
     = Inl (OutOfRange MaxNodes 60)"
  by code_simp

lemma test_args_valid:
  "otherwise_valid
     \<lparr>projectId = js ''test-project'', region = js ''us-central1'', env = js ''prod'',
      prefix = js ''myapp'', ca_zone = None, ca_machineType = None, ca_nodeCount = None,
      ca_minNodes = m, ca_maxNodes = None, ca_diskSize = None, ca_spotInstances = None,
      ca_masterCidr = None, ca_podRangeName = None, ca_serviceRangeName = None\<rparr>"
  by (simp add: otherwise_valid_def passes_steps_1_to_6_def resolved_cluster_def
      validateMasterCidr_default ALLOWED_ENVIRONMENTS_def ALLOWED_REGIONS_def
      ALLOWED_MACHINE_TYPES_def js_eq_iff)

theorem min_max_check_witness:
  "ClusterConfig_new
     \<lparr>projectId = js ''test-project'', region = js ''us-central1'', env = js ''prod'',
      prefix = js ''myapp'', ca_zone = None, ca_machineType = None, ca_nodeCount = None,
      ca_minNodes = Some 5, ca_maxNodes = None, ca_diskSize = None, ca_spotInstances = None,
      ca_masterCidr = None, ca_podRangeName = None, ca_serviceRangeName = None\<rparr>
     = Inl (MinExceedsMax 5 3) \<and>
   (\<exists>c. ClusterConfig_new
     \<lparr>projectId = js ''test-project'', region = js ''us-central1'', env = js ''prod'',
      prefix = js ''myapp'', ca_zone = None, ca_machineType = None, ca_nodeCount = None,
      ca_minNodes = Some 3, ca_maxNodes = None, ca_diskSize = None, ca_spotInstances = None,
      ca_masterCidr = None, ca_podRangeName = None, ca_serviceRangeName = None\<rparr>
     = Inr c \<and> minNodes c = 3 \<and> maxNodes c = 3)"
proof -
  let ?a = "\<lambda>m. \<lparr>projectId = js ''test-project'', region = js ''us-central1'',
      env = js ''prod'', prefix = js ''myapp'', ca_zone = None, ca_machineType = None,
      ca_nodeCount = None, ca_minNodes = Some m, ca_maxNodes = None, ca_diskSize = None,
      ca_spotInstances = None, ca_masterCidr = None, ca_podRangeName = None,
      ca_serviceRangeName = None\<rparr>"
  have v: "otherwise_valid (?a m)" for m by (rule test_args_valid)
  then have p: "passes_steps_1_to_6 (?a m)" for m unfolding otherwise_valid_def by simp
  have "ClusterConfig_new (?a 5) = Inl (MinExceedsMax 5 3)"
    using min_max_check [of "?a 5", THEN conjunct2, THEN conjunct2, THEN conjunct2,
        THEN conjunct1, rule_format, of 5 3] p [of 5]
    by (simp add: nullish_case)
  moreover have "ClusterConfig_new (?a 3) = Inr (resolved_cluster (?a 3))"
    using min_max_check [of "?a 3", THEN conjunct2, THEN conjunct2, THEN conjunct2,
        THEN conjunct2] v [of 3]
    by (simp add: nullish_case)
  moreover have "minNodes (resolved_cluster (?a 3)) = 3 \<and> maxNodes (resolved_cluster (?a 3)) = 3"
    by (simp add: resolved_cluster_def)
  ultimately show ?thesis by simp
qed

text \<open>
  Claim C9. \<open>minNodes\<close> has no range of its own. For every input of which the other
  fields are valid, every integer \<open>minNodes\<close> up to the resolved \<open>maxNodes\<close>, zero and
  the negative ones included, is accepted and stored unchanged, and any greater one
  fails with \<open>MinExceedsMax\<close>. For every input at all, an error either stays the same
  whatever \<open>minNodes\<close> is replaced by, or one of the two errors is \<open>MinExceedsMax\<close>.
\<close>

theorem minNodes_unbounded:
  "(otherwise_valid a \<longrightarrow>
      (\<forall>m. ClusterConfig_new (a\<lparr>ca_minNodes := Some m\<rparr>) =
         (if m \<le> nullish (ca_maxNodes a) 3
          then Inr ((resolved_cluster a)\<lparr>minNodes := m\<rparr>)
          else Inl (MinExceedsMax m (nullish (ca_maxNodes a) 3))))) \<and>
   (\<forall>m e e'. ClusterConfig_new a = Inl e \<and>
       ClusterConfig_new (a\<lparr>ca_minNodes := m\<rparr>) = Inl e' \<longrightarrow>
         e' = e \<or> (\<exists>x y. e = MinExceedsMax x y) \<or> (\<exists>x y. e' = MinExceedsMax x y)) \<and>
   (\<forall>m e. ClusterConfig_new a = Inl e \<longrightarrow>
         (\<exists>x y. e = MinExceedsMax x y) \<or> (\<exists>e'. ClusterConfig_new (a\<lparr>ca_minNodes := m\<rparr>) = Inl e'))"
proof (intro conjI allI impI)
  fix m
  assume v: "otherwise_valid a"
  let ?b = "a\<lparr>ca_minNodes := Some m\<rparr>"
  have rb: "resolved_cluster ?b = (resolved_cluster a)\<lparr>minNodes := m\<rparr>"
    by (simp add: resolved_cluster_def split: option.split)
  from v have vb: "passes_steps_1_to_6 ?b"
    and cb: "validateMasterCidr (masterCidr (resolved_cluster a)) = Inr ()"
    unfolding otherwise_valid_def passes_steps_1_to_6_def by (simp_all add: resolved_cluster_def)
  have mx: "maxNodes (resolved_cluster a) = nullish (ca_maxNodes a) 3"
    by (simp add: resolved_cluster_def nullish_case)
  show "ClusterConfig_new ?b =
         (if m \<le> nullish (ca_maxNodes a) 3
          then Inr ((resolved_cluster a)\<lparr>minNodes := m\<rparr>)
          else Inl (MinExceedsMax m (nullish (ca_maxNodes a) 3)))"
    unfolding ClusterConfig_new_steps first_six_steps [OF vb] rb
    using cb by (simp add: mx)
next
  fix m e e'
  assume h: "ClusterConfig_new a = Inl e \<and> ClusterConfig_new (a\<lparr>ca_minNodes := m\<rparr>) = Inl e'"
  let ?b = "a\<lparr>ca_minNodes := m\<rparr>"
  have same: "env ?b = env a" "region ?b = region a"
    "machineType (resolved_cluster ?b) = machineType (resolved_cluster a)"
    "maxNodes (resolved_cluster ?b) = maxNodes (resolved_cluster a)"
    "diskSize (resolved_cluster ?b) = diskSize (resolved_cluster a)"
    "nodeCount (resolved_cluster ?b) = nodeCount (resolved_cluster a)"
    "masterCidr (resolved_cluster ?b) = masterCidr (resolved_cluster a)"
    by (simp_all add: resolved_cluster_def)
  from h show "e' = e \<or> (\<exists>x y. e = MinExceedsMax x y) \<or> (\<exists>x y. e' = MinExceedsMax x y)"
    unfolding ClusterConfig_new_steps cluster_steps_def Let_def same
    by (cases "validateEnvironment (env a)"; cases "validateRegion (region a)";
        cases "validateMachineType (machineType (resolved_cluster a))";
        cases "validateMaxNodes (maxNodes (resolved_cluster a))";
        cases "validateDiskSize (diskSize (resolved_cluster a))";
        cases "validateNodeCount (nodeCount (resolved_cluster a))";
        cases "validateMasterCidr (masterCidr (resolved_cluster a))")
       (auto split: if_splits)
next
  fix m e
  assume h: "ClusterConfig_new a = Inl e"
  let ?b = "a\<lparr>ca_minNodes := m\<rparr>"
  have same: "env ?b = env a" "region ?b = region a"
    "machineType (resolved_cluster ?b) = machineType (resolved_cluster a)"
    "maxNodes (resolved_cluster ?b) = maxNodes (resolved_cluster a)"
    "diskSize (resolved_cluster ?b) = diskSize (resolved_cluster a)"
    "nodeCount (resolved_cluster ?b) = nodeCount (resolved_cluster a)"
    "masterCidr (resolved_cluster ?b) = masterCidr (resolved_cluster a)"
    by (simp_all add: resolved_cluster_def)
  from h show "(\<exists>x y. e = MinExceedsMax x y) \<or>
      (\<exists>e'. ClusterConfig_new (a\<lparr>ca_minNodes := m\<rparr>) = Inl e')"
    unfolding ClusterConfig_new_steps cluster_steps_def Let_def same
    by (cases "validateEnvironment (env a)"; cases "validateRegion (region a)";
        cases "validateMachineType (machineType (resolved_cluster a))";
        cases "validateMaxNodes (maxNodes (resolved_cluster a))";
        cases "validateDiskSize (diskSize (resolved_cluster a))";
        cases "validateNodeCount (nodeCount (resolved_cluster a))";
        cases "validateMasterCidr (masterCidr (resolved_cluster a))")
       (auto split: if_splits)
qed

theorem minNodes_unbounded_witness:
  "(\<exists>c. ClusterConfig_new
     \<lparr>projectId = js ''test-project'', region = js ''us-central1'', env = js ''prod'',
      prefix = js ''myapp'', ca_zone = None, ca_machineType = None, ca_nodeCount = None,
      ca_minNodes = Some 0, ca_maxNodes = None, ca_diskSize = None, ca_spotInstances = None,
      ca_masterCidr = None, ca_podRangeName = None, ca_serviceRangeName = None\<rparr>
     = Inr c \<and> minNodes c = 0 \<and> maxNodes c = 3) \<and>
   (\<exists>c. ClusterConfig_new
     \<lparr>projectId = js ''test-project'', region = js ''us-central1'', env = js ''prod'',
      prefix = js ''myapp'', ca_zone = None, ca_machineType = None, ca_nodeCount = None,
      ca_minNodes = Some (- 7), ca_maxNodes = None, ca_diskSize = None,
      ca_spotInstances = None, ca_masterCidr = None, ca_podRangeName = None,
      ca_serviceRangeName = None\<rparr>
     = Inr c \<and> minNodes c = - 7 \<and> maxNodes c = 3)"
proof -
  let ?a = "\<lparr>projectId = js ''test-project'', region = js ''us-central1'',
      env = js ''prod'', prefix = js ''myapp'', ca_zone = None, ca_machineType = None,
      ca_nodeCount = None, ca_minNodes = None, ca_maxNodes = None, ca_diskSize = None,
      ca_spotInstances = None, ca_masterCidr = None, ca_podRangeName = None,
      ca_serviceRangeName = None\<rparr>"
  have v: "otherwise_valid ?a" by (rule test_args_valid)
  note r = minNodes_unbounded [of ?a, THEN conjunct1, rule_format, OF v]
  have "ClusterConfig_new (?a\<lparr>ca_minNodes := Some 0\<rparr>) = Inr ((resolved_cluster ?a)\<lparr>minNodes := 0\<rparr>)"
    using r [of 0] by (simp add: nullish_case)
  moreover have "ClusterConfig_new (?a\<lparr>ca_minNodes := Some (- 7)\<rparr>) =
      Inr ((resolved_cluster ?a)\<lparr>minNodes := - 7\<rparr>)"
    using r [of "- 7"] by (simp add: nullish_case)
  ultimately show ?thesis by (simp add: resolved_cluster_def)
qed

section \<open>The network configuration\<close>

text \<open>
  Claim C10. The construction of a \<open>NetworkConfig\<close> validates the environment and the
  region and nothing else: it succeeds exactly when both are allowed, and then every
  string given as primary, pod or service CIDR, a CIDR block or not, is stored as it
  is; no CIDR validator sees these fields.
\<close>

theorem network_cidrs_unvalidated:
  "((\<exists>c. NetworkConfig_new a = Inr c) =
      (env a \<in> set ALLOWED_ENVIRONMENTS \<and> region a \<in> set ALLOWED_REGIONS)) \<and>
   (env a \<in> set ALLOWED_ENVIRONMENTS \<and> region a \<in> set ALLOWED_REGIONS \<longrightarrow>
      (\<forall>x y z. \<exists>c.
         NetworkConfig_new (a\<lparr>na_cidr := Some x, na_podCidr := Some y, na_serviceCidr := Some z\<rparr>)
           = Inr c \<and>
         cidr c = x \<and> podCidr c = y \<and> serviceCidr c = z \<and>
         projectId c = projectId a \<and> region c = region a \<and> env c = env a \<and>
         prefix c = prefix a))"
proof (intro conjI impI allI)
  show "(\<exists>c. NetworkConfig_new a = Inr c) =
      (env a \<in> set ALLOWED_ENVIRONMENTS \<and> region a \<in> set ALLOWED_REGIONS)"
    unfolding NetworkConfig_new_steps network_steps_def
    by (simp add: validateEnvironment_iff validateRegion_iff)
next
  fix x y z
  assume "env a \<in> set ALLOWED_ENVIRONMENTS \<and> region a \<in> set ALLOWED_REGIONS"
  then show "\<exists>c.
         NetworkConfig_new (a\<lparr>na_cidr := Some x, na_podCidr := Some y, na_serviceCidr := Some z\<rparr>)
           = Inr c \<and>
         cidr c = x \<and> podCidr c = y \<and> serviceCidr c = z \<and>
         projectId c = projectId a \<and> region c = region a \<and> env c = env a \<and>
         prefix c = prefix a"
    unfolding NetworkConfig_new_steps network_steps_def
    by (simp add: validateEnvironment_iff validateRegion_iff resolved_network_def)
qed

theorem network_cidrs_unvalidated_witness:
  "validateMasterCidr (js ''not a cidr'') = Inl (MalformedCidr Format (js ''not a cidr'')) \<and>
   (\<exists>c. NetworkConfig_new
      \<lparr>projectId = js ''test-project'', region = js ''us-central1'', env = js ''dev'',
       prefix = js ''myapp'', na_cidr = Some (js ''not a cidr''), na_podCidr = Some (js ''''),
       na_serviceCidr = Some (js ''999.0.0.1/99''), na_podRangeName = None,
       na_serviceRangeName = None\<rparr> = Inr c \<and>
      cidr c = js ''not a cidr'' \<and> podCidr c = js '''' \<and> serviceCidr c = js ''999.0.0.1/99'')"
proof -
  let ?a = "\<lparr>projectId = js ''test-project'', region = js ''us-central1'', env = js ''dev'',
       prefix = js ''myapp'', na_cidr = None, na_podCidr = None,
       na_serviceCidr = None, na_podRangeName = None, na_serviceRangeName = None\<rparr>"
  have v: "env ?a \<in> set ALLOWED_ENVIRONMENTS \<and> region ?a \<in> set ALLOWED_REGIONS"
    by (simp add: ALLOWED_ENVIRONMENTS_def ALLOWED_REGIONS_def js_eq_iff)
  have bad: "validateMasterCidr (js ''not a cidr'') = Inl (MalformedCidr Format (js ''not a cidr''))"
    by code_simp
  from network_cidrs_unvalidated [of ?a, THEN conjunct2, rule_format, OF v,
      where x = "js ''not a cidr''" and y = "js ''''" and z = "js ''999.0.0.1/99''"] bad
  show ?thesis by simp blast
qed

section \<open>Profiles\<close>

lemma first_error_None_iff: "first_error rs = None \<longleftrightarrow> (\<forall>r\<in>set rs. r = Inr ())"
  by (induction rs rule: first_error.induct) auto

lemma first_error_in_set: "first_error rs = Some e \<Longrightarrow> Inl e \<in> set rs"
  by (induction rs rule: first_error.induct) auto

lemma first_error_append:
  "first_error (xs @ ys) = (case first_error xs of None \<Rightarrow> first_error ys | Some e \<Rightarrow> Some e)"
  by (induction xs rule: first_error.induct) simp_all

lemma first_error_at:
  assumes "k < length rs" "rs ! k = Inl e" "first_error (take k rs) = None"
  shows "first_error rs = Some e"
proof -
  from assms(1) have "rs = take k rs @ rs ! k # drop (Suc k) rs"
    by (simp add: id_take_nth_drop)
  then have "first_error rs = first_error (take k rs @ Inl e # drop (Suc k) rs)"
    using assms(2) by simp
  then show ?thesis unfolding first_error_append assms(3) by simp
qed

lemma spread_as_override:
  "spread_optional d ov = override_wins d ov"
  "spread_required x ov = override_wins (Some x) ov"
  "spread_tested s ow = interpolate (override_wins (Some s) ow)"
  by (simp_all add: spread_optional_def spread_required_def spread_tested_def override_wins_def
      split: property.split)

lemma getClusterConfig_merged:
  "getClusterConfig p ov = ClusterConfig_new (merged_cluster_args p ov)"
  by (cases "profile_class p")
     (simp_all add: getClusterConfig_def DevProfile_getClusterConfig_def
        StagingProfile_getClusterConfig_def ProdProfile_getClusterConfig_def
        merged_cluster_args_def Let_def spread_cluster_def spread_as_override)

lemma getClusterConfig_steps:
  "getClusterConfig p ov =
     (case first_error (cluster_steps (merged_cluster_args p ov)) of
        Some e \<Rightarrow> Inl e
      | None \<Rightarrow> Inr (resolved_cluster (merged_cluster_args p ov)))"
  unfolding getClusterConfig_merged by (rule ClusterConfig_new_steps)

lemma getClusterConfig_Inr:
  "getClusterConfig p ov = Inr c \<Longrightarrow> c = resolved_cluster (merged_cluster_args p ov)"
  unfolding getClusterConfig_steps by (simp split: option.splits)

lemma getClusterConfig_Inl:
  "getClusterConfig p ov = Inl e \<Longrightarrow> Inl e \<in> set (cluster_steps (merged_cluster_args p ov))"
  unfolding getClusterConfig_steps by (simp split: option.splits add: first_error_in_set)

lemma getClusterConfig_step:
  assumes "k < 8" "cluster_steps (merged_cluster_args p ov) ! k = Inl e"
    "earlier_steps_pass k (merged_cluster_args p ov)"
  shows "getClusterConfig p ov = Inl e"
proof -
  have "length (cluster_steps (merged_cluster_args p ov)) = 8"
    by (simp add: cluster_steps_def Let_def)
  with assms(1) have "k < length (cluster_steps (merged_cluster_args p ov))" by simp
  from first_error_at [OF this assms(2)] assms(3)
  show ?thesis unfolding getClusterConfig_steps earlier_steps_pass_def by simp
qed

lemma merged_resolved:
  "env (merged_cluster_args p ov) =
     (case pc_env ov of Absent \<Rightarrow> env p | Undefined \<Rightarrow> js ''undefined'' | Value v \<Rightarrow> v)"
  "region (merged_cluster_args p ov) =
     (case pc_region ov of Absent \<Rightarrow> region p | Undefined \<Rightarrow> js ''undefined'' | Value v \<Rightarrow> v)"
  "machineType (resolved_cluster (merged_cluster_args p ov)) =
     (case pc_machineType ov of
        Absent \<Rightarrow> row_machineType (variant_defaults (profile_class p))
      | Undefined \<Rightarrow> js ''e2-medium'' | Value v \<Rightarrow> v)"
  "maxNodes (resolved_cluster (merged_cluster_args p ov)) =
     (case pc_maxNodes ov of
        Absent \<Rightarrow> row_maxNodes (variant_defaults (profile_class p))
      | Undefined \<Rightarrow> 3 | Value v \<Rightarrow> v)"
  "diskSize (resolved_cluster (merged_cluster_args p ov)) =
     (case pc_diskSize ov of
        Absent \<Rightarrow> row_diskSizeGb (variant_defaults (profile_class p))
      | Undefined \<Rightarrow> 50 | Value v \<Rightarrow> v)"
  "nodeCount (resolved_cluster (merged_cluster_args p ov)) =
     (case pc_nodeCount ov of
        Absent \<Rightarrow> row_initialNodeCount (variant_defaults (profile_class p))
      | Undefined \<Rightarrow> 1 | Value v \<Rightarrow> v)"
  "minNodes (resolved_cluster (merged_cluster_args p ov)) =
     (case pc_minNodes ov of
        Absent \<Rightarrow> row_minNodes (variant_defaults (profile_class p))
      | Undefined \<Rightarrow> 1 | Value v \<Rightarrow> v)"
  "spotInstances (resolved_cluster (merged_cluster_args p ov)) =
     (case pc_spotInstances ov of
        Absent \<Rightarrow> row_useSpotInstances (variant_defaults (profile_class p))
      | Undefined \<Rightarrow> True | Value v \<Rightarrow> v)"
  "masterCidr (resolved_cluster (merged_cluster_args p ov)) =
     (case pc_masterCidr ov of Value v \<Rightarrow> v | _ \<Rightarrow> js ''172.16.0.0/28'')"
  by (simp_all add: merged_cluster_args_def resolved_cluster_def Let_def override_wins_def
      interpolate_def split: property.split)

lemma merged_steps:
  "cluster_steps (merged_cluster_args p ov) ! 0 = validateEnvironment (env (merged_cluster_args p ov))"
  "cluster_steps (merged_cluster_args p ov) ! 1 = validateRegion (region (merged_cluster_args p ov))"
  "cluster_steps (merged_cluster_args p ov) ! 2 =
     validateMachineType (machineType (resolved_cluster (merged_cluster_args p ov)))"
  "cluster_steps (merged_cluster_args p ov) ! 3 =
     validateMaxNodes (maxNodes (resolved_cluster (merged_cluster_args p ov)))"
  "cluster_steps (merged_cluster_args p ov) ! 4 =
     validateDiskSize (diskSize (resolved_cluster (merged_cluster_args p ov)))"
  "cluster_steps (merged_cluster_args p ov) ! 5 =
     validateNodeCount (nodeCount (resolved_cluster (merged_cluster_args p ov)))"
  "cluster_steps (merged_cluster_args p ov) ! 7 =
     validateMasterCidr (masterCidr (resolved_cluster (merged_cluster_args p ov)))"
  by (simp_all add: cluster_steps_def Let_def)

lemma rejected_iff: "rejected f x \<longleftrightarrow> (\<exists>v. x = Value v \<and> f v \<noteq> Inr ())"
  by (cases x) (simp_all add: rejected_def)

lemma invalid_override_fails:
  assumes "invalid_override ov"
  shows "\<exists>e. getClusterConfig p ov = Inl e"
proof -
  let ?a = "merged_cluster_args p ov"
  from assms consider
      (env) v where "pc_env ov = Value v" "validateEnvironment v \<noteq> Inr ()"
    | (region) v where "pc_region ov = Value v" "validateRegion v \<noteq> Inr ()"
    | (machineType) v where "pc_machineType ov = Value v" "validateMachineType v \<noteq> Inr ()"
    | (maxNodes) v where "pc_maxNodes ov = Value v" "validateMaxNodes v \<noteq> Inr ()"
    | (diskSize) v where "pc_diskSize ov = Value v" "validateDiskSize v \<noteq> Inr ()"
    | (nodeCount) v where "pc_nodeCount ov = Value v" "validateNodeCount v \<noteq> Inr ()"
    | (masterCidr) v where "pc_masterCidr ov = Value v" "validateMasterCidr v \<noteq> Inr ()"
    unfolding invalid_override_def rejected_iff by blast
  then have "\<exists>r\<in>set (cluster_steps ?a). r \<noteq> Inr ()"
  proof cases
    case env
    then have "validateEnvironment (env ?a) \<noteq> Inr ()" by (simp add: merged_resolved)
    then show ?thesis unfolding cluster_steps_def Let_def by simp
  next
    case region
    then have "validateRegion (region ?a) \<noteq> Inr ()" by (simp add: merged_resolved)
    then show ?thesis unfolding cluster_steps_def Let_def by simp
  next
    case machineType
    then have "validateMachineType (machineType (resolved_cluster ?a)) \<noteq> Inr ()"
      by (simp add: merged_resolved)
    then show ?thesis unfolding cluster_steps_def Let_def by simp
  next
    case maxNodes
    then have "validateMaxNodes (maxNodes (resolved_cluster ?a)) \<noteq> Inr ()"
      by (simp add: merged_resolved)
    then show ?thesis unfolding cluster_steps_def Let_def by simp
  next
    case diskSize
    then have "validateDiskSize (diskSize (resolved_cluster ?a)) \<noteq> Inr ()"
      by (simp add: merged_resolved)
    then show ?thesis unfolding cluster_steps_def Let_def by simp
  next
    case nodeCount
    then have "validateNodeCount (nodeCount (resolved_cluster ?a)) \<noteq> Inr ()"
      by (simp add: merged_resolved)
    then show ?thesis unfolding cluster_steps_def Let_def by simp
  next
    case masterCidr
    then have "validateMasterCidr (masterCidr (resolved_cluster ?a)) \<noteq> Inr ()"
      by (simp add: merged_resolved)
    then show ?thesis unfolding cluster_steps_def Let_def by simp
  qed
  then have "first_error (cluster_steps ?a) \<noteq> None"
    unfolding first_error_None_iff by blast
  then show ?thesis
    unfolding getClusterConfig_steps by (auto split: option.splits)
qed

lemma no_overrides_fields:
  "pc_env no_cluster_overrides = Absent" "pc_region no_cluster_overrides = Absent"
  "pc_machineType no_cluster_overrides = Absent" "pc_maxNodes no_cluster_overrides = Absent"
  "pc_diskSize no_cluster_overrides = Absent" "pc_nodeCount no_cluster_overrides = Absent"
  "pc_minNodes no_cluster_overrides = Absent" "pc_spotInstances no_cluster_overrides = Absent"
  "pc_masterCidr no_cluster_overrides = Absent"
  by (simp_all add: no_cluster_overrides_def)

lemma variant_overrides_valid:
  assumes "env p \<in> set ALLOWED_ENVIRONMENTS" "region p \<in> set ALLOWED_REGIONS"
    and "pc_env ov = Absent" "pc_region ov = Absent" "pc_machineType ov = Absent"
    "pc_diskSize ov = Absent" "pc_nodeCount ov = Absent" "pc_masterCidr ov = Absent"
    and "1 \<le> maxNodes (resolved_cluster (merged_cluster_args p ov))"
    "maxNodes (resolved_cluster (merged_cluster_args p ov)) \<le> 50"
    "minNodes (resolved_cluster (merged_cluster_args p ov))
       \<le> maxNodes (resolved_cluster (merged_cluster_args p ov))"
  shows "getClusterConfig p ov = Inr (resolved_cluster (merged_cluster_args p ov))"
proof -
  let ?a = "merged_cluster_args p ov"
  have e: "env ?a = env p" "region ?a = region p"
    "masterCidr (resolved_cluster ?a) = js ''172.16.0.0/28''"
    using assms(3,4,8) by (simp_all add: merged_resolved)
  have m: "machineType (resolved_cluster ?a) \<in> set ALLOWED_MACHINE_TYPES"
    "30 \<le> diskSize (resolved_cluster ?a)" "diskSize (resolved_cluster ?a) \<le> 200"
    "1 \<le> nodeCount (resolved_cluster ?a)" "nodeCount (resolved_cluster ?a) \<le> 20"
    using assms(5,6,7)
    by (cases "profile_class p"; simp add: merged_resolved ALLOWED_MACHINE_TYPES_def js_eq_iff)+
  have "first_error (cluster_steps ?a) = None"
    unfolding cluster_steps_def Let_def e
    using assms(1,2,9,10,11) m
    by (simp add: validateEnvironment_iff validateRegion_iff validateMachineType_iff
          validateMaxNodes_iff validateDiskSize_iff validateNodeCount_iff
          validateMasterCidr_default)
  then show ?thesis unfolding getClusterConfig_steps by simp
qed

lemma undefined_not_allowed:
  "js ''undefined'' \<notin> set ALLOWED_ENVIRONMENTS" "js ''undefined'' \<notin> set ALLOWED_REGIONS"
  by (simp_all add: ALLOWED_ENVIRONMENTS_def ALLOWED_REGIONS_def js_eq_iff)

lemma undefined_env_fails:
  assumes "pc_env ov = Undefined"
  shows "getClusterConfig p ov = Inl (InvalidEnvironment (js ''undefined''))"
proof -
  from assms have "cluster_steps (merged_cluster_args p ov) ! 0 =
      Inl (InvalidEnvironment (js ''undefined''))"
    unfolding merged_steps merged_resolved
    by (simp add: validateEnvironment_def includes_arr_def undefined_not_allowed)
  then show ?thesis
    using getClusterConfig_step [of 0 p ov] by (simp add: earlier_steps_pass_def)
qed

text \<open>
  Claim C6, as amended. \<open>getClusterConfig\<close> of each profile merges the defaults of its
  variant with the overrides of the caller, an override winning field by field (a key
  that holds \<open>undefined\<close> wins too: the default of the variant is dropped and the default
  of the construction applies), and constructs a \<open>ClusterConfig\<close> from the merged object:
  the result is the error of the first validation step that fails on the merged
  object, so that no override bypasses validation. With an allowed environment and
  region and no overrides, the dev profile yields machine type \<open>e2-medium\<close>, \<open>maxNodes\<close>
  3, spot instances and disk size 50; the prod profile yields \<open>n2-standard-4\<close>,
  \<open>minNodes\<close> 3, \<open>maxNodes\<close> 10 and no spot instances, and with \<open>maxNodes\<close> overridden to
  20 yields \<open>maxNodes\<close> 20, still without spot instances; whatever the profile holds, a
  configuration that these calls return has the values named. Every overrides object
  that holds a value rejected by its validator makes the call fail, with an error of
  one of the steps on the merged object. That error is the one of the rejected
  value when every earlier step passes on the merged object, and for a rejected
  environment always; otherwise it is the error of an earlier step, which need not
  come from the overrides. An overrides object that holds \<open>undefined\<close> as environment
  fails with \<open>InvalidEnvironment\<close>, the message reading \<open>undefined\<close>.
\<close>

theorem profile_cluster_config:
  "getClusterConfig p ov = ClusterConfig_new (merged_cluster_args p ov) \<and>
   getClusterConfig p ov =
     (case first_error (cluster_steps (merged_cluster_args p ov)) of
        Some e \<Rightarrow> Inl e
      | None \<Rightarrow> Inr (resolved_cluster (merged_cluster_args p ov))) \<and>
   (env p \<in> set ALLOWED_ENVIRONMENTS \<and> region p \<in> set ALLOWED_REGIONS \<and>
    profile_class p = DevProfile \<longrightarrow>
      (\<exists>c. getClusterConfig p no_cluster_overrides = Inr c \<and>
           machineType c = js ''e2-medium'' \<and> maxNodes c = 3 \<and> spotInstances c \<and>
           diskSize c = 50)) \<and>
   (env p \<in> set ALLOWED_ENVIRONMENTS \<and> region p \<in> set ALLOWED_REGIONS \<and>
    profile_class p = ProdProfile \<longrightarrow>
      (\<exists>c. getClusterConfig p no_cluster_overrides = Inr c \<and>
           machineType c = js ''n2-standard-4'' \<and> minNodes c = 3 \<and> maxNodes c = 10 \<and>
           \<not> spotInstances c) \<and>
      (\<exists>c. getClusterConfig p (no_cluster_overrides\<lparr>pc_maxNodes := Value 20\<rparr>) = Inr c \<and>
           maxNodes c = 20 \<and> \<not> spotInstances c) \<and>
      (\<exists>c. getClusterConfig p
              (no_cluster_overrides\<lparr>pc_maxNodes := Undefined, pc_spotInstances := Undefined\<rparr>)
              = Inr c \<and>
           maxNodes c = 3 \<and> spotInstances c)) \<and>
   (\<forall>c. profile_class p = DevProfile \<and> getClusterConfig p no_cluster_overrides = Inr c \<longrightarrow>
        machineType c = js ''e2-medium'' \<and> maxNodes c = 3 \<and> spotInstances c \<and>
        diskSize c = 50) \<and>
   (\<forall>c. profile_class p = ProdProfile \<and> getClusterConfig p no_cluster_overrides = Inr c \<longrightarrow>
        machineType c = js ''n2-standard-4'' \<and> minNodes c = 3 \<and> maxNodes c = 10 \<and>
        \<not> spotInstances c) \<and>
   (\<forall>c. profile_class p = ProdProfile \<and>
        getClusterConfig p (no_cluster_overrides\<lparr>pc_maxNodes := Value 20\<rparr>) = Inr c \<longrightarrow>
        maxNodes c = 20 \<and> \<not> spotInstances c) \<and>
   (invalid_override ov \<longrightarrow> (\<exists>e. getClusterConfig p ov = Inl e)) \<and>
   (\<forall>e. getClusterConfig p ov = Inl e \<longrightarrow>
        Inl e \<in> set (cluster_steps (merged_cluster_args p ov))) \<and>
   (\<forall>v e. pc_env ov = Value v \<and> validateEnvironment v = Inl e \<longrightarrow>
        getClusterConfig p ov = Inl e) \<and>
   (\<forall>v e. pc_region ov = Value v \<and> validateRegion v = Inl e \<and>
        earlier_steps_pass 1 (merged_cluster_args p ov) \<longrightarrow>
        getClusterConfig p ov = Inl e) \<and>
   (\<forall>v e. pc_machineType ov = Value v \<and> validateMachineType v = Inl e \<and>
        earlier_steps_pass 2 (merged_cluster_args p ov) \<longrightarrow>
        getClusterConfig p ov = Inl e) \<and>
   (\<forall>v e. pc_maxNodes ov = Value v \<and> validateMaxNodes v = Inl e \<and>
        earlier_steps_pass 3 (merged_cluster_args p ov) \<longrightarrow>
        getClusterConfig p ov = Inl e) \<and>
   (\<forall>v e. pc_diskSize ov = Value v \<and> validateDiskSize v = Inl e \<and>
        earlier_steps_pass 4 (merged_cluster_args p ov) \<longrightarrow>
        getClusterConfig p ov = Inl e) \<and>
   (\<forall>v e. pc_nodeCount ov = Value v \<and> validateNodeCount v = Inl e \<and>
        earlier_steps_pass 5 (merged_cluster_args p ov) \<longrightarrow>
        getClusterConfig p ov = Inl e) \<and>
   (\<forall>v e. pc_masterCidr ov = Value v \<and> validateMasterCidr v = Inl e \<and>
        earlier_steps_pass 7 (merged_cluster_args p ov) \<longrightarrow>
        getClusterConfig p ov = Inl e) \<and>
   (pc_env ov = Undefined \<longrightarrow>
        getClusterConfig p ov = Inl (InvalidEnvironment (js ''undefined'')))"
proof (intro conjI impI allI)
  show "getClusterConfig p ov = Inl (InvalidEnvironment (js ''undefined''))"
    if "pc_env ov = Undefined"
    using that by (rule undefined_env_fails)
  show "getClusterConfig p ov = ClusterConfig_new (merged_cluster_args p ov)"
    by (rule getClusterConfig_merged)
  show "getClusterConfig p ov =
     (case first_error (cluster_steps (merged_cluster_args p ov)) of
        Some e \<Rightarrow> Inl e
      | None \<Rightarrow> Inr (resolved_cluster (merged_cluster_args p ov)))"
    by (rule getClusterConfig_steps)
  show "\<exists>c. getClusterConfig p no_cluster_overrides = Inr c \<and>
           machineType c = js ''e2-medium'' \<and> maxNodes c = 3 \<and> spotInstances c \<and>
           diskSize c = 50"
    if "env p \<in> set ALLOWED_ENVIRONMENTS \<and> region p \<in> set ALLOWED_REGIONS \<and>
        profile_class p = DevProfile"
    using that variant_overrides_valid [of p no_cluster_overrides]
    by (simp add: merged_resolved no_overrides_fields)
  show "\<exists>c. getClusterConfig p no_cluster_overrides = Inr c \<and>
           machineType c = js ''n2-standard-4'' \<and> minNodes c = 3 \<and> maxNodes c = 10 \<and>
           \<not> spotInstances c"
    if "env p \<in> set ALLOWED_ENVIRONMENTS \<and> region p \<in> set ALLOWED_REGIONS \<and>
        profile_class p = ProdProfile"
    using that variant_overrides_valid [of p no_cluster_overrides]
    by (simp add: merged_resolved no_overrides_fields)
  show "\<exists>c. getClusterConfig p (no_cluster_overrides\<lparr>pc_maxNodes := Value 20\<rparr>) = Inr c \<and>
           maxNodes c = 20 \<and> \<not> spotInstances c"
    if "env p \<in> set ALLOWED_ENVIRONMENTS \<and> region p \<in> set ALLOWED_REGIONS \<and>
        profile_class p = ProdProfile"
    using that variant_overrides_valid [of p "no_cluster_overrides\<lparr>pc_maxNodes := Value 20\<rparr>"]
    by (simp add: merged_resolved no_overrides_fields)
  show "\<exists>c. getClusterConfig p
              (no_cluster_overrides\<lparr>pc_maxNodes := Undefined, pc_spotInstances := Undefined\<rparr>)
              = Inr c \<and>
           maxNodes c = 3 \<and> spotInstances c"
    if "env p \<in> set ALLOWED_ENVIRONMENTS \<and> region p \<in> set ALLOWED_REGIONS \<and>
        profile_class p = ProdProfile"
    using that variant_overrides_valid [of p
        "no_cluster_overrides\<lparr>pc_maxNodes := Undefined, pc_spotInstances := Undefined\<rparr>"]
    by (simp add: merged_resolved no_overrides_fields)
  show "machineType c = js ''e2-medium''" "maxNodes c = 3" "spotInstances c" "diskSize c = 50"
    if "profile_class p = DevProfile \<and> getClusterConfig p no_cluster_overrides = Inr c" for c
    using that getClusterConfig_Inr [of p no_cluster_overrides c]
    by (simp_all add: merged_resolved no_overrides_fields)
  show "machineType c = js ''n2-standard-4''" "minNodes c = 3" "maxNodes c = 10"
    "\<not> spotInstances c"
    if "profile_class p = ProdProfile \<and> getClusterConfig p no_cluster_overrides = Inr c" for c
    using that getClusterConfig_Inr [of p no_cluster_overrides c]
    by (simp_all add: merged_resolved no_overrides_fields)
  show "maxNodes c = 20" "\<not> spotInstances c"
    if "profile_class p = ProdProfile \<and>
        getClusterConfig p (no_cluster_overrides\<lparr>pc_maxNodes := Value 20\<rparr>) = Inr c" for c
    using that getClusterConfig_Inr [of p "no_cluster_overrides\<lparr>pc_maxNodes := Value 20\<rparr>" c]
    by (simp_all add: merged_resolved no_overrides_fields)
  show "\<exists>e. getClusterConfig p ov = Inl e" if "invalid_override ov"
    using that by (rule invalid_override_fails)
  show "Inl e \<in> set (cluster_steps (merged_cluster_args p ov))"
    if "getClusterConfig p ov = Inl e" for e
    using that by (rule getClusterConfig_Inl)
  show "getClusterConfig p ov = Inl e"
    if "pc_env ov = Value v \<and> validateEnvironment v = Inl e" for v e
    using that getClusterConfig_step [of 0 p ov e]
    by (simp add: merged_steps merged_resolved earlier_steps_pass_def)
  show "getClusterConfig p ov = Inl e"
    if "pc_region ov = Value v \<and> validateRegion v = Inl e \<and>
        earlier_steps_pass 1 (merged_cluster_args p ov)" for v e
  proof -
    from that have "cluster_steps (merged_cluster_args p ov) ! 1 = Inl e"
      unfolding merged_steps merged_resolved by simp
    with that show ?thesis using getClusterConfig_step [of 1 p ov e] by simp
  qed
  show "getClusterConfig p ov = Inl e"
    if "pc_machineType ov = Value v \<and> validateMachineType v = Inl e \<and>
        earlier_steps_pass 2 (merged_cluster_args p ov)" for v e
  proof -
    from that have "cluster_steps (merged_cluster_args p ov) ! 2 = Inl e"
      unfolding merged_steps merged_resolved by simp
    with that show ?thesis using getClusterConfig_step [of 2 p ov e] by simp
  qed
  show "getClusterConfig p ov = Inl e"
    if "pc_maxNodes ov = Value v \<and> validateMaxNodes v = Inl e \<and>
        earlier_steps_pass 3 (merged_cluster_args p ov)" for v e
  proof -
    from that have "cluster_steps (merged_cluster_args p ov) ! 3 = Inl e"
      unfolding merged_steps merged_resolved by simp
    with that show ?thesis using getClusterConfig_step [of 3 p ov e] by simp
  qed
  show "getClusterConfig p ov = Inl e"
    if "pc_diskSize ov = Value v \<and> validateDiskSize v = Inl e \<and>
        earlier_steps_pass 4 (merged_cluster_args p ov)" for v e
  proof -
    from that have "cluster_steps (merged_cluster_args p ov) ! 4 = Inl e"
      unfolding merged_steps merged_resolved by simp
    with that show ?thesis using getClusterConfig_step [of 4 p ov e] by simp
  qed
  show "getClusterConfig p ov = Inl e"
    if "pc_nodeCount ov = Value v \<and> validateNodeCount v = Inl e \<and>
        earlier_steps_pass 5 (merged_cluster_args p ov)" for v e
  proof -
    from that have "cluster_steps (merged_cluster_args p ov) ! 5 = Inl e"
      unfolding merged_steps merged_resolved by simp
    with that show ?thesis using getClusterConfig_step [of 5 p ov e] by simp
  qed
  show "getClusterConfig p ov = Inl e"
    if "pc_masterCidr ov = Value v \<and> validateMasterCidr v = Inl e \<and>
        earlier_steps_pass 7 (merged_cluster_args p ov)" for v e
  proof -
    from that have "cluster_steps (merged_cluster_args p ov) ! 7 = Inl e"
      unfolding merged_steps merged_resolved by simp
    with that show ?thesis using getClusterConfig_step [of 7 p ov e] by simp
  qed
qed

theorem profile_override_counterexample:
  "getClusterConfig
     (new_profile ProdProfile (js ''test-project'') (js ''us-central1'') (js ''prod'')
        (js ''myapp''))
     (no_cluster_overrides\<lparr>pc_maxNodes := Value 2, pc_masterCidr := Value (js ''8.8.8.8/28'')\<rparr>)
     = Inl (MinExceedsMax 3 2) \<and>
   validateMaxNodes 2 = Inr () \<and>
   validateMasterCidr (js ''8.8.8.8/28'') = Inl (NotPrivateRange (js ''8.8.8.8'')) \<and>
   getClusterConfig
     (new_profile DevProfile (js ''test-project'') (js ''us-central1'') (js ''qa'')
        (js ''myapp''))
     (no_cluster_overrides\<lparr>pc_diskSize := Value 500\<rparr>)
     = Inl (InvalidEnvironment (js ''qa'')) \<and>
   validateDiskSize 500 = Inl (OutOfRange DiskSize 500)"
  by (intro conjI; code_simp)

theorem profile_cluster_config_witness:
  "(\<exists>c. getClusterConfig
          (new_profile DevProfile (js ''test-project'') (js ''us-central1'') (js ''dev'')
             (js ''myapp''))
          no_cluster_overrides = Inr c \<and>
        machineType c = js ''e2-medium'' \<and> maxNodes c = 3 \<and> spotInstances c \<and>
        diskSize c = 50) \<and>
   (\<exists>c. getClusterConfig
          (new_profile ProdProfile (js ''test-project'') (js ''us-central1'') (js ''prod'')
             (js ''myapp''))
          (no_cluster_overrides\<lparr>pc_maxNodes := Value 20\<rparr>) = Inr c \<and>
        maxNodes c = 20 \<and> \<not> spotInstances c) \<and>
   (\<exists>c. getClusterConfig
          (new_profile ProdProfile (js ''test-project'') (js ''us-central1'') (js ''prod'')
             (js ''myapp''))
          (no_cluster_overrides\<lparr>pc_maxNodes := Undefined, pc_spotInstances := Undefined\<rparr>)
          = Inr c \<and>
        maxNodes c = 3 \<and> spotInstances c) \<and>
   (\<exists>e. getClusterConfig
          (new_profile ProdProfile (js ''test-project'') (js ''us-central1'') (js ''prod'')
             (js ''myapp''))
          (no_cluster_overrides\<lparr>pc_diskSize := Value 500\<rparr>) = Inl e) \<and>
   getClusterConfig
     (new_profile ProdProfile (js ''test-project'') (js ''us-central1'') (js ''prod'')
        (js ''myapp''))
     (no_cluster_overrides\<lparr>pc_machineType := Value (js ''m9-ultra'')\<rparr>)
     = Inl (InvalidMachineType (js ''m9-ultra'')) \<and>
   getClusterConfig
     (new_profile ProdProfile (js ''test-project'') (js ''us-central1'') (js ''prod'')
        (js ''myapp''))
     (no_cluster_overrides\<lparr>pc_masterCidr := Value (js ''8.8.8.8/28'')\<rparr>)
     = Inl (NotPrivateRange (js ''8.8.8.8'')) \<and>
   getClusterConfig
     (new_profile ProdProfile (js ''test-project'') (js ''us-central1'') (js ''prod'')
        (js ''myapp''))
     (no_cluster_overrides\<lparr>pc_env := Value (js ''qa'')\<rparr>)
     = Inl (InvalidEnvironment (js ''qa''))"
proof -
  let ?dev = "new_profile DevProfile (js ''test-project'') (js ''us-central1'') (js ''dev'')
             (js ''myapp'')"
  let ?prod = "new_profile ProdProfile (js ''test-project'') (js ''us-central1'') (js ''prod'')
             (js ''myapp'')"
  let ?disk = "no_cluster_overrides\<lparr>pc_diskSize := Value 500\<rparr>"
  let ?mt = "no_cluster_overrides\<lparr>pc_machineType := Value (js ''m9-ultra'')\<rparr>"
  let ?mc = "no_cluster_overrides\<lparr>pc_masterCidr := Value (js ''8.8.8.8/28'')\<rparr>"
  let ?ev = "no_cluster_overrides\<lparr>pc_env := Value (js ''qa'')\<rparr>"
  have dev: "env ?dev \<in> set ALLOWED_ENVIRONMENTS \<and> region ?dev \<in> set ALLOWED_REGIONS \<and>
      profile_class ?dev = DevProfile"
    by (simp add: new_profile_def ALLOWED_ENVIRONMENTS_def ALLOWED_REGIONS_def js_eq_iff)
  have prod: "env ?prod \<in> set ALLOWED_ENVIRONMENTS \<and> region ?prod \<in> set ALLOWED_REGIONS \<and>
      profile_class ?prod = ProdProfile"
    by (simp add: new_profile_def ALLOWED_ENVIRONMENTS_def ALLOWED_REGIONS_def js_eq_iff)
  have inv: "invalid_override ?disk"
    by (simp add: invalid_override_def rejected_def no_cluster_overrides_def validateDiskSize_iff)
  have mt1: "validateMachineType (js ''m9-ultra'') = Inl (InvalidMachineType (js ''m9-ultra''))"
    by code_simp
  have mt2: "earlier_steps_pass 2 (merged_cluster_args ?prod ?mt)"
    by code_simp
  have mt: "pc_machineType ?mt = Value (js ''m9-ultra'') \<and>
      validateMachineType (js ''m9-ultra'') = Inl (InvalidMachineType (js ''m9-ultra'')) \<and>
      earlier_steps_pass 2 (merged_cluster_args ?prod ?mt)"
    using mt1 mt2 by (simp add: no_cluster_overrides_def)
  have mc1: "validateMasterCidr (js ''8.8.8.8/28'') = Inl (NotPrivateRange (js ''8.8.8.8''))"
    by code_simp
  have mc2: "earlier_steps_pass 7 (merged_cluster_args ?prod ?mc)"
    by code_simp
  have mc: "pc_masterCidr ?mc = Value (js ''8.8.8.8/28'') \<and>
      validateMasterCidr (js ''8.8.8.8/28'') = Inl (NotPrivateRange (js ''8.8.8.8'')) \<and>
      earlier_steps_pass 7 (merged_cluster_args ?prod ?mc)"
    using mc1 mc2 by (simp add: no_cluster_overrides_def)
  have ev1: "validateEnvironment (js ''qa'') = Inl (InvalidEnvironment (js ''qa''))"
    by code_simp
  have ev: "pc_env ?ev = Value (js ''qa'') \<and>
      validateEnvironment (js ''qa'') = Inl (InvalidEnvironment (js ''qa''))"
    using ev1 by (simp add: no_cluster_overrides_def)
  note t1 = profile_cluster_config [of ?dev no_cluster_overrides,
      THEN conjunct2, THEN conjunct2, THEN conjunct1, rule_format, OF dev]
  note t2 = profile_cluster_config [of ?prod no_cluster_overrides,
      THEN conjunct2, THEN conjunct2, THEN conjunct2, THEN conjunct1, rule_format, OF prod,
      THEN conjunct2, THEN conjunct1]
  note t3 = profile_cluster_config [of ?prod no_cluster_overrides,
      THEN conjunct2, THEN conjunct2, THEN conjunct2, THEN conjunct1, rule_format, OF prod,
      THEN conjunct2, THEN conjunct2]
  note rest = profile_cluster_config [THEN conjunct2, THEN conjunct2, THEN conjunct2,
      THEN conjunct2, THEN conjunct2, THEN conjunct2, THEN conjunct2]
  note t4 = rest [of ?disk ?prod, THEN conjunct1, rule_format, OF inv]
  note t5 = rest [of ?mt ?prod, THEN conjunct2, THEN conjunct2, THEN conjunct2, THEN conjunct2,
      THEN conjunct1, rule_format, OF mt]
  note t6 = rest [of ?mc ?prod, THEN conjunct2, THEN conjunct2, THEN conjunct2, THEN conjunct2,
      THEN conjunct2, THEN conjunct2, THEN conjunct2, THEN conjunct2, THEN conjunct1,
      rule_format, OF mc]
  note t7 = rest [of ?ev ?prod, THEN conjunct2, THEN conjunct2, THEN conjunct1, rule_format,
      OF ev]
  from t1 t2 t3 t4 t5 t6 t7 show ?thesis by (intro conjI)
qed

section \<open>The secrets of the composite\<close>

lemma and_then_Inr_iff: "and_then r k = Inr v \<longleftrightarrow> (\<exists>x. r = Inr x \<and> k x = Inr v)"
  by (cases r) (simp_all add: and_then_def)

lemma and_then_Inl_iff:
  "and_then r k = Inl e \<longleftrightarrow> r = Inl e \<or> (\<exists>x. r = Inr x \<and> k x = Inl e)"
  by (cases r) (simp_all add: and_then_def)

lemma trim_Nil_iff: "trim s = [] \<longleftrightarrow> (\<forall>c\<in>set s. is_white_space c)"
proof
  assume t: "trim s = []"
  show "\<forall>c\<in>set s. is_white_space c"
  proof (rule ccontr)
    assume "\<not> (\<forall>c\<in>set s. is_white_space c)"
    then have ne: "dropWhile is_white_space s \<noteq> []" by (simp add: dropWhile_eq_Nil_conv)
    then have "\<not> is_white_space (hd (dropWhile is_white_space s))" by (rule hd_dropWhile)
    moreover have "hd (dropWhile is_white_space s) \<in> set (rev (dropWhile is_white_space s))"
      using ne by simp
    ultimately have "dropWhile is_white_space (rev (dropWhile is_white_space s)) \<noteq> []"
      unfolding dropWhile_eq_Nil_conv by blast
    with t show False by (simp add: trim_def)
  qed
next
  assume "\<forall>c\<in>set s. is_white_space c"
  then have d: "dropWhile is_white_space s = []" by (simp add: dropWhile_eq_Nil_conv)
  show "trim s = []" unfolding trim_def d by simp
qed

lemma blank_iff: "(s = [] \<or> trim s = []) \<longleftrightarrow> \<not> well_formed_id s"
  unfolding trim_Nil_iff well_formed_id_def by auto

lemma declare_secrets_ok:
  "\<forall>s\<in>set ids. well_formed_id s \<Longrightarrow> \<exists>m'. declare_secrets name ids m = Inr m'"
proof (induction ids arbitrary: m)
  case Nil
  then show ?case by simp
next
  case (Cons x xs)
  then have "\<not> (x = [] \<or> trim x = [])" unfolding blank_iff by simp
  with Cons show ?case by simp
qed

lemma StandardSecrets_new_ok:
  assumes "ids \<noteq> []" "\<forall>s\<in>set ids. well_formed_id s"
  shows "\<exists>s. StandardSecrets_new name ids = Inr s \<and> secretIds s = ids"
proof -
  from declare_secrets_ok [OF assms(2)] obtain m' where "declare_secrets name ids [] = Inr m'"
    by blast
  with assms(1) show ?thesis by (simp add: StandardSecrets_new_def and_then_simps)
qed

lemma create_secrets_empty: "create_secrets name (Some []) = Inr None"
  by (simp add: create_secrets_def)

lemma create_secrets_not_empty_error: "create_secrets name ids \<noteq> Inl EmptySecretList"
proof (cases ids)
  case None
  then show ?thesis by (simp add: create_secrets_def)
next
  case (Some xs)
  show ?thesis
  proof (cases xs)
    case Nil
    with Some show ?thesis by (simp add: create_secrets_def)
  next
    case (Cons y ys)
    have "declare_secrets n zs m \<noteq> Inl EmptySecretList" for n zs m
      by (induction zs arbitrary: m) auto
    then show ?thesis using Some Cons
      by (auto simp add: create_secrets_def StandardSecrets_new_def and_then_Inl_iff)
  qed
qed

lemma create_None:
  "create_secrets name None = Inr None" "create_identity name pid None = Inr None"
  by (simp_all add: create_secrets_def create_identity_def)

lemma platform_split:
  "StandardPlatform_new name args =
     and_then
       (StandardPlatform_new name (args\<lparr>arg_secretIds := None, arg_workloadIdentity := None\<rparr>))
       (\<lambda>b.
     and_then (create_secrets name (arg_secretIds args)) (\<lambda>s.
     and_then (create_identity name (projectId args) (arg_workloadIdentity args)) (\<lambda>i.
       Inr (b\<lparr>private_secrets := s, private_identity := i\<rparr>))))"
  unfolding StandardPlatform_new_def Let_def
  by (simp add: create_None and_then_def split: sum.split)

lemma validators_errors:
  "validateEnvironment x \<noteq> Inl EmptySecretList"
  "validateRegion x \<noteq> Inl EmptySecretList"
  "validateMachineType x \<noteq> Inl EmptySecretList"
  "validateMaxNodes n \<noteq> Inl EmptySecretList"
  "validateDiskSize n \<noteq> Inl EmptySecretList"
  "validateNodeCount n \<noteq> Inl EmptySecretList"
  by (simp_all add: validateEnvironment_iff validateRegion_iff validateMachineType_iff
      validateMaxNodes_iff validateDiskSize_iff validateNodeCount_iff)

lemma validateMasterCidr_errors: "validateMasterCidr x \<noteq> Inl EmptySecretList"
  unfolding validateMasterCidr_def Let_def by simp

lemma ClusterConfig_new_never: "ClusterConfig_new a \<noteq> Inl EmptySecretList"
proof
  assume "ClusterConfig_new a = Inl EmptySecretList"
  then have "first_error (cluster_steps a) = Some EmptySecretList"
    unfolding ClusterConfig_new_steps by (simp split: option.splits)
  then have "Inl EmptySecretList \<in> set (cluster_steps a)" by (rule first_error_in_set)
  then show False
    unfolding cluster_steps_def Let_def
    by (simp add: validators_errors [THEN not_sym] validateMasterCidr_errors [THEN not_sym]
        split: if_splits)
qed

lemma NetworkConfig_new_never: "NetworkConfig_new a \<noteq> Inl EmptySecretList"
proof
  assume "NetworkConfig_new a = Inl EmptySecretList"
  then have "first_error (network_steps a) = Some EmptySecretList"
    unfolding NetworkConfig_new_steps by (simp split: option.splits)
  then have "Inl EmptySecretList \<in> set (network_steps a)" by (rule first_error_in_set)
  then show False
    unfolding network_steps_def by (simp add: validators_errors [THEN not_sym])
qed

lemma base_secretIds:
  "(args\<lparr>arg_secretIds := x\<rparr>)\<lparr>arg_secretIds := None, arg_workloadIdentity := None\<rparr> =
     args\<lparr>arg_secretIds := None, arg_workloadIdentity := None\<rparr>"
  by simp

lemma base_workloadIdentity:
  "(args\<lparr>arg_workloadIdentity := x\<rparr>)\<lparr>arg_secretIds := None, arg_workloadIdentity := None\<rparr> =
     args\<lparr>arg_secretIds := None, arg_workloadIdentity := None\<rparr>"
  by simp

lemma platform_not_EmptySecretList: "StandardPlatform_new name args \<noteq> Inl EmptySecretList"
proof
  assume a: "StandardPlatform_new name args = Inl EmptySecretList"
  let ?base = "args\<lparr>arg_secretIds := None, arg_workloadIdentity := None\<rparr>"
  have b: "StandardPlatform_new name ?base \<noteq> Inl EmptySecretList"
    unfolding StandardPlatform_new_def Let_def
    by (simp add: create_None and_then_Inl_iff and_then_simps getNetworkConfig_def
        getClusterConfig_merged ClusterConfig_new_never NetworkConfig_new_never)
  have i: "create_identity name (projectId args) (arg_workloadIdentity args) \<noteq> Inl EmptySecretList"
    by (auto simp add: create_identity_def StandardIdentity_new_def Let_def and_then_Inl_iff
        split: option.splits if_splits)
  from a b i create_secrets_not_empty_error [of name "arg_secretIds args"]
  show False
    unfolding platform_split [of name args] and_then_Inl_iff by auto
qed

lemma platform_empty_secretIds:
  "StandardPlatform_new name (args\<lparr>arg_secretIds := Some []\<rparr>) =
     StandardPlatform_new name (args\<lparr>arg_secretIds := None\<rparr>)"
  unfolding platform_split [of name "args\<lparr>arg_secretIds := Some []\<rparr>"]
    platform_split [of name "args\<lparr>arg_secretIds := None\<rparr>"] base_secretIds
  by (simp add: create_None create_secrets_empty)

lemma platform_no_secrets:
  assumes "StandardPlatform_new name (args\<lparr>arg_secretIds := None\<rparr>) = Inr p"
  shows "\<not> hasSecrets p"
  using assms
  unfolding platform_split [of name "args\<lparr>arg_secretIds := None\<rparr>"] and_then_Inr_iff
  by (auto simp add: create_None hasSecrets_def)

lemma platform_with_secrets:
  assumes ids: "ids \<noteq> []" "\<forall>s\<in>set ids. well_formed_id s"
    and base: "StandardPlatform_new name (args\<lparr>arg_secretIds := None\<rparr>) = Inr p0"
  shows "\<exists>p s. StandardPlatform_new name (args\<lparr>arg_secretIds := Some ids\<rparr>) = Inr p \<and>
           hasSecrets p \<and> secrets_of p = Inr s \<and> secretIds s = ids \<and>
           p = p0\<lparr>private_secrets := Some s\<rparr>"
proof -
  from StandardSecrets_new_ok [OF ids, of "name @ js ''-secrets''"]
  obtain s where s: "StandardSecrets_new (name @ js ''-secrets'') ids = Inr s" "secretIds s = ids"
    by blast
  with ids(1) have c: "create_secrets name (Some ids) = Inr (Some s)"
    by (simp add: create_secrets_def and_then_simps)
  from base obtain b i where
    b: "StandardPlatform_new name (args\<lparr>arg_secretIds := None, arg_workloadIdentity := None\<rparr>) = Inr b"
    and i: "create_identity name (projectId args) (arg_workloadIdentity args) = Inr i"
    and p0: "p0 = b\<lparr>private_secrets := None, private_identity := i\<rparr>"
    unfolding platform_split [of name "args\<lparr>arg_secretIds := None\<rparr>"] and_then_Inr_iff
      base_secretIds
    by (auto simp add: create_None)
  have "StandardPlatform_new name (args\<lparr>arg_secretIds := Some ids\<rparr>) =
      Inr (b\<lparr>private_secrets := Some s, private_identity := i\<rparr>)"
    unfolding platform_split [of name "args\<lparr>arg_secretIds := Some ids\<rparr>"] base_secretIds
    by (simp add: b c i and_then_simps)
  with s(2) p0 show ?thesis by (simp add: hasSecrets_def secrets_of_def)
qed

lemma platform_has_secrets:
  assumes "ids \<noteq> []" "StandardPlatform_new name (args\<lparr>arg_secretIds := Some ids\<rparr>) = Inr p"
  shows "hasSecrets p"
proof -
  from assms(2) obtain b s i where
    "create_secrets name (Some ids) = Inr s" "p = b\<lparr>private_secrets := s, private_identity := i\<rparr>"
    unfolding platform_split [of name "args\<lparr>arg_secretIds := Some ids\<rparr>"] and_then_Inr_iff
    by auto
  with assms(1) show ?thesis
    by (auto simp add: create_secrets_def hasSecrets_def and_then_Inr_iff)
qed

text \<open>
  Claim C1, as amended. \<open>StandardSecrets\<close> constructed with the empty list fails with
  \<open>EmptySecretList\<close>, but the composite never does: given \<open>secretIds = []\<close> it skips the
  secrets step and behaves exactly as when \<open>secretIds\<close> is absent, and a platform it
  returns has \<open>hasSecrets\<close> false. For every non-empty list of well-formed ids, when
  the construction without \<open>secretIds\<close> succeeds, the construction with them succeeds,
  declares the secrets group with these ids, and \<open>hasSecrets\<close> is true; and every
  platform constructed with a non-empty list has \<open>hasSecrets\<close> true.
\<close>

theorem platform_secrets:
  "StandardSecrets_new name [] = Inl EmptySecretList \<and>
   StandardPlatform_new name args \<noteq> Inl EmptySecretList \<and>
   StandardPlatform_new name (args\<lparr>arg_secretIds := Some []\<rparr>) =
     StandardPlatform_new name (args\<lparr>arg_secretIds := None\<rparr>) \<and>
   (\<forall>p. StandardPlatform_new name (args\<lparr>arg_secretIds := Some []\<rparr>) = Inr p \<longrightarrow>
        \<not> hasSecrets p) \<and>
   (\<forall>ids p0. ids \<noteq> [] \<and> (\<forall>s\<in>set ids. well_formed_id s) \<and>
        StandardPlatform_new name (args\<lparr>arg_secretIds := None\<rparr>) = Inr p0 \<longrightarrow>
        (\<exists>p s. StandardPlatform_new name (args\<lparr>arg_secretIds := Some ids\<rparr>) = Inr p \<and>
           hasSecrets p \<and> secrets_of p = Inr s \<and> secretIds s = ids)) \<and>
   (\<forall>ids p. ids \<noteq> [] \<and>
        StandardPlatform_new name (args\<lparr>arg_secretIds := Some ids\<rparr>) = Inr p \<longrightarrow>
        hasSecrets p)"
proof (intro conjI allI impI)
  show "hasSecrets p"
    if "ids \<noteq> [] \<and> StandardPlatform_new name (args\<lparr>arg_secretIds := Some ids\<rparr>) = Inr p"
    for ids p
    using that platform_has_secrets [of ids name args p] by blast
  show "StandardSecrets_new name [] = Inl EmptySecretList"
    by (simp add: StandardSecrets_new_def)
  show "StandardPlatform_new name args \<noteq> Inl EmptySecretList"
    by (rule platform_not_EmptySecretList)
  show "StandardPlatform_new name (args\<lparr>arg_secretIds := Some []\<rparr>) =
     StandardPlatform_new name (args\<lparr>arg_secretIds := None\<rparr>)"
    by (rule platform_empty_secretIds)
  show "\<not> hasSecrets p"
    if "StandardPlatform_new name (args\<lparr>arg_secretIds := Some []\<rparr>) = Inr p" for p
    using that unfolding platform_empty_secretIds by (rule platform_no_secrets)
  show "\<exists>p s. StandardPlatform_new name (args\<lparr>arg_secretIds := Some ids\<rparr>) = Inr p \<and>
           hasSecrets p \<and> secrets_of p = Inr s \<and> secretIds s = ids"
    if "ids \<noteq> [] \<and> (\<forall>s\<in>set ids. well_formed_id s) \<and>
        StandardPlatform_new name (args\<lparr>arg_secretIds := None\<rparr>) = Inr p0" for ids p0
    using that platform_with_secrets [of ids name args p0] by blast
qed

theorem platform_empty_secrets_counterexample:
  "map_sum id hasSecrets
     (StandardPlatform_new (js ''test-platform'')
        \<lparr>projectId = js ''test-project'', region = js ''us-central1'', env = js ''dev'',
         prefix = js ''myapp'', arg_secretIds = Some [], arg_workloadIdentity = None,
         arg_clusterOverrides = None, arg_labels = None\<rparr>)
     = Inr False"
  by code_simp

lemma isOK_obtain: "(case r of Inl e \<Rightarrow> False | Inr v \<Rightarrow> True) \<Longrightarrow> \<exists>v. r = Inr v"
  by (cases r) simp_all

theorem platform_secrets_witness:
  "(\<exists>p s. StandardPlatform_new (js ''test-platform'')
        \<lparr>projectId = js ''test-project'', region = js ''us-central1'', env = js ''dev'',
         prefix = js ''myapp'', arg_secretIds = Some [js ''db-password'', js ''api-key''],
         arg_workloadIdentity = None, arg_clusterOverrides = None, arg_labels = None\<rparr>
       = Inr p \<and> hasSecrets p \<and> secrets_of p = Inr s \<and>
       secretIds s = [js ''db-password'', js ''api-key'']) \<and>
   (\<exists>p. StandardPlatform_new (js ''test-platform'')
        \<lparr>projectId = js ''test-project'', region = js ''us-central1'', env = js ''dev'',
         prefix = js ''myapp'', arg_secretIds = Some [],
         arg_workloadIdentity = None, arg_clusterOverrides = None, arg_labels = None\<rparr>
       = Inr p \<and> \<not> hasSecrets p)"
proof -
  let ?a = "\<lparr>projectId = js ''test-project'', region = js ''us-central1'', env = js ''dev'',
         prefix = js ''myapp'', arg_secretIds = None,
         arg_workloadIdentity = None, arg_clusterOverrides = None, arg_labels = None\<rparr>"
  let ?ids = "[js ''db-password'', js ''api-key'']"
  have "case StandardPlatform_new (js ''test-platform'') ?a of Inl e \<Rightarrow> False | Inr v \<Rightarrow> True"
    by code_simp
  then obtain p0 where p0: "StandardPlatform_new (js ''test-platform'') ?a = Inr p0"
    using isOK_obtain by blast
  have ids: "?ids \<noteq> [] \<and> (\<forall>s\<in>set ?ids. well_formed_id s)"
    by (simp add: well_formed_id_def is_white_space_def js_def)
  note t = platform_secrets [of "js ''test-platform''" ?a]
  from t [THEN conjunct2, THEN conjunct2, THEN conjunct2, THEN conjunct2, THEN conjunct1,
      rule_format, of ?ids p0] ids p0
  have w1: "\<exists>p s. StandardPlatform_new (js ''test-platform'') (?a\<lparr>arg_secretIds := Some ?ids\<rparr>)
       = Inr p \<and> hasSecrets p \<and> secrets_of p = Inr s \<and> secretIds s = ?ids"
    by simp
  from t [THEN conjunct2, THEN conjunct2, THEN conjunct1] p0
  have e: "StandardPlatform_new (js ''test-platform'') (?a\<lparr>arg_secretIds := Some []\<rparr>) = Inr p0"
    by simp
  from t [THEN conjunct2, THEN conjunct2, THEN conjunct2, THEN conjunct1, rule_format, OF e] e
  have w2: "\<exists>p. StandardPlatform_new (js ''test-platform'') (?a\<lparr>arg_secretIds := Some []\<rparr>)
       = Inr p \<and> \<not> hasSecrets p"
    by blast
  from w1 w2 show ?thesis by simp
qed

section \<open>The workload identity of the composite\<close>

lemma create_identity_cases:
  "create_identity name pid (Some wi) =
     (if saId wi = [] \<or> k8sNamespace wi = [] \<or> k8sSaName wi = []
      then Inl IncompleteIdentityConfig
      else if pid = [] then Inl BlankProjectId
      else if length (saId wi) < 6 \<or> 30 < length (saId wi)
      then Inl InvalidServiceAccountIdLength
      else Inr (Some
        \<lparr>gsa = \<lparr>account_resource = name @ js ''-identity'' @ js ''-sa'', accountId = saId wi,
                 displayName = js ''Workload Identity SA for '' @ saId wi\<rparr>,
         roleBindings =
           map (\<lambda>(i, role). \<lparr>member_resource = (name @ js ''-identity'', i),
                              member_project = pid, member_role = role\<rparr>)
             (enumerate 0 (nullish (roles wi) [])),
         workloadIdentityBinding =
           \<lparr>binding_resource = name @ js ''-identity'' @ js ''-wi-binding'',
            binding_role = js ''roles/iam.workloadIdentityUser'',
            binding_members =
              [js ''serviceAccount:'' @ pid @ js ''.svc.id.goog['' @ k8sNamespace wi
                 @ js ''/'' @ k8sSaName wi @ js '']'']\<rparr>\<rparr>))"
  unfolding create_identity_def StandardIdentity_new_def Let_def
  by (simp add: and_then_simps nullish_def)

lemma platform_identity_step:
  assumes "StandardPlatform_new name (args\<lparr>arg_workloadIdentity := None\<rparr>) = Inr p0"
  shows "StandardPlatform_new name (args\<lparr>arg_workloadIdentity := Some wi\<rparr>) =
           and_then (create_identity name (projectId args) (Some wi))
             (\<lambda>i. Inr (p0\<lparr>private_identity := i\<rparr>))"
proof -
  from assms obtain b s where
    b: "StandardPlatform_new name (args\<lparr>arg_secretIds := None, arg_workloadIdentity := None\<rparr>) = Inr b"
    and s: "create_secrets name (arg_secretIds args) = Inr s"
    and p0: "p0 = b\<lparr>private_secrets := s, private_identity := None\<rparr>"
    unfolding platform_split [of name "args\<lparr>arg_workloadIdentity := None\<rparr>"] and_then_Inr_iff
      base_workloadIdentity
    by (auto simp add: create_None)
  show ?thesis
    unfolding platform_split [of name "args\<lparr>arg_workloadIdentity := Some wi\<rparr>"]
      base_workloadIdentity
    by (cases "create_identity name (projectId args) (Some wi)")
       (simp_all add: b s p0 and_then_simps)
qed

text \<open>
  Claim C8, as amended. Let the construction of the composite without a workload
  identity succeed, so that the identity step is reached, and let a workload identity
  configuration be supplied. If one of the service-account id, the namespace and the
  service-account name is the empty string, the construction fails with
  \<open>IncompleteIdentityConfig\<close>. Otherwise it fails with \<open>BlankProjectId\<close> if the project
  id of the composite is the empty string; otherwise with
  \<open>InvalidServiceAccountIdLength\<close> if the id has fewer than 6 or more than 30
  characters; otherwise it succeeds, declares the identity group for that id, and
  \<open>hasIdentity\<close> is true.
\<close>

theorem platform_identity:
  "StandardPlatform_new name (args\<lparr>arg_workloadIdentity := None\<rparr>) = Inr p0 \<longrightarrow>
     (saId wi = [] \<or> k8sNamespace wi = [] \<or> k8sSaName wi = [] \<longrightarrow>
        StandardPlatform_new name (args\<lparr>arg_workloadIdentity := Some wi\<rparr>) =
          Inl IncompleteIdentityConfig) \<and>
     (saId wi \<noteq> [] \<and> k8sNamespace wi \<noteq> [] \<and> k8sSaName wi \<noteq> [] \<and> projectId args = [] \<longrightarrow>
        StandardPlatform_new name (args\<lparr>arg_workloadIdentity := Some wi\<rparr>) =
          Inl BlankProjectId) \<and>
     (saId wi \<noteq> [] \<and> k8sNamespace wi \<noteq> [] \<and> k8sSaName wi \<noteq> [] \<and> projectId args \<noteq> [] \<and>
      (length (saId wi) < 6 \<or> 30 < length (saId wi)) \<longrightarrow>
        StandardPlatform_new name (args\<lparr>arg_workloadIdentity := Some wi\<rparr>) =
          Inl InvalidServiceAccountIdLength) \<and>
     (saId wi \<noteq> [] \<and> k8sNamespace wi \<noteq> [] \<and> k8sSaName wi \<noteq> [] \<and> projectId args \<noteq> [] \<and>
      6 \<le> length (saId wi) \<and> length (saId wi) \<le> 30 \<longrightarrow>
        (\<exists>p i. StandardPlatform_new name (args\<lparr>arg_workloadIdentity := Some wi\<rparr>) = Inr p \<and>
           hasIdentity p \<and> identity_of p = Inr i \<and> accountId (gsa i) = saId wi))"
proof (intro impI conjI)
  assume base: "StandardPlatform_new name (args\<lparr>arg_workloadIdentity := None\<rparr>) = Inr p0"
  note step = platform_identity_step [OF base, of wi]
  show "StandardPlatform_new name (args\<lparr>arg_workloadIdentity := Some wi\<rparr>) =
          Inl IncompleteIdentityConfig"
    if "saId wi = [] \<or> k8sNamespace wi = [] \<or> k8sSaName wi = []"
    unfolding step create_identity_cases using that by (simp add: and_then_simps)
  show "StandardPlatform_new name (args\<lparr>arg_workloadIdentity := Some wi\<rparr>) =
          Inl BlankProjectId"
    if "saId wi \<noteq> [] \<and> k8sNamespace wi \<noteq> [] \<and> k8sSaName wi \<noteq> [] \<and> projectId args = []"
    unfolding step create_identity_cases using that by (simp add: and_then_simps)
  show "StandardPlatform_new name (args\<lparr>arg_workloadIdentity := Some wi\<rparr>) =
          Inl InvalidServiceAccountIdLength"
    if "saId wi \<noteq> [] \<and> k8sNamespace wi \<noteq> [] \<and> k8sSaName wi \<noteq> [] \<and> projectId args \<noteq> [] \<and>
      (length (saId wi) < 6 \<or> 30 < length (saId wi))"
    unfolding step create_identity_cases using that by (simp add: and_then_simps)
  show "\<exists>p i. StandardPlatform_new name (args\<lparr>arg_workloadIdentity := Some wi\<rparr>) = Inr p \<and>
           hasIdentity p \<and> identity_of p = Inr i \<and> accountId (gsa i) = saId wi"
    if "saId wi \<noteq> [] \<and> k8sNamespace wi \<noteq> [] \<and> k8sSaName wi \<noteq> [] \<and> projectId args \<noteq> [] \<and>
      6 \<le> length (saId wi) \<and> length (saId wi) \<le> 30"
    unfolding step create_identity_cases using that
    by (simp add: and_then_simps hasIdentity_def identity_of_def)
qed

theorem platform_identity_counterexample:
  "StandardPlatform_new (js ''test-platform'')
     \<lparr>projectId = [], region = js ''us-central1'', env = js ''dev'',
      prefix = js ''myapp'', arg_secretIds = None,
      arg_workloadIdentity =
        Some \<lparr>saId = js ''workload-identity-sa'', k8sNamespace = js ''default'',
              k8sSaName = js ''app-sa'',
              roles = Some [js ''roles/secretmanager.secretAccessor'']\<rparr>,
      arg_clusterOverrides = None, arg_labels = None\<rparr>
     = Inl BlankProjectId"
  by code_simp

theorem platform_identity_witness:
  "StandardPlatform_new (js ''test-platform'')
     \<lparr>projectId = js ''test-project'', region = js ''us-central1'', env = js ''dev'',
      prefix = js ''myapp'', arg_secretIds = None,
      arg_workloadIdentity =
        Some \<lparr>saId = js ''workload-sa'', k8sNamespace = [], k8sSaName = js ''app-sa'',
              roles = None\<rparr>,
      arg_clusterOverrides = None, arg_labels = None\<rparr>
     = Inl IncompleteIdentityConfig \<and>
   StandardPlatform_new (js ''test-platform'')
     \<lparr>projectId = js ''test-project'', region = js ''us-central1'', env = js ''dev'',
      prefix = js ''myapp'', arg_secretIds = None,
      arg_workloadIdentity =
        Some \<lparr>saId = js ''abc'', k8sNamespace = js ''default'', k8sSaName = js ''app-sa'',
              roles = None\<rparr>,
      arg_clusterOverrides = None, arg_labels = None\<rparr>
     = Inl InvalidServiceAccountIdLength \<and>
   (\<exists>p i. StandardPlatform_new (js ''test-platform'')
     \<lparr>projectId = js ''test-project'', region = js ''us-central1'', env = js ''dev'',
      prefix = js ''myapp'', arg_secretIds = None,
      arg_workloadIdentity =
        Some \<lparr>saId = js ''workload-identity-sa'', k8sNamespace = js ''default'',
              k8sSaName = js ''app-sa'',
              roles = Some [js ''roles/secretmanager.secretAccessor'']\<rparr>,
      arg_clusterOverrides = None, arg_labels = None\<rparr>
     = Inr p \<and> hasIdentity p \<and> identity_of p = Inr i \<and>
     accountId (gsa i) = js ''workload-identity-sa'')"
proof -
  let ?a = "\<lparr>projectId = js ''test-project'', region = js ''us-central1'', env = js ''dev'',
      prefix = js ''myapp'', arg_secretIds = None, arg_workloadIdentity = None,
      arg_clusterOverrides = None, arg_labels = None\<rparr>"
  let ?w1 = "\<lparr>saId = js ''workload-sa'', k8sNamespace = [], k8sSaName = js ''app-sa'',
              roles = None\<rparr>"
  let ?w2 = "\<lparr>saId = js ''abc'', k8sNamespace = js ''default'', k8sSaName = js ''app-sa'',
              roles = None\<rparr>"
  let ?w3 = "\<lparr>saId = js ''workload-identity-sa'', k8sNamespace = js ''default'',
              k8sSaName = js ''app-sa'',
              roles = Some [js ''roles/secretmanager.secretAccessor'']\<rparr>"
  have "case StandardPlatform_new (js ''test-platform'') ?a of Inl e \<Rightarrow> False | Inr v \<Rightarrow> True"
    by code_simp
  then obtain p0 where "StandardPlatform_new (js ''test-platform'') ?a = Inr p0"
    using isOK_obtain by blast
  then have p0: "StandardPlatform_new (js ''test-platform'') (?a\<lparr>arg_workloadIdentity := None\<rparr>)
      = Inr p0"
    by simp
  have c1: "StandardPlatform_new (js ''test-platform'') (?a\<lparr>arg_workloadIdentity := Some ?w1\<rparr>)
      = Inl IncompleteIdentityConfig"
    using platform_identity [of "js ''test-platform''" ?a p0 ?w1, rule_format, OF p0,
        THEN conjunct1]
    by (simp add: js_def)
  have c2: "StandardPlatform_new (js ''test-platform'') (?a\<lparr>arg_workloadIdentity := Some ?w2\<rparr>)
      = Inl InvalidServiceAccountIdLength"
    using platform_identity [of "js ''test-platform''" ?a p0 ?w2, rule_format, OF p0,
        THEN conjunct2, THEN conjunct2, THEN conjunct1]
    by (simp add: js_def)
  have c3: "\<exists>p i. StandardPlatform_new (js ''test-platform'')
        (?a\<lparr>arg_workloadIdentity := Some ?w3\<rparr>) = Inr p \<and>
      hasIdentity p \<and> identity_of p = Inr i \<and> accountId (gsa i) = saId ?w3"
    using platform_identity [of "js ''test-platform''" ?a p0 ?w3, rule_format, OF p0,
        THEN conjunct2, THEN conjunct2, THEN conjunct2]
    by (simp add: js_def)
  from c1 c2 c3 show ?thesis by simp
qed

section \<open>The profile of the composite\<close>

lemma selectProfile_class:
  "profile_class (selectProfile pid r e pf) =
     (if e = js ''prod'' then ProdProfile
      else if e = js ''staging'' then StagingProfile else DevProfile)"
  "projectId (selectProfile pid r e pf) = pid" "region (selectProfile pid r e pf) = r"
  "env (selectProfile pid r e pf) = e" "prefix (selectProfile pid r e pf) = pf"
  by (simp_all add: selectProfile_def new_profile_def)

lemma getNetworkConfig_plain:
  "getNetworkConfig p no_network_overrides =
     NetworkConfig_new
       \<lparr>projectId = Some (projectId p), region = region p, env = env p,
        prefix = Some (prefix p), na_cidr = None, na_podCidr = None, na_serviceCidr = None,
        na_podRangeName = None, na_serviceRangeName = None\<rparr>"
  by (simp add: getNetworkConfig_def spread_network_def no_network_overrides_def
      spread_required_def spread_optional_def spread_tested_def interpolate_def)

lemma getNetworkConfig_plain_cases:
  "getNetworkConfig p no_network_overrides =
     (if env p \<notin> set ALLOWED_ENVIRONMENTS then Inl (InvalidEnvironment (env p))
      else if region p \<notin> set ALLOWED_REGIONS then Inl (InvalidRegion (region p))
      else Inr (resolved_network
             \<lparr>projectId = Some (projectId p), region = region p, env = env p,
              prefix = Some (prefix p), na_cidr = None, na_podCidr = None,
              na_serviceCidr = None, na_podRangeName = None, na_serviceRangeName = None\<rparr>))"
  unfolding getNetworkConfig_plain NetworkConfig_new_steps network_steps_def
  by (simp add: validateEnvironment_iff validateRegion_iff)

lemma platform_overrides_fields:
  "pc_env (platform_overrides nc no_cluster_overrides) = Absent"
  "pc_region (platform_overrides nc no_cluster_overrides) = Absent"
  "pc_machineType (platform_overrides nc no_cluster_overrides) = Absent"
  "pc_maxNodes (platform_overrides nc no_cluster_overrides) = Absent"
  "pc_diskSize (platform_overrides nc no_cluster_overrides) = Absent"
  "pc_nodeCount (platform_overrides nc no_cluster_overrides) = Absent"
  "pc_minNodes (platform_overrides nc no_cluster_overrides) = Absent"
  "pc_spotInstances (platform_overrides nc no_cluster_overrides) = Absent"
  "pc_masterCidr (platform_overrides nc no_cluster_overrides) = Absent"
  by (simp_all add: platform_overrides_def spread_overrides_def no_cluster_overrides_def
      spread_property_def)

lemma vpc_outputs:
  "net_resource (network (StandardVPC_new n c)) = n @ js ''-vpc''"
  "sub_resource (subnet (StandardVPC_new n c)) = n @ js ''-subnet''"
  by (simp_all add: StandardVPC_new_def Let_def)

lemma platform_parts:
  assumes "StandardPlatform_new name args = Inr p"
  shows "\<exists>nc cc.
      getNetworkConfig (selectProfile (projectId args) (region args) (env args) (prefix args))
        no_network_overrides = Inr nc \<and>
      getClusterConfig (selectProfile (projectId args) (region args) (env args) (prefix args))
        (platform_overrides nc (nullish (arg_clusterOverrides args) no_cluster_overrides))
        = Inr cc \<and>
      vpc p = StandardVPC_new (name @ js ''-networking'') nc \<and>
      cluster p =
        StandardCluster_new (name @ js ''-compute'')
          \<lparr>config = cc, networkId = OutputId (name @ js ''-networking'' @ js ''-vpc''),
           subnetId = OutputId (name @ js ''-networking'' @ js ''-subnet''),
           labels = Some (nullish (arg_labels args) [])\<rparr>"
  using assms unfolding StandardPlatform_new_def Let_def and_then_Inr_iff vpc_outputs
  by auto

lemma platform_plain_succeeds:
  assumes nc: "getNetworkConfig
                 (selectProfile (projectId args) (region args) (env args) (prefix args))
                 no_network_overrides = Inr nc"
    and cc: "getClusterConfig
               (selectProfile (projectId args) (region args) (env args) (prefix args))
               (platform_overrides nc (nullish (arg_clusterOverrides args) no_cluster_overrides))
             = Inr cc"
    and "arg_secretIds args = None" "arg_workloadIdentity args = None"
  shows "\<exists>p. StandardPlatform_new name args = Inr p"
  unfolding StandardPlatform_new_def Let_def nc cc and_then_simps
  using assms(3,4) by (simp add: create_None and_then_simps)

lemma platform_invalid_env:
  assumes "env args \<notin> set ALLOWED_ENVIRONMENTS"
  shows "StandardPlatform_new name args = Inl (InvalidEnvironment (env args))"
  unfolding StandardPlatform_new_def Let_def getNetworkConfig_plain_cases selectProfile_class
  using assms by (simp add: and_then_simps)

lemma platform_success_valid:
  assumes "StandardPlatform_new name args = Inr p"
  shows "env args \<in> set ALLOWED_ENVIRONMENTS \<and> region args \<in> set ALLOWED_REGIONS"
proof -
  from platform_parts [OF assms] obtain nc where
    "getNetworkConfig (selectProfile (projectId args) (region args) (env args) (prefix args))
       no_network_overrides = Inr nc"
    by blast
  then show ?thesis
    unfolding getNetworkConfig_plain_cases selectProfile_class by (simp split: if_splits)
qed

lemma plain_configs:
  assumes "env p \<in> set ALLOWED_ENVIRONMENTS" "region p \<in> set ALLOWED_REGIONS"
  shows "\<exists>nc cc. getNetworkConfig p no_network_overrides = Inr nc \<and>
           getClusterConfig p (platform_overrides nc no_cluster_overrides) = Inr cc \<and>
           machineType cc = row_machineType (variant_defaults (profile_class p)) \<and>
           diskSize cc = row_diskSizeGb (variant_defaults (profile_class p))"
proof -
  from assms obtain nc where nc: "getNetworkConfig p no_network_overrides = Inr nc"
    unfolding getNetworkConfig_plain_cases by simp
  let ?ov = "platform_overrides nc no_cluster_overrides"
  have "getClusterConfig p ?ov = Inr (resolved_cluster (merged_cluster_args p ?ov))"
    using assms
    by (intro variant_overrides_valid)
       (cases "profile_class p"; simp add: platform_overrides_fields merged_resolved)+
  with nc show ?thesis
    by (simp add: merged_resolved platform_overrides_fields)
qed

lemma pool_row_config:
  "pool_row (nodePool (StandardCluster_new n a)) =
     \<lparr>row_machineType = machineType (config a), row_initialNodeCount = nodeCount (config a),
      row_minNodes = minNodes (config a), row_maxNodes = maxNodes (config a),
      row_useSpotInstances = spotInstances (config a), row_diskSizeGb = diskSize (config a)\<rparr>"
  by (simp add: pool_row_def StandardCluster_new_def Let_def)

lemma platform_pool_row:
  assumes "arg_clusterOverrides args = None" "StandardPlatform_new name args = Inr p"
  shows "pool_row (nodePool (cluster p)) =
           variant_defaults
             (if env args = js ''prod'' then ProdProfile
              else if env args = js ''staging'' then StagingProfile else DevProfile)"
proof -
  let ?P = "selectProfile (projectId args) (region args) (env args) (prefix args)"
  from assms(1) have o: "nullish (arg_clusterOverrides args) no_cluster_overrides = no_cluster_overrides"
    by (simp add: nullish_def)
  from platform_parts [OF assms(2)] obtain nc cc where
    cc: "getClusterConfig ?P (platform_overrides nc no_cluster_overrides) = Inr cc"
    and cl: "cluster p =
        StandardCluster_new (name @ js ''-compute'')
          \<lparr>config = cc, networkId = OutputId (name @ js ''-networking'' @ js ''-vpc''),
           subnetId = OutputId (name @ js ''-networking'' @ js ''-subnet''),
           labels = Some (nullish (arg_labels args) [])\<rparr>"
    unfolding o by blast
  from getClusterConfig_Inr [OF cc]
  have "cc = resolved_cluster (merged_cluster_args ?P (platform_overrides nc no_cluster_overrides))" .
  then have "\<lparr>row_machineType = machineType cc, row_initialNodeCount = nodeCount cc,
      row_minNodes = minNodes cc, row_maxNodes = maxNodes cc,
      row_useSpotInstances = spotInstances cc, row_diskSizeGb = diskSize cc\<rparr> =
      variant_defaults (profile_class ?P)"
    by (simp add: merged_resolved platform_overrides_fields)
  then show ?thesis unfolding cl pool_row_config selectProfile_class by simp
qed

text \<open>
  Claim C7. The composite selects its profile by exact match on \<open>env\<close>: \<open>prod\<close> selects
  the prod (HighAvailability) profile, \<open>staging\<close> the staging (Balanced) profile, and
  every other string, \<open>dev\<close> included, the dev (CostOptimized) profile. Every composite
  that is constructed has declared its network group from the network configuration
  of the selected profile and its cluster group from the cluster configuration that
  the selected profile derives from the overrides; without cluster overrides its node
  pool has the defaults of the variant selected for its \<open>env\<close>: for \<open>staging\<close> machine
  type \<open>n2-standard-2\<close> and disks of 75 GB, for \<open>prod\<close> \<open>n2-standard-4\<close> and 100 GB, for
  \<open>dev\<close> \<open>e2-medium\<close> and 50 GB. With an allowed environment and region and no cluster
  overrides the selected profile derives both configurations, for \<open>staging\<close> a
  \<open>ClusterConfig\<close> with machine type \<open>n2-standard-2\<close> and disk size 75, and the composite
  is constructed when neither secrets nor a workload identity are asked for. With an
  environment outside the allow-list the network configuration of the selected
  profile, the catch-all one, fails with \<open>InvalidEnvironment\<close>, and so does the
  composite.
\<close>

theorem profile_selection:
  "profile_class (selectProfile pid r e pf) =
     (if e = js ''prod'' then ProdProfile
      else if e = js ''staging'' then StagingProfile else DevProfile) \<and>
   profile_class (selectProfile pid r (js ''prod'') pf) = ProdProfile \<and>
   profile_class (selectProfile pid r (js ''staging'') pf) = StagingProfile \<and>
   profile_class (selectProfile pid r (js ''dev'') pf) = DevProfile \<and>
   (e \<noteq> js ''prod'' \<and> e \<noteq> js ''staging'' \<longrightarrow>
      profile_class (selectProfile pid r e pf) = DevProfile) \<and>
   (\<forall>p. StandardPlatform_new name args = Inr p \<longrightarrow>
      (\<exists>nc cc.
         getNetworkConfig
           (selectProfile (projectId args) (region args) (env args) (prefix args))
           no_network_overrides = Inr nc \<and>
         getClusterConfig
           (selectProfile (projectId args) (region args) (env args) (prefix args))
           (platform_overrides nc (nullish (arg_clusterOverrides args) no_cluster_overrides))
           = Inr cc \<and>
         vpc p = StandardVPC_new (name @ js ''-networking'') nc \<and>
         cluster p =
           StandardCluster_new (name @ js ''-compute'')
             \<lparr>config = cc, networkId = OutputId (name @ js ''-networking'' @ js ''-vpc''),
              subnetId = OutputId (name @ js ''-networking'' @ js ''-subnet''),
              labels = Some (nullish (arg_labels args) [])\<rparr>)) \<and>
   (\<forall>p. arg_clusterOverrides args = None \<and> StandardPlatform_new name args = Inr p \<longrightarrow>
        pool_row (nodePool (cluster p)) =
          variant_defaults
            (if env args = js ''prod'' then ProdProfile
             else if env args = js ''staging'' then StagingProfile else DevProfile)) \<and>
   (\<forall>p. env args = js ''staging'' \<and> arg_clusterOverrides args = None \<and>
        StandardPlatform_new name args = Inr p \<longrightarrow>
        pool_machineType (nodePool (cluster p)) = js ''n2-standard-2'' \<and>
        pool_diskSizeGb (nodePool (cluster p)) = 75) \<and>
   (\<forall>p. env args = js ''prod'' \<and> arg_clusterOverrides args = None \<and>
        StandardPlatform_new name args = Inr p \<longrightarrow>
        pool_machineType (nodePool (cluster p)) = js ''n2-standard-4'' \<and>
        pool_diskSizeGb (nodePool (cluster p)) = 100) \<and>
   (\<forall>p. env args = js ''dev'' \<and> arg_clusterOverrides args = None \<and>
        StandardPlatform_new name args = Inr p \<longrightarrow>
        pool_machineType (nodePool (cluster p)) = js ''e2-medium'' \<and>
        pool_diskSizeGb (nodePool (cluster p)) = 50) \<and>
   (env args \<in> set ALLOWED_ENVIRONMENTS \<and> region args \<in> set ALLOWED_REGIONS \<and>
    arg_clusterOverrides args = None \<longrightarrow>
      (\<exists>nc cc.
         getNetworkConfig
           (selectProfile (projectId args) (region args) (env args) (prefix args))
           no_network_overrides = Inr nc \<and>
         getClusterConfig
           (selectProfile (projectId args) (region args) (env args) (prefix args))
           (platform_overrides nc no_cluster_overrides) = Inr cc \<and>
         (env args = js ''staging'' \<longrightarrow>
            machineType cc = js ''n2-standard-2'' \<and> diskSize cc = 75) \<and>
         (arg_secretIds args = None \<and> arg_workloadIdentity args = None \<longrightarrow>
            (\<exists>p. StandardPlatform_new name args = Inr p)))) \<and>
   (env args \<notin> set ALLOWED_ENVIRONMENTS \<longrightarrow>
      getNetworkConfig
        (selectProfile (projectId args) (region args) (env args) (prefix args))
        no_network_overrides = Inl (InvalidEnvironment (env args)) \<and>
      StandardPlatform_new name args = Inl (InvalidEnvironment (env args)))"
proof (intro conjI impI allI)
  show "profile_class (selectProfile pid r e pf) =
     (if e = js ''prod'' then ProdProfile
      else if e = js ''staging'' then StagingProfile else DevProfile)"
    by (rule selectProfile_class)
  show "profile_class (selectProfile pid r (js ''prod'') pf) = ProdProfile"
    by (simp add: selectProfile_class)
  show "profile_class (selectProfile pid r (js ''staging'') pf) = StagingProfile"
    by (simp add: selectProfile_class js_eq_iff)
  show "profile_class (selectProfile pid r (js ''dev'') pf) = DevProfile"
    by (simp add: selectProfile_class js_eq_iff)
  show "profile_class (selectProfile pid r e pf) = DevProfile"
    if "e \<noteq> js ''prod'' \<and> e \<noteq> js ''staging''"
    using that by (simp add: selectProfile_class)
  show "\<exists>nc cc.
         getNetworkConfig
           (selectProfile (projectId args) (region args) (env args) (prefix args))
           no_network_overrides = Inr nc \<and>
         getClusterConfig
           (selectProfile (projectId args) (region args) (env args) (prefix args))
           (platform_overrides nc (nullish (arg_clusterOverrides args) no_cluster_overrides))
           = Inr cc \<and>
         vpc p = StandardVPC_new (name @ js ''-networking'') nc \<and>
         cluster p =
           StandardCluster_new (name @ js ''-compute'')
             \<lparr>config = cc, networkId = OutputId (name @ js ''-networking'' @ js ''-vpc''),
              subnetId = OutputId (name @ js ''-networking'' @ js ''-subnet''),
              labels = Some (nullish (arg_labels args) [])\<rparr>"
    if "StandardPlatform_new name args = Inr p" for p
    using that by (rule platform_parts)
  show "pool_row (nodePool (cluster p)) =
          variant_defaults
            (if env args = js ''prod'' then ProdProfile
             else if env args = js ''staging'' then StagingProfile else DevProfile)"
    if "arg_clusterOverrides args = None \<and> StandardPlatform_new name args = Inr p" for p
    using that platform_pool_row [of args name p] by simp
  show "pool_machineType (nodePool (cluster p)) = js ''n2-standard-2''"
    "pool_diskSizeGb (nodePool (cluster p)) = 75"
    if "env args = js ''staging'' \<and> arg_clusterOverrides args = None \<and>
        StandardPlatform_new name args = Inr p" for p
    using that platform_pool_row [of args name p]
    by (simp_all add: pool_row_def js_eq_iff)
  show "pool_machineType (nodePool (cluster p)) = js ''n2-standard-4''"
    "pool_diskSizeGb (nodePool (cluster p)) = 100"
    if "env args = js ''prod'' \<and> arg_clusterOverrides args = None \<and>
        StandardPlatform_new name args = Inr p" for p
    using that platform_pool_row [of args name p]
    by (simp_all add: pool_row_def js_eq_iff)
  show "pool_machineType (nodePool (cluster p)) = js ''e2-medium''"
    "pool_diskSizeGb (nodePool (cluster p)) = 50"
    if "env args = js ''dev'' \<and> arg_clusterOverrides args = None \<and>
        StandardPlatform_new name args = Inr p" for p
    using that platform_pool_row [of args name p]
    by (simp_all add: pool_row_def js_eq_iff)
  show "getNetworkConfig
        (selectProfile (projectId args) (region args) (env args) (prefix args))
        no_network_overrides = Inl (InvalidEnvironment (env args))"
    if "env args \<notin> set ALLOWED_ENVIRONMENTS"
    using that unfolding getNetworkConfig_plain_cases selectProfile_class by simp
  show "StandardPlatform_new name args = Inl (InvalidEnvironment (env args))"
    if "env args \<notin> set ALLOWED_ENVIRONMENTS"
    using that by (rule platform_invalid_env)
next
  assume h: "env args \<in> set ALLOWED_ENVIRONMENTS \<and> region args \<in> set ALLOWED_REGIONS \<and>
    arg_clusterOverrides args = None"
  let ?P = "selectProfile (projectId args) (region args) (env args) (prefix args)"
  have "env ?P \<in> set ALLOWED_ENVIRONMENTS" "region ?P \<in> set ALLOWED_REGIONS"
    using h by (simp_all add: selectProfile_class)
  from plain_configs [OF this] obtain nc cc where
    nc: "getNetworkConfig ?P no_network_overrides = Inr nc"
    and cc: "getClusterConfig ?P (platform_overrides nc no_cluster_overrides) = Inr cc"
    and v: "machineType cc = row_machineType (variant_defaults (profile_class ?P))"
      "diskSize cc = row_diskSizeGb (variant_defaults (profile_class ?P))"
    by blast
  from h have o: "nullish (arg_clusterOverrides args) no_cluster_overrides = no_cluster_overrides"
    by (simp add: nullish_def)
  from cc have cc': "getClusterConfig ?P
      (platform_overrides nc (nullish (arg_clusterOverrides args) no_cluster_overrides)) = Inr cc"
    unfolding o .
  have a: "machineType cc = js ''n2-standard-2'' \<and> diskSize cc = 75"
    if "env args = js ''staging''"
    using v that by (simp add: selectProfile_class js_eq_iff)
  have b: "\<exists>p. StandardPlatform_new name args = Inr p"
    if "arg_secretIds args = None \<and> arg_workloadIdentity args = None"
    using platform_plain_succeeds [OF nc cc', of name] that by simp
  from nc cc a b
  show "\<exists>nc cc.
         getNetworkConfig ?P no_network_overrides = Inr nc \<and>
         getClusterConfig ?P (platform_overrides nc no_cluster_overrides) = Inr cc \<and>
         (env args = js ''staging'' \<longrightarrow>
            machineType cc = js ''n2-standard-2'' \<and> diskSize cc = 75) \<and>
         (arg_secretIds args = None \<and> arg_workloadIdentity args = None \<longrightarrow>
            (\<exists>p. StandardPlatform_new name args = Inr p))"
    by blast
qed

theorem profile_selection_witness:
  "profile_class (selectProfile (js ''test-project'') (js ''us-central1'') (js ''qa'') (js ''myapp''))
     = DevProfile \<and>
   (\<exists>p. StandardPlatform_new (js ''test-platform'')
      \<lparr>projectId = js ''test-project'', region = js ''us-central1'', env = js ''staging'',
       prefix = js ''myapp'', arg_secretIds = None, arg_workloadIdentity = None,
       arg_clusterOverrides = None, arg_labels = None\<rparr> = Inr p \<and>
      pool_machineType (nodePool (cluster p)) = js ''n2-standard-2'' \<and>
      pool_diskSizeGb (nodePool (cluster p)) = 75) \<and>
   (\<exists>p. StandardPlatform_new (js ''test-platform'')
      \<lparr>projectId = js ''test-project'', region = js ''us-central1'', env = js ''prod'',
       prefix = js ''myapp'', arg_secretIds = None, arg_workloadIdentity = None,
       arg_clusterOverrides = None, arg_labels = None\<rparr> = Inr p \<and>
      pool_machineType (nodePool (cluster p)) = js ''n2-standard-4'' \<and>
      pool_diskSizeGb (nodePool (cluster p)) = 100) \<and>
   (\<exists>p. StandardPlatform_new (js ''test-platform'')
      \<lparr>projectId = js ''test-project'', region = js ''us-central1'', env = js ''dev'',
       prefix = js ''myapp'', arg_secretIds = None, arg_workloadIdentity = None,
       arg_clusterOverrides = None, arg_labels = None\<rparr> = Inr p \<and>
      pool_machineType (nodePool (cluster p)) = js ''e2-medium'' \<and>
      pool_diskSizeGb (nodePool (cluster p)) = 50) \<and>
   StandardPlatform_new (js ''test-platform'')
      \<lparr>projectId = js ''test-project'', region = js ''us-central1'', env = js ''qa'',
       prefix = js ''myapp'', arg_secretIds = None, arg_workloadIdentity = None,
       arg_clusterOverrides = None, arg_labels = None\<rparr>
     = Inl (InvalidEnvironment (js ''qa''))"
proof -
  let ?a = "\<lambda>e. \<lparr>projectId = js ''test-project'', region = js ''us-central1'', env = js e,
       prefix = js ''myapp'', arg_secretIds = None, arg_workloadIdentity = None,
       arg_clusterOverrides = None, arg_labels = None\<rparr>"
  have h: "env (?a e) \<in> set ALLOWED_ENVIRONMENTS \<and> region (?a e) \<in> set ALLOWED_REGIONS \<and>
      arg_clusterOverrides (?a e) = None"
    if "e = ''staging'' \<or> e = ''prod'' \<or> e = ''dev''" for e
    using that by (auto simp add: ALLOWED_ENVIRONMENTS_def ALLOWED_REGIONS_def js_eq_iff)
  have q: "js ''qa'' \<noteq> js ''prod'' \<and> js ''qa'' \<noteq> js ''staging''"
    by (simp add: js_eq_iff)
  have nq: "env (?a ''qa'') \<notin> set ALLOWED_ENVIRONMENTS"
    by (simp add: ALLOWED_ENVIRONMENTS_def js_eq_iff)
  note t = profile_selection [of "js ''test-project''" "js ''us-central1''" "js ''qa''"
      "js ''myapp''" "js ''test-platform''"]
  note sel = t [THEN conjunct2, THEN conjunct2, THEN conjunct2, THEN conjunct2]
  note comp = sel [THEN conjunct2, THEN conjunct2, THEN conjunct2]
  have w1: "profile_class
      (selectProfile (js ''test-project'') (js ''us-central1'') (js ''qa'') (js ''myapp''))
     = DevProfile"
    using sel [of "?a ''dev''", THEN conjunct1, rule_format, OF q] .
  have ex: "\<exists>p. StandardPlatform_new (js ''test-platform'') (?a e) = Inr p"
    if "e = ''staging'' \<or> e = ''prod'' \<or> e = ''dev''" for e
    using comp [of "?a e", THEN conjunct2, THEN conjunct2, THEN conjunct2, THEN conjunct1,
        rule_format, OF h [OF that]]
    by (simp, blast)
  from ex [of "''staging''"] obtain p1 where
    p1: "StandardPlatform_new (js ''test-platform'') (?a ''staging'') = Inr p1"
    by auto
  from ex [of "''prod''"] obtain p2 where
    p2: "StandardPlatform_new (js ''test-platform'') (?a ''prod'') = Inr p2"
    by auto
  from ex [of "''dev''"] obtain p3 where
    p3: "StandardPlatform_new (js ''test-platform'') (?a ''dev'') = Inr p3"
    by auto
  have w2: "pool_machineType (nodePool (cluster p1)) = js ''n2-standard-2'' \<and>
      pool_diskSizeGb (nodePool (cluster p1)) = 75"
    using comp [of "?a ''staging''", THEN conjunct1, rule_format, of p1] p1 by simp
  have w3: "pool_machineType (nodePool (cluster p2)) = js ''n2-standard-4'' \<and>
      pool_diskSizeGb (nodePool (cluster p2)) = 100"
    using comp [of "?a ''prod''", THEN conjunct2, THEN conjunct1, rule_format, of p2] p2
    by simp
  have w4: "pool_machineType (nodePool (cluster p3)) = js ''e2-medium'' \<and>
      pool_diskSizeGb (nodePool (cluster p3)) = 50"
    using comp [of "?a ''dev''", THEN conjunct2, THEN conjunct2, THEN conjunct1, rule_format,
        of p3] p3
    by simp
  have w5: "StandardPlatform_new (js ''test-platform'') (?a ''qa'')
     = Inl (InvalidEnvironment (js ''qa''))"
    using comp [of "?a ''qa''", THEN conjunct2, THEN conjunct2, THEN conjunct2, THEN conjunct2,
        rule_format, OF nq, THEN conjunct2]
    by simp
  from w1 p1 w2 p2 w3 p3 w4 w5 show ?thesis by simp
qed

end
